theory Spec2Isabelle
  imports Complex_Main "HOL-Library.Word" "HOL-Library.Signed_Division"
begin

unbundle bit_operations_syntax

section \<open>Collaborator calls, errors\<close>

text \<open>
  The two source files drive a number of collaborators whose code lives in other headers
  (the moving environment, the effective Hamiltonian, the operator functions, the
  communicator of the parallel rule, the memory frame).  A call to a collaborator is
  recorded as an event: the callee as written in the source, and the arguments the source
  passes that are plain values.  Objects are referred to by an integer handle.
  C++ \<open>double\<close> and \<open>long double\<close> values are idealised as real numbers.
\<close>

text \<open>
  The enumerations of \<open>sweep_algorithm.hpp\<close>, and those of the moving environment that
  the source names (\<open>NoiseTypes\<close>, \<open>TruncationTypes\<close>, \<open>FuseTypes\<close>); a constructor
  that would clash with another one carries a prefix.
\<close>

datatype DecompositionTypes = SVD | DecompDensityMatrix

datatype TETypes = TangentSpace | RK4

datatype TruncPatternTypes = TruncNone | TruncAfterOdd | TruncAfterEven

datatype NoiseTypes = NoiseNone | Wavefunction | DensityMatrix | Perturbative

datatype TruncationTypes = Physical | Reduced

datatype FuseTypes = FuseL | FuseR | FuseLR

datatype arg =
    I int | R real | B bool | Is "int list" | Rs "real list" | S string
  | N NoiseTypes | T TruncationTypes | F FuseTypes

datatype event = Call string "arg list"

text \<open>
  \<open>assert\<close> aborts the run; \<open>throw runtime_error\<close> is an exception the caller can catch;
  an access outside a container, the use of a null pointer and a resize that cannot be
  served are kept apart from both.
\<close>

datatype error =
  AssertionFailed | RuntimeError string | OutOfRange | NullPointer | LengthError

fun fname :: "event \<Rightarrow> string" where
  "fname (Call f as) = f"

fun fargs :: "event \<Rightarrow> arg list" where
  "fargs (Call f as) = as"

definition calls_of :: "string \<Rightarrow> event list \<Rightarrow> event list" where
  "calls_of f evs = filter (\<lambda>e. fname e = f) evs"

section \<open>Operator expressions\<close>

text \<open>
  Modelled from the spec: the expression tree of \<open>expr.hpp\<close>, which is not among the sources:
  Zero, a single operator, a product string \<open>(a, b, conj, factor)\<close>, a sum of product
  strings, and a reference \<open>ExprRef\<close> carrying the locality flag and the inner expression.
  The fields are the ones the two source files read (\<open>op->a\<close>, \<open>op->b\<close>, \<open>op->conj\<close>,
  \<open>op->factor\<close>, \<open>op->strings\<close>, \<open>op->op\<close>, \<open>op->is_local\<close>, \<open>->q_label\<close>).
  Quantum labels are integers here.
\<close>

record op_element =
  name :: string
  site_index :: "nat list"
  q_label :: int
  el_factor :: real

record op_string =
  factor :: real
  conj :: "8 word"
  a :: op_element
  b :: "op_element option"

datatype op_expr =
    Zero
  | Elem op_element
  | Prod op_string
  | Sum "op_string list"
  | ExprRef bool op_expr

datatype SeqTypes = SeqNone | Simple | Auto

type_synonym opmap = "op_element \<Rightarrow> nat option"

text \<open>A loop over a vector whose body may fail: the first failure ends it.\<close>

fun for_each :: "('a \<Rightarrow> error + event list) \<Rightarrow> 'a list \<Rightarrow> error + event list" where
  "for_each f [] = Inr []"
| "for_each f (x # xs) =
     (case f x of
        Inl e \<Rightarrow> Inl e
      | Inr evs \<Rightarrow> (case for_each f xs of Inl e \<Rightarrow> Inl e | Inr evs' \<Rightarrow> Inr (evs @ evs')))"

section \<open>ParallelTensorFunctions::tensor_product_multiply\<close>

text \<open>
  \<open>vmat = expr x cmat\<close>.  The result is the list of collaborator calls made, or the
  failed assertion.  \<open>cmat\<close> and \<open>vmat\<close> are the handles of the input and output vectors.
\<close>

definition tensor_product_multiply_Prod ::
  "op_string \<Rightarrow> opmap \<Rightarrow> opmap \<Rightarrow> nat \<Rightarrow> nat \<Rightarrow> int \<Rightarrow> error + event list" where
  "tensor_product_multiply_Prod op lop rop cmat vmat opdq =
     (case b op of
        None \<Rightarrow> Inl AssertionFailed
      | Some opb \<Rightarrow>
          (case (lop (a op), rop opb) of
             (Some lmat, Some rmat) \<Rightarrow>
               Inr [Call ''opf->tensor_product_multiply''
                      [I (uint (conj op)), I (int lmat), I (int rmat), I (int cmat),
                       I (int vmat), I opdq, R (factor op)]]
           | _ \<Rightarrow> Inl AssertionFailed))"

fun tensor_product_multiply ::
  "op_expr \<Rightarrow> opmap \<Rightarrow> opmap \<Rightarrow> nat \<Rightarrow> nat \<Rightarrow> int \<Rightarrow> bool \<Rightarrow> error + event list" where
  "tensor_product_multiply (Prod op) lop rop cmat vmat opdq all_reduce =
     tensor_product_multiply_Prod op lop rop cmat vmat opdq"
| "tensor_product_multiply (Sum strings) lop rop cmat vmat opdq all_reduce =
     for_each (\<lambda>x. tensor_product_multiply_Prod x lop rop cmat vmat opdq) strings"
| "tensor_product_multiply (ExprRef is_local op) lop rop cmat vmat opdq all_reduce =
     (case tensor_product_multiply op lop rop cmat vmat opdq False of
        Inl e \<Rightarrow> Inl e
      | Inr evs \<Rightarrow>
          Inr (evs @ (if all_reduce then [Call ''rule->comm->allreduce_sum'' [I (int vmat)]]
                      else [])))"
| "tensor_product_multiply Zero lop rop cmat vmat opdq all_reduce = Inr []"
| "tensor_product_multiply (Elem e) lop rop cmat vmat opdq all_reduce = Inl AssertionFailed"

text \<open>What the calls do to the numeric data, for any meaning \<open>sem\<close> of a single call.\<close>

definition run_events :: "(event \<Rightarrow> 'v \<Rightarrow> 'v) \<Rightarrow> event list \<Rightarrow> 'v \<Rightarrow> 'v" where
  "run_events sem evs v = fold sem evs v"

fun is_ExprRef :: "op_expr \<Rightarrow> bool" where
  "is_ExprRef (ExprRef l e) = True"
| "is_ExprRef _ = False"

section \<open>ParallelTensorFunctions::tensor_product_partial_multiply\<close>

text \<open>
  The quantum-label algebra, the sequencing mode of the operator functions and the parallel
  rule are collaborators; what the source reads from them is a parameter of the model:
  negation and fusion of labels (\<open>pks.count()\<close>, \<open>pks[k]\<close> as a list), the order on
  labels, the default label \<open>S()\<close>; the sequencing mode \<open>opf->seq->mode\<close>; the root
  \<open>rule->comm->root\<close>; \<open>rule->owner\<close>, \<open>rule->localize_expr\<close> (the flag and the
  expression of the reference it returns), \<open>abs_value\<close>, the product \<open>expr * (1 / f)\<close>
  of an expression with the inverse of a factor \<open>f\<close> (the division included, so that the
  infinite quotient of a zero factor is not given a value here), and \<open>get_op\<close> of a product
  string.
\<close>

record qalg =
  qneg :: "int \<Rightarrow> int"
  qadd :: "int \<Rightarrow> int \<Rightarrow> int list"
  qless :: "int \<Rightarrow> int \<Rightarrow> bool"
  qzero :: int

record ptf =
  seq_mode :: SeqTypes
  comm_root :: int
  qal :: qalg
  owner :: "op_element \<Rightarrow> int"
  localize_expr :: "op_expr \<Rightarrow> int \<Rightarrow> bool \<times> op_expr"
  abs_value :: "op_expr \<Rightarrow> op_element"
  times_inverse :: "op_expr \<Rightarrow> real \<Rightarrow> op_expr"
  get_op :: "op_string \<Rightarrow> op_element"

record sparse_matrix =
  mat_id :: nat
  delta_quantum :: int
  cinfo :: nat

text \<open>\<open>std::lower_bound\<close> on a range partitioned by \<open>lt _ key\<close>, as an index.\<close>

definition lower_bound :: "('a \<Rightarrow> 'a \<Rightarrow> bool) \<Rightarrow> 'a list \<Rightarrow> 'a \<Rightarrow> nat" where
  "lower_bound lt xs key = length (takeWhile (\<lambda>x. lt x key) xs)"

definition pair_less :: "qalg \<Rightarrow> 8 word \<times> int \<Rightarrow> 8 word \<times> int \<Rightarrow> bool" where
  "pair_less q x y = (fst x < fst y \<or> (\<not> fst y < fst x \<and> qless q (snd x) (snd y)))"

definition i_op :: "qalg \<Rightarrow> op_element" where
  "i_op q = \<lparr>name = ''I'', site_index = [], q_label = qzero q, el_factor = 1\<rparr>"

text \<open>The body of the loop over \<open>k < pks.count()\<close>.\<close>

definition partial_step ::
  "qalg \<Rightarrow> 8 word \<Rightarrow> nat \<Rightarrow> nat \<Rightarrow> sparse_matrix \<Rightarrow> int \<Rightarrow> real \<Rightarrow> int list \<Rightarrow> nat \<Rightarrow>
   nat list list \<Rightarrow> int list \<Rightarrow> nat list \<Rightarrow> nat \<Rightarrow> error + event list" where
  "partial_step q cj lmat rmat cmat opdq fac pks ij cinfos vdqs vmats k =
     (let vdq = pks ! k;
          iv = lower_bound (qless q) vdqs vdq
      in if iv < length vmats \<and> ij < length cinfos \<and> k < length (cinfos ! ij) then
           Inr [Call ''cmat->info->cinfo ='' [I (int (cinfos ! ij ! k))],
                Call ''opf->tensor_product_multiply''
                  [I (uint cj), I (int lmat), I (int rmat), I (int (mat_id cmat)),
                   I (int (vmats ! iv)), I opdq, R fac]]
         else Inl OutOfRange)"

definition tensor_product_partial_multiply_Prod ::
  "ptf \<Rightarrow> op_string \<Rightarrow> opmap \<Rightarrow> opmap \<Rightarrow> bool \<Rightarrow> sparse_matrix \<Rightarrow> (8 word \<times> int) list \<Rightarrow>
   nat list list \<Rightarrow> int list \<Rightarrow> nat list \<Rightarrow> error + event list" where
  "tensor_product_partial_multiply_Prod p op lop rop trace_right cmat psubsl cinfos vdqs vmats =
     (let q = qal p in
      case b op of
        None \<Rightarrow> Inl AssertionFailed
      | Some opb \<Rightarrow>
          (if trace_right then
             (case (lop (a op), rop (i_op q)) of
                (Some lmat, Some rmat) \<Rightarrow>
                  (let opdq = (if conj op AND 1 \<noteq> 0 then qneg q (q_label (a op))
                               else q_label (a op));
                       pks = qadd q (delta_quantum cmat) opdq;
                       ij = lower_bound (pair_less q) psubsl (conj op AND 1, opdq)
                   in case for_each
                             (partial_step q (conj op AND 1) lmat rmat cmat opdq (factor op)
                                pks ij cinfos vdqs vmats) [0..<length pks] of
                        Inl e \<Rightarrow> Inl e
                      | Inr evs \<Rightarrow>
                          Inr (evs @ [Call ''cmat->info->cinfo ='' [I (int (cinfo cmat))]]))
              | _ \<Rightarrow> Inl AssertionFailed)
           else
             (case (lop (i_op q), rop opb) of
                (Some lmat, Some rmat) \<Rightarrow>
                  (let opdq = (if conj op AND 2 \<noteq> 0 then qneg q (q_label opb)
                               else q_label opb);
                       pks = qadd q (delta_quantum cmat) opdq;
                       ij = lower_bound (pair_less q) psubsl
                              (if conj op AND 2 \<noteq> 0 then 1 else 0, opdq)
                   in case for_each
                             (partial_step q (conj op AND 2) lmat rmat cmat opdq (factor op)
                                pks ij cinfos vdqs vmats) [0..<length pks] of
                        Inl e \<Rightarrow> Inl e
                      | Inr evs \<Rightarrow>
                          Inr (evs @ [Call ''cmat->info->cinfo ='' [I (int (cinfo cmat))]]))
              | _ \<Rightarrow> Inl AssertionFailed)))"

fun tensor_product_partial_multiply ::
  "ptf \<Rightarrow> op_expr \<Rightarrow> opmap \<Rightarrow> opmap \<Rightarrow> bool \<Rightarrow> sparse_matrix \<Rightarrow> (8 word \<times> int) list \<Rightarrow>
   nat list list \<Rightarrow> int list \<Rightarrow> nat list \<Rightarrow> error + event list" where
  "tensor_product_partial_multiply p (Prod op) lop rop trace_right cmat psubsl cinfos vdqs vmats =
     tensor_product_partial_multiply_Prod p op lop rop trace_right cmat psubsl cinfos vdqs vmats"
| "tensor_product_partial_multiply p (Sum strings) lop rop trace_right cmat psubsl cinfos vdqs vmats =
     for_each (\<lambda>x. tensor_product_partial_multiply_Prod p x lop rop trace_right cmat psubsl
                      cinfos vdqs vmats) strings"
| "tensor_product_partial_multiply p (ExprRef is_local op) lop rop trace_right cmat psubsl cinfos
       vdqs vmats =
     (case tensor_product_partial_multiply p op lop rop trace_right cmat psubsl cinfos vdqs vmats of
        Inl e \<Rightarrow> Inl e
      | Inr evs \<Rightarrow>
          Inr (evs @ (if seq_mode p \<noteq> Auto
                      then [Call ''rule->comm->reduce_sum'' [Is (map int vmats), I (comm_root p)]]
                      else [])))"
| "tensor_product_partial_multiply p Zero lop rop trace_right cmat psubsl cinfos vdqs vmats = Inr []"
| "tensor_product_partial_multiply p (Elem e) lop rop trace_right cmat psubsl cinfos vdqs vmats =
     Inl AssertionFailed"

section \<open>ParallelTensorFunctions::numerical_transform\<close>

text \<open>
  An operator tensor: the entries of the map \<open>ops\<close> in iteration order, each with the
  handle of its matrix and whether its data is allocated, and the two symbolic vectors.
\<close>

record operator_tensor =
  ops :: "(op_element \<times> nat \<times> bool) list"
  lmat :: "op_expr list option"
  rmat :: "op_expr list option"









section \<open>What numerical_transform has to issue\<close>








section \<open>Reading the recorded calls\<close>

text \<open>A call that accumulates into the vector \<open>v\<close>: a product applied into it, or its all-reduce.\<close>

fun accumulates_into :: "nat \<Rightarrow> event \<Rightarrow> bool" where
  "accumulates_into v (Call f as) =
     (if f = ''opf->tensor_product_multiply'' then length as = 7 \<and> as ! 4 = I (int v)
      else if f = ''rule->comm->allreduce_sum'' then as = [I (int v)]
      else False)"

text \<open>The number of \<open>ExprRef\<close> nodes wrapped around an expression.\<close>

fun ref_depth :: "op_expr \<Rightarrow> nat" where
  "ref_depth (ExprRef l e) = Suc (ref_depth e)"
| "ref_depth _ = 0"

text \<open>Sample collaborators, for evaluating the model on concrete inputs.\<close>

definition sample_rule :: "SeqTypes \<Rightarrow> ptf" where
  "sample_rule m =
     \<lparr>seq_mode = m, comm_root = 0,
      qal = \<lparr>qneg = uminus, qadd = (\<lambda>x y. [x + y]), qless = (<), qzero = 0\<rparr>,
      owner = (\<lambda>e. int (length (name e)) mod 2),
      localize_expr = (\<lambda>e r. (r = 0, e)),
      abs_value = (\<lambda>e. case e of Elem x \<Rightarrow> x\<lparr>el_factor := 1\<rparr>
                          | _ \<Rightarrow> \<lparr>name = [], site_index = [], q_label = 0, el_factor = 1\<rparr>),
      times_inverse = (\<lambda>e c. case e of
                 Sum ss \<Rightarrow> Sum (map (\<lambda>s. s\<lparr>factor := factor s / c\<rparr>) ss)
               | Prod s \<Rightarrow> Prod (s\<lparr>factor := factor s / c\<rparr>)
               | _ \<Rightarrow> e),
      get_op = a\<rparr>"

definition sample_op :: "string \<Rightarrow> op_element" where
  "sample_op n = \<lparr>name = n, site_index = [], q_label = 0, el_factor = 1\<rparr>"

definition sample_ops :: "op_element \<Rightarrow> nat option" where
  "sample_ops e = (if name e = ''A'' then Some 1 else if name e = ''B'' then Some 2
                   else if name e = ''I'' then Some 3 else None)"

definition sample_string :: "string \<Rightarrow> string \<Rightarrow> real \<Rightarrow> op_string" where
  "sample_string x y f = \<lparr>factor = f, conj = 0, a = sample_op x, b = Some (sample_op y)\<rparr>"


section \<open>The sweep driver: state and collaborators\<close>

text \<open>
  An MPS object as the drivers see it: the canonical-form tags, and for a \<open>MultiMPS\<close> the
  number of roots and the weights.  The tensors, the bond bases and the storage belong to
  the collaborators: the drivers reach them only through calls, so the model keeps the tags
  apart from everything the collaborators write.  MPS objects live in a store and are named
  by their handle, so that the bra and the ket of an environment may be one object.
\<close>

record mps =
  canonical_form :: string
  multi :: bool
  nroots :: nat
  mps_weights :: "real list"

record moving_environment =
  bra :: nat
  ket :: nat
  dot :: int
  n_sites :: int
  const_e :: real

record world =
  store :: "nat \<Rightarrow> mps"
  trace :: "event list"

text \<open>
  What a driver reads back from its collaborators is a function of the calls made so far:
  whether \<open>mps->tensors[i]\<close> is set, \<open>me->center\<close>, and the values returned by the
  effective Hamiltonian and by the splitting functions.
\<close>

record obs =
  tensor_loaded :: "event list \<Rightarrow> nat \<Rightarrow> int \<Rightarrow> bool"
  center :: "event list \<Rightarrow> int"
  eigs :: "event list \<Rightarrow> real \<times> int \<times> nat \<times> real"
  multi_eigs :: "event list \<Rightarrow> real list \<times> int \<times> nat \<times> real"
  delta_quanta :: "event list \<Rightarrow> nat \<Rightarrow> (int \<times> real) list"
  split_error :: "event list \<Rightarrow> real"
  expo_apply :: "event list \<Rightarrow> real \<times> real \<times> int \<times> nat \<times> real"
  rk4_apply :: "event list \<Rightarrow> nat \<times> real \<times> real \<times> int \<times> nat \<times> real"
  multiply :: "event list \<Rightarrow> real \<times> nat \<times> real"
  expect :: "event list \<Rightarrow> (nat \<times> real) list \<times> nat \<times> real"
  multi_expect :: "event list \<Rightarrow> (nat \<times> real list) list \<times> nat \<times> real"

definition emit :: "event list \<Rightarrow> world \<Rightarrow> world" where
  "emit evs w = w\<lparr>trace := trace w @ evs\<rparr>"

definition form :: "world \<Rightarrow> nat \<Rightarrow> string" where
  "form w m = canonical_form (store w m)"

text \<open>
  Reading \<open>canonical_form[i]\<close>: the character one past the end of a \<open>std::string\<close> is the
  null character; any other position outside the string is not to be read.
\<close>

definition tag_at :: "string \<Rightarrow> int \<Rightarrow> char option" where
  "tag_at s i =
     (if 0 \<le> i \<and> nat i < length s then Some (s ! nat i)
      else if 0 \<le> i \<and> nat i = length s then Some (CHR 0x00)
      else None)"

text \<open>
  The two assignments \<open>canonical_form[i] = x; canonical_form[i + 1] = y\<close> on the object
  \<open>m\<close>; both positions have to lie inside the string.
\<close>

definition set_tags :: "nat \<Rightarrow> int \<Rightarrow> char \<Rightarrow> char \<Rightarrow> world \<Rightarrow> error + world" where
  "set_tags m i x y w =
     (if 0 \<le> i \<and> nat i + 1 < length (form w m) then
        Inr (w\<lparr>store := (store w)
                (m := (store w m)\<lparr>canonical_form :=
                                     (canonical_form (store w m))[nat i := x, nat i + 1 := y]\<rparr>)\<rparr>)
      else Inl OutOfRange)"

text \<open>
  The common fields of the four drivers are declared once, the structs of the source being
  extensions of one another here, since field names are global.  Printing to \<open>cout\<close> and the
  timers are left out.
\<close>

record driver =
  me :: moving_environment
  forward :: bool
  trunc_type :: TruncationTypes
  iprint :: "8 word"
  cutoff :: real

record noisy_driver = driver +
  noises :: "real list"
  noise_type :: NoiseTypes

record scheduled_driver = noisy_driver +
  bond_dims :: "16 word list"

section \<open>DMRG\<close>

record dmrg = scheduled_driver +
  energies :: "real list list"
  mps_quanta :: "(int \<times> real) list list list"
  davidson_conv_thrds :: "real list"
  davidson_max_iter :: int
  decomp_type :: DecompositionTypes
  quanta_cutoff :: real

record dmrg_iteration =
  it_energies :: "real list"
  it_quanta :: "(int \<times> real) list list"
  it_error :: real
  ndav :: int
  tdav :: real
  nflop :: nat

text \<open>
  \<open>DMRG::update_two_dot\<close> up to the decomposition: the events issued after the history
  \<open>h\<close>, and the eigensolver's result, the truncation error and whether a density matrix was
  built.
\<close>

definition dmrg_two_dot_decompose ::
  "obs \<Rightarrow> dmrg \<Rightarrow> int \<Rightarrow> bool \<Rightarrow> 16 word \<Rightarrow> real \<Rightarrow> real \<Rightarrow> event list \<Rightarrow>
   (error + (real \<times> int \<times> nat \<times> real) \<times> real \<times> bool) \<times> event list" where
  "dmrg_two_dot_decompose ob d i fwd bond_dim noise davidson_conv_thrd h =
     (let k = ket (me d);
          e1 = [Call ''frame->activate'' [I 0]]
               @ (if tensor_loaded ob h k i \<and> tensor_loaded ob h k (i + 1)
                  then [Call ''contract_two_dot'' [I i, I (int k)]]
                  else [Call ''load_tensor'' [I (int k), I i],
                        Call ''tensors[i + 1] = nullptr'' [I (int k), I (i + 1)]])
               @ [Call ''me->eff_ham'' [F FuseLR, B True],
                  Call ''h_eff->eigs''
                    [B (iprint d \<ge> 3), R davidson_conv_thrd, I (davidson_max_iter d)]];
          pdi = eigs ob (h @ e1)
      in case decomp_type d of
           DecompDensityMatrix \<Rightarrow>
             (let e2 = (if noise_type d = Perturbative \<and> noise \<noteq> 0 then
                          [Call ''h_eff->perturbative_noise_two_dot'' [B fwd, I i],
                           Call ''h_eff->deallocate'' [],
                           Call ''density_matrix_with_perturbative_noise'' [B fwd, R noise],
                           Call ''frame->activate'' [I 1],
                           Call ''pket->deallocate'' [],
                           Call ''pket->deallocate_infos'' [],
                           Call ''frame->activate'' [I 0]]
                        else
                          [Call ''h_eff->deallocate'' [],
                           Call ''density_matrix'' [B fwd, R noise, N (noise_type d)]]);
                  e3 = [Call ''split_density_matrix''
                          [I (uint bond_dim), B fwd, B True, I (int k), I i, R (cutoff d),
                           T (trunc_type d)]]
              in (Inr (pdi, split_error ob (h @ e1 @ e2 @ e3), True), e1 @ e2 @ e3))
         | SVD \<Rightarrow>
             (if \<not> (noise_type d = NoiseNone \<or> noise_type d = Wavefunction)
              then (Inl AssertionFailed, e1)
              else
                (let e2 = [Call ''h_eff->deallocate'' []]
                          @ (if noise_type d = Wavefunction \<and> noise \<noteq> 0
                             then [Call ''wavefunction_add_noise'' [R noise]] else []);
                     e3 = [Call ''split_wavefunction_svd''
                             [I (uint bond_dim), B fwd, B True, I (int k), I i, R (cutoff d),
                              T (trunc_type d)]]
                 in (Inr (pdi, split_error ob (h @ e1 @ e2 @ e3), False), e1 @ e2 @ e3))))"

text \<open>
  The bond basis and the tags of the two touched sites: the events before the tags are
  written, and the tags with the centre character \<open>c\<close> (\<open>C\<close>, or \<open>M\<close> for a multi-target
  state).
\<close>

definition info_events :: "nat \<Rightarrow> int \<Rightarrow> bool \<Rightarrow> event list" where
  "info_events m i fwd =
     (if fwd then
        [Call ''extract_state_info'' [I (int m), I i, B fwd],
         Call ''left_dims[i + 1] = *info'' [I (int m), I (i + 1)],
         Call ''save_left_dims'' [I (int m), I (i + 1)]]
      else
        [Call ''extract_state_info'' [I (int m), I (i + 1), B fwd],
         Call ''right_dims[i + 1] = *info'' [I (int m), I (i + 1)],
         Call ''save_right_dims'' [I (int m), I (i + 1)]])"

definition move_center :: "nat \<Rightarrow> int \<Rightarrow> bool \<Rightarrow> char \<Rightarrow> world \<Rightarrow> error + world" where
  "move_center m i fwd c w =
     (if fwd then set_tags m i (CHR ''L'') c w else set_tags m i c (CHR ''R'') w)"

definition dmrg_update_two_dot ::
  "obs \<Rightarrow> dmrg \<Rightarrow> int \<Rightarrow> bool \<Rightarrow> 16 word \<Rightarrow> real \<Rightarrow> real \<Rightarrow> world \<Rightarrow>
   (error + dmrg_iteration) \<times> world" where
  "dmrg_update_two_dot ob d i fwd bond_dim noise davidson_conv_thrd w =
     (let k = ket (me d) in
      case dmrg_two_dot_decompose ob d i fwd bond_dim noise davidson_conv_thrd (trace w) of
        (Inl e, evs) \<Rightarrow> (Inl e, emit evs w)
      | (Inr (pdi, err, has_dm), evs) \<Rightarrow>
          (case move_center k i fwd (CHR ''C'') (emit (evs @ info_events k i fwd) w) of
             Inl e \<Rightarrow> (Inl e, emit (evs @ info_events k i fwd) w)
           | Inr w1 \<Rightarrow>
               (Inr \<lparr>it_energies = [fst pdi + const_e (me d)], it_quanta = [], it_error = err,
                     ndav = fst (snd pdi), tdav = snd (snd (snd pdi)),
                     nflop = fst (snd (snd pdi))\<rparr>,
                emit ([Call ''info->deallocate'' [],
                       Call ''save_tensor'' [I (int k), I (i + 1)],
                       Call ''save_tensor'' [I (int k), I i],
                       Call ''unload_tensor'' [I (int k), I (i + 1)],
                       Call ''unload_tensor'' [I (int k), I i]]
                      @ (if has_dm then [Call ''dm->info->deallocate'' [],
                                         Call ''dm->deallocate'' []] else [])
                      @ [Call ''old_wfn->info->deallocate'' [],
                         Call ''old_wfn->deallocate'' [],
                         Call ''propagate_wfn'' [I i, I (n_sites (me d)), I (int k), B fwd]])
                  w1)))"

text \<open>\<open>DMRG::update_multi_two_dot\<close> (state-averaged) up to the decomposition.\<close>

definition dmrg_multi_two_dot_decompose ::
  "obs \<Rightarrow> dmrg \<Rightarrow> int \<Rightarrow> bool \<Rightarrow> 16 word \<Rightarrow> real \<Rightarrow> real \<Rightarrow> mps \<Rightarrow> event list \<Rightarrow>
   (error + (real list \<times> int \<times> nat \<times> real) \<times> (int \<times> real) list list \<times> real) \<times> event list"
  where
  "dmrg_multi_two_dot_decompose ob d i fwd bond_dim noise davidson_conv_thrd mket h =
     (let k = ket (me d);
          e1 = [Call ''frame->activate'' [I 0]]
               @ (if tensor_loaded ob h k i \<or> tensor_loaded ob h k (i + 1)
                  then [Call ''contract_multi_two_dot'' [I i, I (int k)]]
                  else [Call ''load_tensor'' [I (int k), I i]])
               @ [Call ''tensors[i] = tensors[i + 1] = nullptr'' [I (int k), I i],
                  Call ''me->multi_eff_ham'' [F FuseLR, B True],
                  Call ''h_eff->eigs''
                    [B (iprint d \<ge> 3), R davidson_conv_thrd, I (davidson_max_iter d)]];
          pdi = multi_eigs ob (h @ e1);
          quanta = map (\<lambda>r. filter (\<lambda>p. \<not> snd p < quanta_cutoff d) (delta_quanta ob (h @ e1) r))
                     [0..<nroots mket]
      in if noise_type d = Perturbative then (Inl AssertionFailed, e1)
         else if decomp_type d \<noteq> DecompDensityMatrix then (Inl AssertionFailed, e1)
         else
           (let e2 = [Call ''h_eff->deallocate'' [],
                      Call ''density_matrix_with_multi_target''
                        [Rs (mps_weights mket), B fwd, R noise, N (noise_type d)],
                      Call ''multi_split_density_matrix''
                        [I (uint bond_dim), B fwd, B True, I (int k), I i, R (cutoff d),
                         T (trunc_type d)]]
            in (Inr (pdi, quanta, split_error ob (h @ e1 @ e2)), e1 @ e2)))"

definition multi_save_events :: "nat \<Rightarrow> int \<Rightarrow> bool \<Rightarrow> event list" where
  "multi_save_events m i fwd =
     (if fwd then
        [Call ''save_wavefunction'' [I (int m), I (i + 1)],
         Call ''save_tensor'' [I (int m), I i],
         Call ''unload_wavefunction'' [I (int m), I (i + 1)],
         Call ''unload_tensor'' [I (int m), I i]]
      else
        [Call ''save_tensor'' [I (int m), I (i + 1)],
         Call ''save_wavefunction'' [I (int m), I i],
         Call ''unload_tensor'' [I (int m), I (i + 1)],
         Call ''unload_wavefunction'' [I (int m), I i]])"

definition dmrg_update_multi_two_dot ::
  "obs \<Rightarrow> dmrg \<Rightarrow> int \<Rightarrow> bool \<Rightarrow> 16 word \<Rightarrow> real \<Rightarrow> real \<Rightarrow> world \<Rightarrow>
   (error + dmrg_iteration) \<times> world" where
  "dmrg_update_multi_two_dot ob d i fwd bond_dim noise davidson_conv_thrd w =
     (let k = ket (me d);
          mket = store w k
      in if \<not> multi mket then (Inl NullPointer, emit [Call ''frame->activate'' [I 0]] w)
         else
           (case dmrg_multi_two_dot_decompose ob d i fwd bond_dim noise davidson_conv_thrd mket
                   (trace w) of
              (Inl e, evs) \<Rightarrow> (Inl e, emit evs w)
            | (Inr (pdi, quanta, err), evs) \<Rightarrow>
                (case move_center k i fwd (CHR ''M'') (emit (evs @ info_events k i fwd) w) of
                   Inl e \<Rightarrow> (Inl e, emit (evs @ info_events k i fwd) w)
                 | Inr w1 \<Rightarrow>
                     (Inr \<lparr>it_energies = map (\<lambda>x. x + const_e (me d)) (fst pdi),
                           it_quanta = quanta, it_error = err,
                           ndav = fst (snd pdi), tdav = snd (snd (snd pdi)),
                           nflop = fst (snd (snd pdi))\<rparr>,
                      emit ([Call ''info->deallocate'' []]
                            @ multi_save_events k i fwd
                            @ [Call ''dm->info->deallocate'' [], Call ''dm->deallocate'' []]
                            @ map (\<lambda>r. Call ''old_wfns[k]->deallocate'' [I (int r)])
                                (rev [0..<nroots mket])
                            @ [Call ''old_wfns[0]->deallocate_infos'' [],
                               Call ''propagate_multi_wfn''
                                 [I i, I (n_sites (me d)), I (int k), B fwd]])
                        w1))))"

text \<open>\<open>DMRG::blocking\<close>.\<close>

definition dmrg_blocking ::
  "obs \<Rightarrow> dmrg \<Rightarrow> int \<Rightarrow> bool \<Rightarrow> 16 word \<Rightarrow> real \<Rightarrow> real \<Rightarrow> world \<Rightarrow>
   (error + dmrg_iteration) \<times> world" where
  "dmrg_blocking ob d i fwd bond_dim noise davidson_conv_thrd w =
     (let w0 = emit [Call ''me->move_to'' [I i]] w in
      if dot (me d) = 2 then
        (case tag_at (form w0 (ket (me d))) i of
           None \<Rightarrow> (Inl OutOfRange, w0)
         | Some c1 \<Rightarrow>
             (if c1 = CHR ''M''
              then dmrg_update_multi_two_dot ob d i fwd bond_dim noise davidson_conv_thrd w0
              else
                (case tag_at (form w0 (ket (me d))) (i + 1) of
                   None \<Rightarrow> (Inl OutOfRange, w0)
                 | Some c2 \<Rightarrow>
                     (if c2 = CHR ''M''
                      then dmrg_update_multi_two_dot ob d i fwd bond_dim noise
                             davidson_conv_thrd w0
                      else dmrg_update_two_dot ob d i fwd bond_dim noise davidson_conv_thrd w0))))
      else (Inl (RuntimeError ''1 site not yet implemented''), w0))"

text \<open>
  The positions a sweep visits, from \<open>me->center\<close>: upwards while
  \<open>it < n_sites - dot + 1\<close>, or downwards to 0.
\<close>

definition sweep_range :: "int \<Rightarrow> int \<Rightarrow> int \<Rightarrow> bool \<Rightarrow> int list" where
  "sweep_range c n dt fwd = (if fwd then [c..n - dt] else rev [0..c])"

fun dmrg_sweep_loop ::
  "obs \<Rightarrow> dmrg \<Rightarrow> bool \<Rightarrow> 16 word \<Rightarrow> real \<Rightarrow> real \<Rightarrow> int list \<Rightarrow> world \<Rightarrow>
   (error + dmrg_iteration list) \<times> world" where
  "dmrg_sweep_loop ob d fwd bond_dim noise thrd [] w = (Inr [], w)"
| "dmrg_sweep_loop ob d fwd bond_dim noise thrd (i # rest) w =
     (case dmrg_blocking ob d i fwd bond_dim noise thrd (emit [Call ''check_signal'' []] w) of
        (Inl e, w1) \<Rightarrow> (Inl e, w1)
      | (Inr r, w1) \<Rightarrow>
          (case dmrg_sweep_loop ob d fwd bond_dim noise thrd rest w1 of
             (Inl e, w2) \<Rightarrow> (Inl e, w2)
           | (Inr rs, w2) \<Rightarrow> (Inr (r # rs), w2)))"

text \<open>\<open>std::min_element\<close>: the index of the first element no other one is below.\<close>

fun min_element_from :: "('a \<Rightarrow> 'a \<Rightarrow> bool) \<Rightarrow> nat \<Rightarrow> 'a \<Rightarrow> nat \<Rightarrow> 'a list \<Rightarrow> nat" where
  "min_element_from lt bi bx j [] = bi"
| "min_element_from lt bi bx j (y # ys) =
     (if lt y bx then min_element_from lt j y (j + 1) ys
      else min_element_from lt bi bx (j + 1) ys)"

definition min_element :: "('a \<Rightarrow> 'a \<Rightarrow> bool) \<Rightarrow> 'a list \<Rightarrow> nat" where
  "min_element lt xs = (case xs of [] \<Rightarrow> 0 | x # ys \<Rightarrow> min_element_from lt 0 x 1 ys)"

definition dmrg_sweep ::
  "obs \<Rightarrow> dmrg \<Rightarrow> bool \<Rightarrow> 16 word \<Rightarrow> real \<Rightarrow> real \<Rightarrow> world \<Rightarrow>
   (error + real list \<times> (int \<times> real) list list) \<times> world" where
  "dmrg_sweep ob d fwd bond_dim noise thrd w =
     (let w0 = emit [Call ''me->prepare'' []] w;
          rng = sweep_range (center ob (trace w0)) (n_sites (me d)) (dot (me d)) fwd
      in case dmrg_sweep_loop ob d fwd bond_dim noise thrd rng w0 of
           (Inl e, w1) \<Rightarrow> (Inl e, w1)
         | (Inr rs, w1) \<Rightarrow>
             (let es = map it_energies rs;
                  qs = map it_quanta rs
              in if es = [] then (Inl OutOfRange, w1)
                 else if 2 \<le> length es \<and> [] \<in> set es then (Inl OutOfRange, w1)
                 else
                   (let idx = min_element (\<lambda>x y. hd x < hd y) es
                    in (Inr (es ! idx, qs ! idx), w1))))"

text \<open>
  \<open>DMRG::solve\<close>.  A schedule shorter than \<open>n_sweeps\<close> is extended by its last value; the
  comparison \<open>size() < n_sweeps\<close> is unsigned, so a negative \<open>n_sweeps\<close> asks for a resize
  that cannot be served.
\<close>

definition extend_schedule :: "int \<Rightarrow> 'a list \<Rightarrow> error + 'a list" where
  "extend_schedule n xs =
     (if n < 0 \<or> length xs < nat n then
        (if xs = [] then Inl OutOfRange
         else if n < 0 then Inl LengthError
         else Inr (xs @ replicate (nat n - length xs) (last xs)))
      else Inr xs)"

definition dmrg_converged :: "dmrg \<Rightarrow> real \<Rightarrow> int \<Rightarrow> bool" where
  "dmrg_converged d tol iw =
     (2 \<le> length (energies d) \<and> 0 < tol
      \<and> \<bar>last (energies d ! (length (energies d) - 1))
          - last (energies d ! (length (energies d) - 2))\<bar> < tol
      \<and> noises d ! nat iw = last (noises d)
      \<and> bond_dims d ! nat iw = last (bond_dims d))"

function dmrg_solve_loop ::
  "obs \<Rightarrow> dmrg \<Rightarrow> int \<Rightarrow> real \<Rightarrow> int \<Rightarrow> bool \<Rightarrow> world \<Rightarrow> (error + dmrg \<times> bool) \<times> world" where
  "dmrg_solve_loop ob d n_sweeps tol iw fwd w =
     (if iw < n_sweeps then
        (if iw < 0 \<or> length (bond_dims d) \<le> nat iw \<or> length (noises d) \<le> nat iw
            \<or> length (davidson_conv_thrds d) \<le> nat iw
         then (Inl OutOfRange, w)
         else
           (case dmrg_sweep ob d fwd (bond_dims d ! nat iw) (noises d ! nat iw)
                   (davidson_conv_thrds d ! nat iw) w of
              (Inl e, w1) \<Rightarrow> (Inl e, w1)
            | (Inr (es, qs), w1) \<Rightarrow>
                (let d1 = d\<lparr>energies := energies d @ [es], mps_quanta := mps_quanta d @ [qs]\<rparr>
                 in if 2 \<le> length (energies d1) \<and> 0 < tol
                       \<and> (es = [] \<or> energies d1 ! (length (energies d1) - 2) = [])
                    then (Inl OutOfRange, w1)
                    else if dmrg_converged d1 tol iw then (Inr (d1, \<not> fwd), w1)
                    else dmrg_solve_loop ob d1 n_sweeps tol (iw + 1) (\<not> fwd) w1)))
      else (Inr (d, fwd), w))"
  by pat_completeness auto
termination
  by (relation "measure (\<lambda>(ob, d, n_sweeps, tol, iw, fwd, w). nat (n_sweeps - iw))") auto

declare dmrg_solve_loop.simps [simp del]

definition dmrg_solve ::
  "obs \<Rightarrow> dmrg \<Rightarrow> int \<Rightarrow> bool \<Rightarrow> real \<Rightarrow> world \<Rightarrow> (error + real \<times> dmrg) \<times> world" where
  "dmrg_solve ob d n_sweeps fwd tol w =
     (case extend_schedule n_sweeps (bond_dims d) of
        Inl e \<Rightarrow> (Inl e, w)
      | Inr bd \<Rightarrow>
          (case extend_schedule n_sweeps (noises d) of
             Inl e \<Rightarrow> (Inl e, w)
           | Inr ns \<Rightarrow>
               (let thr = (if n_sweeps < 0 \<or> length (davidson_conv_thrds d) < nat n_sweeps
                           then davidson_conv_thrds d
                                @ map (\<lambda>x. (if x = 0 then (if tol = 0 then 1 / 10 ^ 9 else tol)
                                             else x) * (1 / 10))
                                    (drop (length (davidson_conv_thrds d)) ns)
                           else davidson_conv_thrds d);
                    d0 = d\<lparr>bond_dims := bd, noises := ns, davidson_conv_thrds := thr,
                           energies := [], mps_quanta := []\<rparr>
                in case dmrg_solve_loop ob d0 n_sweeps tol 0 fwd w of
                     (Inl e, w1) \<Rightarrow> (Inl e, w1)
                   | (Inr (d1, f), w1) \<Rightarrow>
                       (if energies d1 = [] \<or> last (energies d1) = [] then (Inl OutOfRange, w1)
                        else (Inr (hd (last (energies d1)), d1\<lparr>forward := f\<rparr>), w1)))))"

section \<open>ImaginaryTE\<close>

text \<open>
  The fields \<open>errors\<close>, \<open>energies\<close> and \<open>normsqs\<close> are written by \<open>sweep\<close> and
  \<open>solve\<close> only and are left out.  \<open>ImaginaryTE\<close> is the constructor with its defaults.
\<close>

record imaginary_te = scheduled_driver +
  trunc_pattern :: TruncPatternTypes
  mode :: TETypes
  n_sub_sweeps :: int
  weights :: "real list"

definition ImaginaryTE ::
  "moving_environment \<Rightarrow> 16 word list \<Rightarrow> TETypes \<Rightarrow> int \<Rightarrow> imaginary_te" where
  "ImaginaryTE m bd md n =
     \<lparr>me = m, forward = False, trunc_type = Physical, iprint = 2, cutoff = 1 / 10 ^ 14,
      noises = [0], noise_type = DensityMatrix, bond_dims = bd,
      trunc_pattern = TruncNone, mode = md, n_sub_sweeps = n,
      weights = [1 / 3, 1 / 6, 1 / 6, 1 / 3]\<rparr>"

record te_iteration =
  energy :: real
  normsq :: real
  te_error :: real
  nexpo :: int
  nexpok :: int
  texpo :: real
  te_nflop :: nat

text \<open>
  The condition \<open>(forward && i + 1 == me->n_sites - 1) || (!forward && i == 0)\<close>, the
  local \<open>effective_mode\<close> and the local \<open>bdim\<close> of \<open>update_two_dot\<close>; \<open>%\<close> on \<open>int\<close>
  truncates towards zero.
\<close>

definition at_boundary :: "imaginary_te \<Rightarrow> int \<Rightarrow> bool \<Rightarrow> bool" where
  "at_boundary te i fwd = ((fwd \<and> i + 1 = n_sites (me te) - 1) \<or> (\<not> fwd \<and> i = 0))"

definition effective_mode :: "imaginary_te \<Rightarrow> int \<Rightarrow> bool \<Rightarrow> TETypes" where
  "effective_mode te i fwd =
     (if mode te = RK4 \<and> at_boundary te i fwd then TangentSpace else mode te)"

definition te_bdim :: "imaginary_te \<Rightarrow> int \<Rightarrow> 16 word \<Rightarrow> int" where
  "te_bdim te i bond_dim =
     (if (trunc_pattern te = TruncAfterOdd \<and> i smod 2 = 0)
         \<or> (trunc_pattern te = TruncAfterEven \<and> i smod 2 = 1)
      then - 1 else uint bond_dim)"

definition contract_or_load2 :: "obs \<Rightarrow> event list \<Rightarrow> nat \<Rightarrow> int \<Rightarrow> event list" where
  "contract_or_load2 ob h k i =
     (if tensor_loaded ob h k i \<and> tensor_loaded ob h k (i + 1)
      then [Call ''contract_two_dot'' [I i, I (int k)]]
      else [Call ''load_tensor'' [I (int k), I i],
            Call ''tensors[i + 1] = nullptr'' [I (int k), I (i + 1)]])"

definition rk4_density_events :: "imaginary_te \<Rightarrow> bool \<Rightarrow> real \<Rightarrow> nat \<Rightarrow> event list" where
  "rk4_density_events te fwd noise n =
     [Call ''h_eff->deallocate'' [],
      Call ''density_matrix_with_weights''
        [B fwd, R noise, Rs (weights te), N (noise_type te)],
      Call ''frame->activate'' [I 1]]
     @ map (\<lambda>j. Call ''pdp.first[i].deallocate'' [I (int j)]) (rev [0..<n])
     @ [Call ''frame->activate'' [I 0]]"

text \<open>\<open>ImaginaryTE::update_two_dot\<close> up to the density matrix.\<close>

definition te_two_dot_evolve ::
  "obs \<Rightarrow> imaginary_te \<Rightarrow> int \<Rightarrow> bool \<Rightarrow> bool \<Rightarrow> real \<Rightarrow> real \<Rightarrow> event list \<Rightarrow>
   (error + real \<times> real \<times> int \<times> nat \<times> real) \<times> event list" where
  "te_two_dot_evolve ob te i fwd advance bt noise h =
     (let k = ket (me te);
          e1 = [Call ''frame->activate'' [I 0]] @ contract_or_load2 ob h k i
               @ [Call ''me->eff_ham'' [F FuseLR, B True]]
      in if \<not> advance \<and> at_boundary te i fwd then
           (if effective_mode te i fwd \<noteq> TangentSpace then (Inl AssertionFailed, e1)
            else if mode te \<noteq> RK4 then (Inl AssertionFailed, e1)
            else
              (let e2 = [Call ''tmp.allocate'' [],
                         Call ''memcpy(tmp.data, h_eff->ket->data)'' [],
                         Call ''h_eff->expo_apply''
                           [R (- bt), R (const_e (me te)), B (iprint te \<ge> 3)]];
                   pdi = expo_apply ob (h @ e1 @ e2);
                   e3 = [Call ''memcpy(h_eff->ket->data, tmp.data)'' [],
                         Call ''tmp.deallocate'' [],
                         Call ''h_eff->rk4_apply'' [R (- bt), R (const_e (me te)), B False]];
                   pdp = rk4_apply ob (h @ e1 @ e2 @ e3)
               in (Inr pdi, e1 @ e2 @ e3 @ rk4_density_events te fwd noise (fst pdp))))
         else if effective_mode te i fwd = TangentSpace then
           (let e2 = [Call ''h_eff->expo_apply''
                        [R (- bt), R (const_e (me te)), B (iprint te \<ge> 3)]];
                pdi = expo_apply ob (h @ e1 @ e2)
            in (Inr pdi,
                e1 @ e2 @ [Call ''h_eff->deallocate'' [],
                           Call ''density_matrix'' [B fwd, R noise, N (noise_type te)]]))
         else
           (let e2 = [Call ''h_eff->rk4_apply'' [R (- bt), R (const_e (me te)), B False]];
                pdp = rk4_apply ob (h @ e1 @ e2)
            in (Inr (snd pdp), e1 @ e2 @ rk4_density_events te fwd noise (fst pdp))))"

text \<open>The split, the normalisation in the RK4 mode and the bond basis.\<close>

definition te_split_events ::
  "imaginary_te \<Rightarrow> int \<Rightarrow> bool \<Rightarrow> bool \<Rightarrow> 16 word \<Rightarrow> event list \<times> event list" where
  "te_split_events te i fwd advance bond_dim =
     (let k = ket (me te)
      in ([Call ''split_density_matrix''
             [I (te_bdim te i bond_dim), B fwd, B False, I (int k), I i, R (cutoff te),
              T (trunc_type te)]],
          (if fwd then
             (if mode te = RK4 \<and> (i + 1 \<noteq> n_sites (me te) - 1 \<or> \<not> advance)
              then [Call ''tensors[i + 1]->normalize'' [I (int k), I (i + 1)]] else [])
           else
             (if mode te = RK4 \<and> (i \<noteq> 0 \<or> \<not> advance)
              then [Call ''tensors[i]->normalize'' [I (int k), I i]] else []))
          @ info_events k i fwd))"

text \<open>
  The corrective step of the tangent-space scheme on the neighbouring site: the events up
  to the backward exponential, and those after it.
\<close>

definition te_corrective_events ::
  "imaginary_te \<Rightarrow> int \<Rightarrow> bool \<Rightarrow> real \<Rightarrow> event list \<times> event list" where
  "te_corrective_events te i fwd bt =
     (let k = ket (me te) in
      if mode te = TangentSpace \<and> fwd \<and> i + 1 \<noteq> n_sites (me te) - 1 then
        ([Call ''me->move_to'' [I (i + 1)],
          Call ''load_tensor'' [I (int k), I (i + 1)],
          Call ''me->eff_ham'' [F FuseR, B True],
          Call ''k_eff->expo_apply'' [R bt, R (const_e (me te)), B (iprint te \<ge> 3)]],
         [Call ''k_eff->deallocate'' [],
          Call ''tensors[i + 1]->normalize'' [I (int k), I (i + 1)],
          Call ''save_tensor'' [I (int k), I (i + 1)],
          Call ''unload_tensor'' [I (int k), I (i + 1)]])
      else if mode te = TangentSpace \<and> \<not> fwd \<and> i \<noteq> 0 then
        ([Call ''me->move_to'' [I (i - 1)],
          Call ''load_tensor'' [I (int k), I i],
          Call ''me->eff_ham'' [F FuseL, B True],
          Call ''k_eff->expo_apply'' [R bt, R (const_e (me te)), B (iprint te \<ge> 3)]],
         [Call ''k_eff->deallocate'' [],
          Call ''tensors[i]->normalize'' [I (int k), I i],
          Call ''save_tensor'' [I (int k), I i],
          Call ''unload_tensor'' [I (int k), I i]])
      else ([], []))"

definition te_update_two_dot ::
  "obs \<Rightarrow> imaginary_te \<Rightarrow> int \<Rightarrow> bool \<Rightarrow> bool \<Rightarrow> real \<Rightarrow> 16 word \<Rightarrow> real \<Rightarrow> world \<Rightarrow>
   (error + te_iteration) \<times> world" where
  "te_update_two_dot ob te i fwd advance bt bond_dim noise w =
     (let k = ket (me te) in
      case te_two_dot_evolve ob te i fwd advance bt noise (trace w) of
        (Inl e, evs) \<Rightarrow> (Inl e, emit evs w)
      | (Inr (e0, nrm, nex, nfl, tex), evs) \<Rightarrow>
          (let (e3, e4) = te_split_events te i fwd advance bond_dim;
               err = split_error ob (trace w @ evs @ e3)
           in case move_center k i fwd (CHR ''C'') (emit (evs @ e3 @ e4) w) of
                Inl e \<Rightarrow> (Inl e, emit (evs @ e3 @ e4) w)
              | Inr w1 \<Rightarrow>
                  (let e5 = [Call ''info->deallocate'' [],
                             Call ''save_tensor'' [I (int k), I (i + 1)],
                             Call ''save_tensor'' [I (int k), I i],
                             Call ''unload_tensor'' [I (int k), I (i + 1)],
                             Call ''unload_tensor'' [I (int k), I i],
                             Call ''dm->info->deallocate'' [],
                             Call ''dm->deallocate'' [],
                             Call ''old_wfn->info->deallocate'' [],
                             Call ''old_wfn->deallocate'' []];
                       (e6, e7) = te_corrective_events te i fwd bt;
                       pdk = expo_apply ob (trace w1 @ e5 @ e6);
                       corrected = (e6 \<noteq> [])
                   in (Inr \<lparr>energy = e0 + const_e (me te), normsq = nrm * nrm, te_error = err,
                             nexpo = nex,
                             nexpok = (if corrected then fst (snd (snd pdk)) else 0),
                             texpo = (if corrected then tex + snd (snd (snd (snd pdk))) else tex),
                             te_nflop = (if corrected then nfl + fst (snd (snd (snd pdk)))
                                         else nfl)\<rparr>,
                       emit (e5 @ e6 @ e7
                             @ [Call ''propagate_wfn''
                                  [I i, I (n_sites (me te)), I (int k), B fwd]])
                         w1))))"

text \<open>\<open>ImaginaryTE::blocking\<close>.\<close>

definition te_blocking ::
  "obs \<Rightarrow> imaginary_te \<Rightarrow> int \<Rightarrow> bool \<Rightarrow> bool \<Rightarrow> real \<Rightarrow> 16 word \<Rightarrow> real \<Rightarrow> world \<Rightarrow>
   (error + te_iteration) \<times> world" where
  "te_blocking ob te i fwd advance bt bond_dim noise w =
     (let w0 = emit [Call ''me->move_to'' [I i]] w in
      if dot (me te) = 2 then te_update_two_dot ob te i fwd advance bt bond_dim noise w0
      else (Inl (RuntimeError ''1 site not yet implemented''), w0))"

section \<open>Compress\<close>

record compress = noisy_driver +
  bra_bond_dims :: "16 word list"
  ket_bond_dims :: "16 word list"
  norms :: "real list"

record compress_iteration =
  cps_norm :: real
  cps_error :: real
  cps_tmult :: real
  cps_nflop :: nat

text \<open>The constructor, with the defaults of the fields.\<close>

definition Compress ::
  "moving_environment \<Rightarrow> 16 word list \<Rightarrow> 16 word list \<Rightarrow> real list \<Rightarrow> compress" where
  "Compress m bbds kbds ns =
     \<lparr>me = m, forward = False, trunc_type = Physical, iprint = 2, cutoff = 0,
      noises = ns, noise_type = DensityMatrix,
      bra_bond_dims = bbds, ket_bond_dims = kbds, norms = []\<rparr>"

text \<open>
  The first loop of \<open>update_two_dot\<close> over the MPS objects: the two-site tensor is
  contracted or loaded; the third argument of \<open>contract_two_dot\<close> is \<open>mps == me->ket\<close>.
\<close>

fun contract_all :: "obs \<Rightarrow> moving_environment \<Rightarrow> int \<Rightarrow> nat list \<Rightarrow> event list \<Rightarrow> event list" where
  "contract_all ob m i [] h = []"
| "contract_all ob m i (x # xs) h =
     (let e = (if tensor_loaded ob h x i \<and> tensor_loaded ob h x (i + 1)
               then [Call ''contract_two_dot'' [I i, I (int x), B (x = ket m)]]
               else [Call ''load_tensor'' [I (int x), I i],
                     Call ''tensors[i + 1] = nullptr'' [I (int x), I (i + 1)]])
      in e @ contract_all ob m i xs (h @ e))"

definition single_save_events :: "moving_environment \<Rightarrow> nat \<Rightarrow> int \<Rightarrow> bool \<Rightarrow> event list" where
  "single_save_events m x i fwd =
     [Call ''info->deallocate'' [],
      Call ''save_tensor'' [I (int x), I (i + 1)],
      Call ''save_tensor'' [I (int x), I i],
      Call ''unload_tensor'' [I (int x), I (i + 1)],
      Call ''unload_tensor'' [I (int x), I i],
      Call ''dm->info->deallocate'' [],
      Call ''dm->deallocate'' [],
      Call ''propagate_wfn'' [I i, I (n_sites m), I (int x), B fwd]]"

text \<open>The second loop: density matrix, split, bond basis and tags of each MPS object.\<close>

fun compress_split_loop ::
  "obs \<Rightarrow> compress \<Rightarrow> int \<Rightarrow> bool \<Rightarrow> 16 word \<Rightarrow> 16 word \<Rightarrow> real \<Rightarrow> nat list \<Rightarrow> real \<Rightarrow> world \<Rightarrow>
   (error + real) \<times> world" where
  "compress_split_loop ob c i fwd bra_bond_dim ket_bond_dim noise [] bra_error w =
     (Inr bra_error, w)"
| "compress_split_loop ob c i fwd bra_bond_dim ket_bond_dim noise (x # xs) bra_error w =
     (let is_bra = (x = bra (me c));
          e1 = [Call ''density_matrix''
                  [B fwd, R (if is_bra then noise else 0),
                   N (if is_bra then noise_type c else NoiseNone)],
                Call ''split_density_matrix''
                  [I (if is_bra then uint bra_bond_dim else uint ket_bond_dim), B fwd, B False,
                   I (int x), I i, R (cutoff c), T (trunc_type c)]];
          err = split_error ob (trace w @ e1)
      in case move_center x i fwd (CHR ''C'') (emit (e1 @ info_events x i fwd) w) of
           Inl e \<Rightarrow> (Inl e, emit (e1 @ info_events x i fwd) w)
         | Inr w1 \<Rightarrow>
             compress_split_loop ob c i fwd bra_bond_dim ket_bond_dim noise xs
               (if is_bra then err else bra_error)
               (emit (single_save_events (me c) x i fwd) w1))"

definition compress_update_two_dot ::
  "obs \<Rightarrow> compress \<Rightarrow> int \<Rightarrow> bool \<Rightarrow> 16 word \<Rightarrow> 16 word \<Rightarrow> real \<Rightarrow> world \<Rightarrow>
   (error + compress_iteration) \<times> world" where
  "compress_update_two_dot ob c i fwd bra_bond_dim ket_bond_dim noise w =
     (if bra (me c) = ket (me c) then (Inl AssertionFailed, w)
      else
        (let e0 = [Call ''frame->activate'' [I 0]];
             e1 = contract_all ob (me c) i [bra (me c), ket (me c)] (trace w @ e0);
             e2 = [Call ''me->eff_ham'' [F FuseLR, B False], Call ''h_eff->multiply'' []];
             pdi = multiply ob (trace w @ e0 @ e1 @ e2);
             e3 = [Call ''h_eff->deallocate'' []]
         in case compress_split_loop ob c i fwd bra_bond_dim ket_bond_dim noise
                   [bra (me c), ket (me c)] 0 (emit (e0 @ e1 @ e2 @ e3) w) of
              (Inl e, w1) \<Rightarrow> (Inl e, w1)
            | (Inr bra_error, w1) \<Rightarrow>
                (Inr \<lparr>cps_norm = fst pdi, cps_error = bra_error, cps_tmult = snd (snd pdi),
                      cps_nflop = fst (snd pdi)\<rparr>,
                 emit [Call ''old_wfn->info->deallocate'' [I (int (ket (me c)))],
                       Call ''old_wfn->deallocate'' [I (int (ket (me c)))],
                       Call ''old_wfn->info->deallocate'' [I (int (bra (me c)))],
                       Call ''old_wfn->deallocate'' [I (int (bra (me c)))]] w1)))"

definition compress_blocking ::
  "obs \<Rightarrow> compress \<Rightarrow> int \<Rightarrow> bool \<Rightarrow> 16 word \<Rightarrow> 16 word \<Rightarrow> real \<Rightarrow> world \<Rightarrow>
   (error + compress_iteration) \<times> world" where
  "compress_blocking ob c i fwd bra_bond_dim ket_bond_dim noise w =
     (let w0 = emit [Call ''me->move_to'' [I i]] w in
      if dot (me c) = 2 then compress_update_two_dot ob c i fwd bra_bond_dim ket_bond_dim noise w0
      else (Inl (RuntimeError ''1 site not yet implemented''), w0))"

fun compress_sweep_loop ::
  "obs \<Rightarrow> compress \<Rightarrow> bool \<Rightarrow> 16 word \<Rightarrow> 16 word \<Rightarrow> real \<Rightarrow> int list \<Rightarrow> world \<Rightarrow>
   (error + compress_iteration list) \<times> world" where
  "compress_sweep_loop ob c fwd bra_bond_dim ket_bond_dim noise [] w = (Inr [], w)"
| "compress_sweep_loop ob c fwd bra_bond_dim ket_bond_dim noise (i # rest) w =
     (case compress_blocking ob c i fwd bra_bond_dim ket_bond_dim noise
             (emit [Call ''check_signal'' []] w) of
        (Inl e, w1) \<Rightarrow> (Inl e, w1)
      | (Inr r, w1) \<Rightarrow>
          (case compress_sweep_loop ob c fwd bra_bond_dim ket_bond_dim noise rest w1 of
             (Inl e, w2) \<Rightarrow> (Inl e, w2)
           | (Inr rs, w2) \<Rightarrow> (Inr (r # rs), w2)))"

definition compress_sweep ::
  "obs \<Rightarrow> compress \<Rightarrow> bool \<Rightarrow> 16 word \<Rightarrow> 16 word \<Rightarrow> real \<Rightarrow> world \<Rightarrow> (error + real) \<times> world" where
  "compress_sweep ob c fwd bra_bond_dim ket_bond_dim noise w =
     (let w0 = emit [Call ''me->prepare'' []] w;
          rng = sweep_range (center ob (trace w0)) (n_sites (me c)) (dot (me c)) fwd
      in case compress_sweep_loop ob c fwd bra_bond_dim ket_bond_dim noise rng w0 of
           (Inl e, w1) \<Rightarrow> (Inl e, w1)
         | (Inr rs, w1) \<Rightarrow>
             (if rs = [] then (Inl OutOfRange, w1) else (Inr (cps_norm (last rs)), w1)))"

definition compress_converged :: "compress \<Rightarrow> real \<Rightarrow> int \<Rightarrow> bool" where
  "compress_converged c tol iw =
     (2 \<le> length (norms c) \<and> 0 < tol
      \<and> \<bar>norms c ! (length (norms c) - 1) - norms c ! (length (norms c) - 2)\<bar> < tol
      \<and> noises c ! nat iw = last (noises c)
      \<and> bra_bond_dims c ! nat iw = last (bra_bond_dims c))"

function compress_solve_loop ::
  "obs \<Rightarrow> compress \<Rightarrow> int \<Rightarrow> real \<Rightarrow> int \<Rightarrow> bool \<Rightarrow> world \<Rightarrow> (error + compress \<times> bool) \<times> world"
  where
  "compress_solve_loop ob c n_sweeps tol iw fwd w =
     (if iw < n_sweeps then
        (if iw < 0 \<or> length (bra_bond_dims c) \<le> nat iw \<or> length (ket_bond_dims c) \<le> nat iw
            \<or> length (noises c) \<le> nat iw
         then (Inl OutOfRange, w)
         else
           (case compress_sweep ob c fwd (bra_bond_dims c ! nat iw) (ket_bond_dims c ! nat iw)
                   (noises c ! nat iw) w of
              (Inl e, w1) \<Rightarrow> (Inl e, w1)
            | (Inr nrm, w1) \<Rightarrow>
                (let c1 = c\<lparr>norms := norms c @ [nrm]\<rparr>
                 in if compress_converged c1 tol iw then (Inr (c1, \<not> fwd), w1)
                    else compress_solve_loop ob c1 n_sweeps tol (iw + 1) (\<not> fwd) w1)))
      else (Inr (c, fwd), w))"
  by pat_completeness auto
termination
  by (relation "measure (\<lambda>(ob, c, n_sweeps, tol, iw, fwd, w). nat (n_sweeps - iw))") auto

declare compress_solve_loop.simps [simp del]

definition compress_solve ::
  "obs \<Rightarrow> compress \<Rightarrow> int \<Rightarrow> bool \<Rightarrow> real \<Rightarrow> world \<Rightarrow> (error + real \<times> compress) \<times> world" where
  "compress_solve ob c n_sweeps fwd tol w =
     (case extend_schedule n_sweeps (bra_bond_dims c) of
        Inl e \<Rightarrow> (Inl e, w)
      | Inr bbd \<Rightarrow>
          (case extend_schedule n_sweeps (ket_bond_dims c) of
             Inl e \<Rightarrow> (Inl e, w)
           | Inr kbd \<Rightarrow>
               (case extend_schedule n_sweeps (noises c) of
                  Inl e \<Rightarrow> (Inl e, w)
                | Inr ns \<Rightarrow>
                    (let c0 = c\<lparr>bra_bond_dims := bbd, ket_bond_dims := kbd, noises := ns,
                                norms := []\<rparr>
                     in case compress_solve_loop ob c0 n_sweeps tol 0 fwd w of
                          (Inl e, w1) \<Rightarrow> (Inl e, w1)
                        | (Inr (c1, f), w1) \<Rightarrow>
                            (if norms c1 = [] then (Inl OutOfRange, w1)
                             else (Inr (last (norms c1), c1\<lparr>forward := f\<rparr>), w1))))))"

section \<open>Partition weights\<close>






section \<open>Expect\<close>

record expect_driver = driver +
  bra_bond_dim :: "16 word"
  ket_bond_dim :: "16 word"
  expectations :: "(nat \<times> real) list list"
  beta :: real
  partition_weights :: "real list"

record expect_iteration =
  ex_expectations :: "(nat \<times> real) list"
  bra_error :: real
  ket_error :: real
  ex_tmult :: real
  ex_nflop :: nat

text \<open>The two constructors.\<close>

definition Expect :: "moving_environment \<Rightarrow> 16 word \<Rightarrow> 16 word \<Rightarrow> expect_driver" where
  "Expect m bbd kbd =
     \<lparr>me = m, forward = False, trunc_type = Physical, iprint = 2, cutoff = 0,
      bra_bond_dim = bbd, ket_bond_dim = kbd,
      expectations = replicate (nat (n_sites m - dot m + 1)) [],
      beta = 0, partition_weights = [1]\<rparr>"


text \<open>The loop of \<open>update_two_dot\<close> over \<open>mpss\<close> when \<open>propagate\<close> is set.\<close>

fun expect_split_loop ::
  "obs \<Rightarrow> expect_driver \<Rightarrow> int \<Rightarrow> bool \<Rightarrow> 16 word \<Rightarrow> 16 word \<Rightarrow> nat list \<Rightarrow> real \<times> real \<Rightarrow> world \<Rightarrow>
   (error + real \<times> real) \<times> world" where
  "expect_split_loop ob ex i fwd bbd kbd [] errs w = (Inr errs, w)"
| "expect_split_loop ob ex i fwd bbd kbd (x # xs) errs w =
     (let is_bra = (x = bra (me ex));
          e1 = [Call ''density_matrix'' [B fwd, R 0, N NoiseNone],
                Call ''split_density_matrix''
                  [I (if is_bra then uint bbd else uint kbd), B fwd, B False,
                   I (int x), I i, R (cutoff ex), T (trunc_type ex)]];
          err = split_error ob (trace w @ e1)
      in case move_center x i fwd (CHR ''C'') (emit (e1 @ info_events x i fwd) w) of
           Inl e \<Rightarrow> (Inl e, emit (e1 @ info_events x i fwd) w)
         | Inr w1 \<Rightarrow>
             expect_split_loop ob ex i fwd bbd kbd xs
               (if is_bra then (err, snd errs) else (fst errs, err))
               (emit (single_save_events (me ex) x i fwd) w1))"

definition expect_update_two_dot ::
  "obs \<Rightarrow> expect_driver \<Rightarrow> int \<Rightarrow> bool \<Rightarrow> bool \<Rightarrow> 16 word \<Rightarrow> 16 word \<Rightarrow> world \<Rightarrow>
   (error + expect_iteration) \<times> world" where
  "expect_update_two_dot ob ex i fwd propagate bbd kbd w =
     (let mpss = (if bra (me ex) = ket (me ex) then [bra (me ex)]
                  else [bra (me ex), ket (me ex)]);
          e0 = [Call ''frame->activate'' [I 0]];
          e1 = contract_all ob (me ex) i mpss (trace w @ e0);
          e2 = [Call ''me->eff_ham'' [F FuseLR, B False], Call ''h_eff->expect'' []];
          pdi = expect ob (trace w @ e0 @ e1 @ e2);
          e3 = [Call ''h_eff->deallocate'' []];
          old_wfns = (if bra (me ex) = ket (me ex) then [bra (me ex)]
                      else [ket (me ex), bra (me ex)]);
          w0 = emit (e0 @ e1 @ e2 @ e3) w
      in case (if propagate then expect_split_loop ob ex i fwd bbd kbd mpss (0, 0) w0
               else (Inr (0, 0), w0)) of
           (Inl e, w1) \<Rightarrow> (Inl e, w1)
         | (Inr (be, ke), w1) \<Rightarrow>
             (Inr \<lparr>ex_expectations = fst pdi, bra_error = be, ket_error = ke,
                   ex_tmult = snd (snd pdi), ex_nflop = fst (snd pdi)\<rparr>,
              emit (concat (map (\<lambda>x. [Call ''old_wfn->info->deallocate'' [I (int x)],
                                        Call ''old_wfn->deallocate'' [I (int x)]]) old_wfns))
                w1))"

text \<open>
  \<open>update_multi_two_dot\<close>: the MPS objects are used as \<open>MultiMPS\<close>; the cast of an object
  that is none gives a null pointer.
\<close>

fun multi_contract_all ::
  "obs \<Rightarrow> moving_environment \<Rightarrow> int \<Rightarrow> nat list \<Rightarrow> world \<Rightarrow> error option \<times> world" where
  "multi_contract_all ob m i [] w = (None, w)"
| "multi_contract_all ob m i (x # xs) w =
     (if \<not> multi (store w x) then (Some NullPointer, w)
      else
        multi_contract_all ob m i xs
          (emit ((if tensor_loaded ob (trace w) x i \<or> tensor_loaded ob (trace w) x (i + 1)
                  then [Call ''contract_multi_two_dot'' [I i, I (int x), B (x = ket m)]]
                  else [Call ''load_tensor'' [I (int x), I i]])
                 @ [Call ''tensors[i] = tensors[i + 1] = nullptr'' [I (int x), I i]]) w))"

fun expect_multi_split_loop ::
  "obs \<Rightarrow> expect_driver \<Rightarrow> int \<Rightarrow> bool \<Rightarrow> 16 word \<Rightarrow> 16 word \<Rightarrow> nat list \<Rightarrow> real \<times> real \<Rightarrow> world \<Rightarrow>
   (error + real \<times> real) \<times> world" where
  "expect_multi_split_loop ob ex i fwd bbd kbd [] errs w = (Inr errs, w)"
| "expect_multi_split_loop ob ex i fwd bbd kbd (x # xs) errs w =
     (let is_bra = (x = bra (me ex));
          e1 = [Call ''density_matrix_with_multi_target''
                  [Rs (mps_weights (store w x)), B fwd, R 0, N NoiseNone],
                Call ''multi_split_density_matrix''
                  [I (if is_bra then uint bbd else uint kbd), B fwd, B False,
                   I (int x), I i, R (cutoff ex), T (trunc_type ex)]];
          err = split_error ob (trace w @ e1)
      in case move_center x i fwd (CHR ''M'') (emit (e1 @ info_events x i fwd) w) of
           Inl e \<Rightarrow> (Inl e, emit (e1 @ info_events x i fwd) w)
         | Inr w1 \<Rightarrow>
             expect_multi_split_loop ob ex i fwd bbd kbd xs
               (if is_bra then (err, snd errs) else (fst errs, err))
               (emit ([Call ''info->deallocate'' []] @ multi_save_events x i fwd
                      @ [Call ''dm->info->deallocate'' [], Call ''dm->deallocate'' [],
                         Call ''propagate_multi_wfn''
                           [I i, I (n_sites (me ex)), I (int x), B fwd]]) w1))"

text \<open>
  The thermal average of one operator: \<open>x += partition_weights[l] * values[l]\<close> for
  \<open>l < partition_weights.size()\<close>.
\<close>

function weighted_sum :: "real list \<Rightarrow> real list \<Rightarrow> nat \<Rightarrow> real \<Rightarrow> error + real" where
  "weighted_sum pw vals l x =
     (if l < length pw then
        (if length vals \<le> l then Inl OutOfRange
         else weighted_sum pw vals (l + 1) (x + pw ! l * vals ! l))
      else Inr x)"
  by pat_completeness auto
termination
  by (relation "measure (\<lambda>(pw, vals, l, x). length pw - l)") auto

declare weighted_sum.simps [simp del]

fun average_all :: "real list \<Rightarrow> (nat \<times> real list) list \<Rightarrow> error + (nat \<times> real) list" where
  "average_all pw [] = Inr []"
| "average_all pw ((op, vals) # rest) =
     (case weighted_sum pw vals 0 0 of
        Inl e \<Rightarrow> Inl e
      | Inr x \<Rightarrow> (case average_all pw rest of Inl e \<Rightarrow> Inl e | Inr xs \<Rightarrow> Inr ((op, x) # xs)))"

definition expect_update_multi_two_dot ::
  "obs \<Rightarrow> expect_driver \<Rightarrow> int \<Rightarrow> bool \<Rightarrow> bool \<Rightarrow> 16 word \<Rightarrow> 16 word \<Rightarrow> world \<Rightarrow>
   (error + expect_iteration) \<times> world" where
  "expect_update_multi_two_dot ob ex i fwd propagate bbd kbd w =
     (let mpss = (if bra (me ex) = ket (me ex) then [bra (me ex)]
                  else [bra (me ex), ket (me ex)]);
          old_wfnss = (if bra (me ex) = ket (me ex) then [bra (me ex)]
                       else [ket (me ex), bra (me ex)])
      in case multi_contract_all ob (me ex) i mpss (emit [Call ''frame->activate'' [I 0]] w) of
           (Some e, w0) \<Rightarrow> (Inl e, w0)
         | (None, w0) \<Rightarrow>
             (let e2 = [Call ''me->multi_eff_ham'' [F FuseLR, B False],
                        Call ''h_eff->expect'' []];
                  pdi = multi_expect ob (trace w0 @ e2);
                  w1 = emit (e2 @ [Call ''h_eff->deallocate'' []]) w0
              in case (if propagate
                       then expect_multi_split_loop ob ex i fwd bbd kbd mpss (0, 0) w1
                       else (Inr (0, 0), w1)) of
                   (Inl e, w2) \<Rightarrow> (Inl e, w2)
                 | (Inr (be, ke), w2) \<Rightarrow>
                     (let w3 = emit (concat (map (\<lambda>x.
                                  map (\<lambda>r. Call ''old_wfns[k]->deallocate'' [I (int x), I (int r)])
                                    (rev [0..<nroots (store w (ket (me ex)))])
                                  @ [Call ''old_wfns[0]->deallocate_infos'' [I (int x)]])
                                old_wfnss)) w2
                      in case average_all (partition_weights ex) (fst pdi) of
                           Inl e \<Rightarrow> (Inl e, w3)
                         | Inr xs \<Rightarrow>
                             (Inr \<lparr>ex_expectations = xs, bra_error = be, ket_error = ke,
                                   ex_tmult = snd (snd pdi), ex_nflop = fst (snd pdi)\<rparr>,
                              w3))))"

text \<open>\<open>Expect::blocking\<close>.\<close>

definition expect_blocking ::
  "obs \<Rightarrow> expect_driver \<Rightarrow> int \<Rightarrow> bool \<Rightarrow> bool \<Rightarrow> 16 word \<Rightarrow> 16 word \<Rightarrow> world \<Rightarrow>
   (error + expect_iteration) \<times> world" where
  "expect_blocking ob ex i fwd propagate bbd kbd w =
     (let w0 = emit [Call ''me->move_to'' [I i]] w in
      if dot (me ex) = 2 then
        (case tag_at (form w0 (ket (me ex))) i of
           None \<Rightarrow> (Inl OutOfRange, w0)
         | Some c1 \<Rightarrow>
             (if c1 = CHR ''M''
              then expect_update_multi_two_dot ob ex i fwd propagate bbd kbd w0
              else
                (case tag_at (form w0 (ket (me ex))) (i + 1) of
                   None \<Rightarrow> (Inl OutOfRange, w0)
                 | Some c2 \<Rightarrow>
                     (if c2 = CHR ''M''
                      then expect_update_multi_two_dot ob ex i fwd propagate bbd kbd w0
                      else expect_update_two_dot ob ex i fwd propagate bbd kbd w0))))
      else (Inl (RuntimeError ''1 site not yet implemented''), w0))"

section \<open>Canonical-form patterns\<close>

text \<open>
  The pattern \<open>L*cR*\<close> for a centre character \<open>c\<close>, the same pattern with the centre at
  position \<open>k\<close>, and the condition on the tags outside the two-site window at \<open>i\<close>:
  \<open>L\<close> before it, \<open>R\<close> after it.
\<close>

definition lcr_pattern :: "char \<Rightarrow> string \<Rightarrow> bool" where
  "lcr_pattern c s =
     (case dropWhile (\<lambda>x. x = CHR ''L'') s of
        [] \<Rightarrow> False
      | y # ys \<Rightarrow> y = c \<and> (\<forall>z\<in>set ys. z = CHR ''R''))"

definition centered :: "char \<Rightarrow> nat \<Rightarrow> string \<Rightarrow> bool" where
  "centered c k s =
     (k < length s \<and> s = replicate k (CHR ''L'') @ [c] @ replicate (length s - k - 1) (CHR ''R''))"

definition window :: "int \<Rightarrow> string \<Rightarrow> bool" where
  "window i s =
     ((\<forall>x\<in>set (take (nat i) s). x = CHR ''L'') \<and> (\<forall>x\<in>set (drop (nat i + 2) s). x = CHR ''R''))"

text \<open>Sample collaborators and objects, for evaluating the drivers on concrete inputs.\<close>

definition sample_obs :: obs where
  "sample_obs =
     \<lparr>tensor_loaded = (\<lambda>h m i. False),
      center = (\<lambda>h. int (length (filter (\<lambda>e. fname e = ''me->prepare'') h)) - 1),
      eigs = (\<lambda>h. (- 1 - 1 / real (length h), 3, 100, 1)),
      multi_eigs = (\<lambda>h. ([- 1, - 1 / 2], 3, 100, 1)),
      delta_quanta = (\<lambda>h r. [(0, 1)]),
      split_error = (\<lambda>h. 0),
      expo_apply = (\<lambda>h. (- 1, 1, 2, 100, 1)),
      rk4_apply = (\<lambda>h. (4, - 1, 1, 2, 100, 1)),
      multiply = (\<lambda>h. (1, 100, 1)),
      expect = (\<lambda>h. ([(0, 1 / 2)], 100, 1)),
      multi_expect = (\<lambda>h. ([(0, [1, 3])], 100, 1))\<rparr>"

definition sample_mps :: "string \<Rightarrow> mps" where
  "sample_mps s = \<lparr>canonical_form = s, multi = False, nroots = 0, mps_weights = []\<rparr>"

definition sample_multi_mps :: "string \<Rightarrow> mps" where
  "sample_multi_mps s = \<lparr>canonical_form = s, multi = True, nroots = 2, mps_weights = [1 / 2, 1 / 2]\<rparr>"

definition sample_world :: "mps \<Rightarrow> mps \<Rightarrow> world" where
  "sample_world x y = \<lparr>store = (\<lambda>m. if m = 0 then x else y), trace = []\<rparr>"

definition sample_me :: "nat \<Rightarrow> nat \<Rightarrow> int \<Rightarrow> int \<Rightarrow> moving_environment" where
  "sample_me x y dt n = \<lparr>bra = x, ket = y, dot = dt, n_sites = n, const_e = 0\<rparr>"

definition sample_dmrg :: "moving_environment \<Rightarrow> dmrg" where
  "sample_dmrg m =
     \<lparr>me = m, forward = False, trunc_type = Physical, iprint = 2, cutoff = 1 / 10 ^ 14,
      noises = [0], noise_type = DensityMatrix, bond_dims = [100],
      energies = [], mps_quanta = [], davidson_conv_thrds = [], davidson_max_iter = 5000,
      decomp_type = DecompDensityMatrix, quanta_cutoff = 1 / 10 ^ 3\<rparr>"

section \<open>Properties of the contraction engine\<close>

subsection \<open>Loops\<close>

lemma calls_of_Nil: "calls_of f [] = []"
  by (simp add: calls_of_def)

lemma calls_of_Cons:
  "calls_of f (Call g as # evs) = (if g = f then Call g as # calls_of f evs else calls_of f evs)"
  by (simp add: calls_of_def)

lemma calls_of_append: "calls_of f (xs @ ys) = calls_of f xs @ calls_of f ys"
  by (simp add: calls_of_def)

lemma for_each_calls_none:
  assumes "\<And>x evs. f x = Inr evs \<Longrightarrow> calls_of g evs = []"
  shows "for_each f xs = Inr evs \<Longrightarrow> calls_of g evs = []"
proof (induction xs arbitrary: evs)
  case Nil
  then show ?case by (simp add: calls_of_def)
next
  case (Cons x xs)
  from Cons.prems obtain e1 e2 where 1: "f x = Inr e1" and 2: "for_each f xs = Inr e2"
    and 3: "evs = e1 @ e2"
    by (auto split: sum.splits)
  from assms[OF 1] Cons.IH[OF 2] 3 show ?case
    by (simp add: calls_of_def)
qed

lemma for_each_all:
  assumes "\<And>x evs. f x = Inr evs \<Longrightarrow> \<forall>ev\<in>set evs. P ev"
  shows "for_each f xs = Inr evs \<Longrightarrow> \<forall>ev\<in>set evs. P ev"
proof (induction xs arbitrary: evs)
  case Nil
  then show ?case by simp
next
  case (Cons x xs)
  from Cons.prems obtain e1 e2 where 1: "f x = Inr e1" and 2: "for_each f xs = Inr e2"
    and 3: "evs = e1 @ e2"
    by (auto split: sum.splits)
  from assms[OF 1] Cons.IH[OF 2] 3 show ?case
    by auto
qed

subsection \<open>tensor_product_multiply\<close>

lemma tpm_Prod_no_allreduce:
  "tensor_product_multiply_Prod op lop rop cmat vmat opdq = Inr evs \<Longrightarrow>
   calls_of ''rule->comm->allreduce_sum'' evs = []"
  by (auto simp: tensor_product_multiply_Prod_def calls_of_def split: option.splits)

lemma tpm_Prod_into:
  "tensor_product_multiply_Prod op lop rop cmat vmat opdq = Inr evs \<Longrightarrow>
   \<forall>ev\<in>set evs. accumulates_into vmat ev"
  by (auto simp: tensor_product_multiply_Prod_def split: option.splits)

lemma tpm_allreduce_count:
  "tensor_product_multiply e lop rop cmat vmat opdq ar = Inr evs \<Longrightarrow>
   calls_of ''rule->comm->allreduce_sum'' evs =
     (if ar \<and> is_ExprRef e then [Call ''rule->comm->allreduce_sum'' [I (int vmat)]] else [])"
proof (induction e arbitrary: ar evs)
  case Zero
  then show ?case by (simp add: calls_of_def)
next
  case (Elem x)
  then show ?case by simp
next
  case (Prod x)
  then show ?case by (simp add: tpm_Prod_no_allreduce)
next
  case (Sum x)
  then show ?case
    using for_each_calls_none[where g = "''rule->comm->allreduce_sum''", OF tpm_Prod_no_allreduce]
    by simp
next
  case (ExprRef l e)
  from ExprRef.prems obtain evs' where
    1: "tensor_product_multiply e lop rop cmat vmat opdq False = Inr evs'" and
    2: "evs = evs' @ (if ar then [Call ''rule->comm->allreduce_sum'' [I (int vmat)]] else [])"
    by (auto split: sum.splits)
  from ExprRef.IH[OF 1] have "calls_of ''rule->comm->allreduce_sum'' evs' = []"
    by simp
  with 2 show ?case by (simp add: calls_of_def)
qed

lemma tpm_into:
  "tensor_product_multiply e lop rop cmat vmat opdq ar = Inr evs \<Longrightarrow>
   \<forall>ev\<in>set evs. accumulates_into vmat ev"
proof (induction e arbitrary: ar evs)
  case (Sum x)
  then show ?case
    using for_each_all[where P = "accumulates_into vmat", OF tpm_Prod_into]
    by simp
next
  case (ExprRef l e)
  from ExprRef.prems obtain evs' where
    1: "tensor_product_multiply e lop rop cmat vmat opdq False = Inr evs'" and
    2: "evs = evs' @ (if ar then [Call ''rule->comm->allreduce_sum'' [I (int vmat)]] else [])"
    by (auto split: sum.splits)
  from ExprRef.IH[OF 1] 2 show ?case by auto
qed (simp_all add: tpm_Prod_into)

text \<open>
  C3.  In the parallel \<open>tensor_product_multiply\<close>, a Sum node runs the function on each
  summand in turn with \<open>all_reduce\<close> off, every product accumulating into the same output
  vector; an ExprRef node runs it on the inner expression with \<open>all_reduce\<close> off and then,
  only if \<open>all_reduce\<close> was passed to this call, issues one all-reduce of the output
  vector, so that a whole evaluation issues one all-reduce if it was asked for at an ExprRef
  and none otherwise; a Zero node makes no call, whatever a call means for the data.
\<close>

theorem tensor_product_multiply_tree:
  "tensor_product_multiply (Sum strings) lop rop cmat vmat opdq ar =
     for_each (\<lambda>x. tensor_product_multiply (Prod x) lop rop cmat vmat opdq False) strings
   \<and> tensor_product_multiply (ExprRef l e) lop rop cmat vmat opdq ar =
       (case tensor_product_multiply e lop rop cmat vmat opdq False of
          Inl x \<Rightarrow> Inl x
        | Inr evs \<Rightarrow>
            Inr (evs @ (if ar then [Call ''rule->comm->allreduce_sum'' [I (int vmat)]] else [])))
   \<and> (\<forall>evs. tensor_product_multiply expr lop rop cmat vmat opdq ar = Inr evs \<longrightarrow>
         calls_of ''rule->comm->allreduce_sum'' evs =
           (if ar \<and> is_ExprRef expr then [Call ''rule->comm->allreduce_sum'' [I (int vmat)]]
            else [])
         \<and> (\<forall>ev\<in>set evs. accumulates_into vmat ev))
   \<and> (\<forall>evs. tensor_product_multiply Zero lop rop cmat vmat opdq ar = Inr evs \<longrightarrow>
         evs = [] \<and> run_events sem evs v = v)"
proof -
  have "tensor_product_multiply (Sum strings) lop rop cmat vmat opdq ar =
     for_each (\<lambda>x. tensor_product_multiply (Prod x) lop rop cmat vmat opdq False) strings"
    by simp
  moreover have "tensor_product_multiply (ExprRef l e) lop rop cmat vmat opdq ar =
       (case tensor_product_multiply e lop rop cmat vmat opdq False of
          Inl x \<Rightarrow> Inl x
        | Inr evs \<Rightarrow>
            Inr (evs @ (if ar then [Call ''rule->comm->allreduce_sum'' [I (int vmat)]] else [])))"
    by simp
  moreover have "\<forall>evs. tensor_product_multiply expr lop rop cmat vmat opdq ar = Inr evs \<longrightarrow>
         calls_of ''rule->comm->allreduce_sum'' evs =
           (if ar \<and> is_ExprRef expr then [Call ''rule->comm->allreduce_sum'' [I (int vmat)]]
            else [])
         \<and> (\<forall>ev\<in>set evs. accumulates_into vmat ev)"
    using tpm_allreduce_count tpm_into by blast
  moreover have "\<forall>evs. tensor_product_multiply Zero lop rop cmat vmat opdq ar = Inr evs \<longrightarrow>
         evs = [] \<and> run_events sem evs v = v"
    by (simp add: run_events_def)
  ultimately show ?thesis by blast
qed

theorem tensor_product_multiply_tree_witness:
  "tensor_product_multiply
     (ExprRef False (Sum [sample_string ''A'' ''B'' 2, sample_string ''B'' ''A'' 3]))
     sample_ops sample_ops 7 9 0 True =
   Inr [Call ''opf->tensor_product_multiply'' [I 0, I 1, I 2, I 7, I 9, I 0, R 2],
        Call ''opf->tensor_product_multiply'' [I 0, I 2, I 1, I 7, I 9, I 0, R 3],
        Call ''rule->comm->allreduce_sum'' [I 9]]
   \<and> calls_of ''rule->comm->allreduce_sum''
        [Call ''opf->tensor_product_multiply'' [I 0, I 1, I 2, I 7, I 9, I 0, R 2],
         Call ''opf->tensor_product_multiply'' [I 0, I 2, I 1, I 7, I 9, I 0, R 3],
         Call ''rule->comm->allreduce_sum'' [I 9]] =
       [Call ''rule->comm->allreduce_sum'' [I 9]]"
  using tensor_product_multiply_tree
          [of "[sample_string ''A'' ''B'' 2, sample_string ''B'' ''A'' 3]" sample_ops sample_ops
              7 9 0 True False "Sum [sample_string ''A'' ''B'' 2, sample_string ''B'' ''A'' 3]"
              "ExprRef False (Sum [sample_string ''A'' ''B'' 2, sample_string ''B'' ''A'' 3])"
              "\<lambda>e v. v" "0::nat"]
  by (simp add: tensor_product_multiply_Prod_def sample_string_def sample_ops_def sample_op_def
        calls_of_def)

subsection \<open>tensor_product_partial_multiply\<close>

lemma partial_step_calls:
  "partial_step q cj lm rm cmat opdq fac pks ij cinfos vdqs vmats k = Inr evs \<Longrightarrow>
   calls_of ''rule->comm->allreduce_sum'' evs = [] \<and> calls_of ''rule->comm->reduce_sum'' evs = []"
  by (auto simp: partial_step_def Let_def calls_of_def split: if_splits)

lemma partial_steps_calls:
  assumes "for_each (partial_step q cj lm rm cmat opdq fac pks ij cinfos vdqs vmats) ks = Inr evs"
  shows "calls_of ''rule->comm->allreduce_sum'' evs = []"
    and "calls_of ''rule->comm->reduce_sum'' evs = []"
  using for_each_calls_none[OF _ assms, of "''rule->comm->allreduce_sum''"]
        for_each_calls_none[OF _ assms, of "''rule->comm->reduce_sum''"]
        partial_step_calls
  by blast+

lemma tppm_Prod_calls:
  assumes "tensor_product_partial_multiply_Prod p op lop rop tr cmat psubsl cinfos vdqs vmats = Inr evs"
  shows "calls_of ''rule->comm->allreduce_sum'' evs = [] \<and> calls_of ''rule->comm->reduce_sum'' evs = []"
  using assms
  by (auto simp: tensor_product_partial_multiply_Prod_def Let_def calls_of_append calls_of_Cons
        calls_of_Nil partial_steps_calls split: option.splits sum.splits if_splits)

lemma tppm_collectives:
  "tensor_product_partial_multiply p e lop rop tr cmat psubsl cinfos vdqs vmats = Inr evs \<Longrightarrow>
   calls_of ''rule->comm->allreduce_sum'' evs = [] \<and>
   calls_of ''rule->comm->reduce_sum'' evs =
     replicate (if seq_mode p \<noteq> Auto then ref_depth e else 0)
       (Call ''rule->comm->reduce_sum'' [Is (map int vmats), I (comm_root p)])"
proof (induction e arbitrary: evs)
  case Zero
  then show ?case by (simp add: calls_of_def)
next
  case (Elem x)
  then show ?case by simp
next
  case (Prod x)
  then show ?case using tppm_Prod_calls by simp
next
  case (Sum x)
  then have 1: "for_each (\<lambda>s. tensor_product_partial_multiply_Prod p s lop rop tr cmat psubsl
                      cinfos vdqs vmats) x = Inr evs"
    by simp
  have "calls_of ''rule->comm->allreduce_sum'' evs = []"
    using for_each_calls_none[OF _ 1, of "''rule->comm->allreduce_sum''"] tppm_Prod_calls
    by blast
  moreover have "calls_of ''rule->comm->reduce_sum'' evs = []"
    using for_each_calls_none[OF _ 1, of "''rule->comm->reduce_sum''"] tppm_Prod_calls
    by blast
  ultimately show ?case by simp
next
  case (ExprRef l e)
  from ExprRef.prems obtain evs' where
    1: "tensor_product_partial_multiply p e lop rop tr cmat psubsl cinfos vdqs vmats = Inr evs'"
    and 2: "evs = evs' @ (if seq_mode p \<noteq> Auto
                      then [Call ''rule->comm->reduce_sum'' [Is (map int vmats), I (comm_root p)]]
                      else [])"
    by (auto split: sum.splits)
  from ExprRef.IH[OF 1] 2 show ?case
    by (simp add: calls_of_def replicate_append_same)
qed

text \<open>
  C5, as stated, fails in the sequencing mode Auto: an ExprRef node is evaluated (its
  product is applied) and no reduce-sum is issued.
\<close>

theorem tensor_product_partial_multiply_auto_counterexample:
  "tensor_product_partial_multiply (sample_rule Auto)
     (ExprRef False (Prod (sample_string ''A'' ''B'' 2))) sample_ops sample_ops True
     \<lparr>mat_id = 7, delta_quantum = 0, cinfo = 4\<rparr> [(0, 0)] [[5]] [0] [9] =
   Inr [Call ''cmat->info->cinfo ='' [I 5],
        Call ''opf->tensor_product_multiply'' [I 0, I 1, I 3, I 7, I 9, I 0, R 2],
        Call ''cmat->info->cinfo ='' [I 4]]
   \<and> calls_of ''rule->comm->reduce_sum''
        [Call ''cmat->info->cinfo ='' [I 5],
         Call ''opf->tensor_product_multiply'' [I 0, I 1, I 3, I 7, I 9, I 0, R 2],
         Call ''cmat->info->cinfo ='' [I 4]] = []"
  by (simp add: tensor_product_partial_multiply_Prod_def partial_step_def sample_rule_def
        sample_string_def sample_ops_def sample_op_def i_op_def lower_bound_def pair_less_def
        calls_of_def)

text \<open>
  C5, amended.  An ExprRef node evaluated by \<open>tensor_product_partial_multiply\<close> first
  evaluates its inner expression and then, when the sequencing mode of the operator
  functions is not Auto, issues one reduce-sum of the output group to the root worker of the
  communicator; in the mode Auto it issues no collective.  A whole evaluation never issues
  an all-reduce, and its reduce-sums are those of the ExprRef nodes wrapped around the
  expression.
\<close>

theorem tensor_product_partial_multiply_ExprRef:
  "tensor_product_partial_multiply p (ExprRef l e) lop rop tr cmat psubsl cinfos vdqs vmats =
     (case tensor_product_partial_multiply p e lop rop tr cmat psubsl cinfos vdqs vmats of
        Inl x \<Rightarrow> Inl x
      | Inr evs \<Rightarrow>
          Inr (evs @ (if seq_mode p \<noteq> Auto
                      then [Call ''rule->comm->reduce_sum'' [Is (map int vmats), I (comm_root p)]]
                      else [])))
   \<and> (\<forall>evs. tensor_product_partial_multiply p expr lop rop tr cmat psubsl cinfos vdqs vmats
               = Inr evs \<longrightarrow>
         calls_of ''rule->comm->allreduce_sum'' evs = [] \<and>
         calls_of ''rule->comm->reduce_sum'' evs =
           replicate (if seq_mode p \<noteq> Auto then ref_depth expr else 0)
             (Call ''rule->comm->reduce_sum'' [Is (map int vmats), I (comm_root p)]))"
  using tppm_collectives by simp

theorem tensor_product_partial_multiply_ExprRef_witness:
  "tensor_product_partial_multiply (sample_rule Simple)
     (ExprRef False (Prod (sample_string ''A'' ''B'' 2))) sample_ops sample_ops True
     \<lparr>mat_id = 7, delta_quantum = 0, cinfo = 4\<rparr> [(0, 0)] [[5]] [0] [9] =
   Inr [Call ''cmat->info->cinfo ='' [I 5],
        Call ''opf->tensor_product_multiply'' [I 0, I 1, I 3, I 7, I 9, I 0, R 2],
        Call ''cmat->info->cinfo ='' [I 4],
        Call ''rule->comm->reduce_sum'' [Is [9], I 0]]
   \<and> calls_of ''rule->comm->reduce_sum''
        [Call ''cmat->info->cinfo ='' [I 5],
         Call ''opf->tensor_product_multiply'' [I 0, I 1, I 3, I 7, I 9, I 0, R 2],
         Call ''cmat->info->cinfo ='' [I 4],
         Call ''rule->comm->reduce_sum'' [Is [9], I 0]] =
       [Call ''rule->comm->reduce_sum'' [Is [9], I 0]]"
  using tensor_product_partial_multiply_ExprRef
          [of "sample_rule Simple" False "Prod (sample_string ''A'' ''B'' 2)" sample_ops sample_ops
              True "\<lparr>mat_id = 7, delta_quantum = 0, cinfo = 4\<rparr>" "[(0, 0)]" "[[5]]" "[0]" "[9]"
              "ExprRef False (Prod (sample_string ''A'' ''B'' 2))"]
  by (simp add: tensor_product_partial_multiply_Prod_def partial_step_def sample_rule_def
        sample_string_def sample_ops_def sample_op_def i_op_def lower_bound_def pair_less_def
        calls_of_def)

subsection \<open>numerical_transform\<close>
















section \<open>Properties of the sweep driver\<close>

subsection \<open>State\<close>

lemma emit_simps:
  "store (emit evs w) = store w"
  "trace (emit evs w) = trace w @ evs"
  "form (emit evs w) m = form w m"
  by (simp_all add: emit_def form_def)

lemma set_tags_Inr:
  assumes "set_tags m i x y w = Inr w'"
  shows "0 \<le> i" and "nat i + 1 < length (form w m)"
    and "form w' m = (form w m)[nat i := x, nat i + 1 := y]"
    and "\<And>m'. m' \<noteq> m \<Longrightarrow> form w' m' = form w m'"
    and "trace w' = trace w"
  using assms by (auto simp: set_tags_def form_def split: if_splits)

lemma move_center_Inr:
  assumes "move_center m i fwd c w = Inr w'"
  shows "0 \<le> i" and "nat i + 1 < length (form w m)"
    and "form w' m = (form w m)[nat i := (if fwd then CHR ''L'' else c),
                                 nat i + 1 := (if fwd then c else CHR ''R'')]"
    and "\<And>m'. m' \<noteq> m \<Longrightarrow> form w' m' = form w m'"
    and "trace w' = trace w"
  using assms set_tags_Inr[of m i _ _ w w']
  by (auto simp: move_center_def split: if_splits)

lemma tag_at_window:
  assumes "0 \<le> i" and "nat i + 1 < length s"
  shows "tag_at s i = Some (s ! nat i)" and "tag_at s (i + 1) = Some (s ! (nat i + 1))"
  using assms by (simp_all add: tag_at_def nat_add_distrib)

subsection \<open>Patterns\<close>

lemma centered_lcr:
  assumes "centered c k s" and "c \<noteq> CHR ''L''"
  shows "lcr_pattern c' s \<longleftrightarrow> c' = c"
proof -
  from assms(1) have s: "s = replicate k (CHR ''L'') @ c # replicate (length s - k - 1) (CHR ''R'')"
    by (simp add: centered_def)
  have "dropWhile (\<lambda>x. x = CHR ''L'') s = c # replicate (length s - k - 1) (CHR ''R'')"
    by (subst s, subst dropWhile_append2) (use assms(2) in auto)
  then show ?thesis by (auto simp: lcr_pattern_def)
qed

lemma nth_lcr:
  "j < p + 1 + q \<Longrightarrow>
   (replicate p x @ [c] @ replicate q y) ! j = (if j < p then x else if j = p then c else y)"
  by (auto simp: nth_append nth_Cons')

lemma centeredI:
  assumes "k < length t" and "\<And>j. j < k \<Longrightarrow> t ! j = CHR ''L''" and "t ! k = c"
    and "\<And>j. k < j \<Longrightarrow> j < length t \<Longrightarrow> t ! j = CHR ''R''"
  shows "centered c k t"
proof -
  have "t = replicate k (CHR ''L'') @ [c] @ replicate (length t - k - 1) (CHR ''R'')"
  proof (rule nth_equalityI)
    show "length t = length (replicate k (CHR ''L'') @ [c]
                              @ replicate (length t - k - 1) (CHR ''R''))"
      using assms(1) by simp
  next
    fix j assume j: "j < length t"
    then have "j < k + 1 + (length t - k - 1)" using assms(1) by simp
    from nth_lcr[OF this] j assms(2,3,4)
    show "t ! j = (replicate k (CHR ''L'') @ [c] @ replicate (length t - k - 1) (CHR ''R'')) ! j"
      by (metis linorder_neqE_nat)
  qed
  with assms(1) show ?thesis by (simp add: centered_def)
qed

lemma window_update:
  assumes "window i s" and "0 \<le> i" and "nat i + 1 < length s"
  shows "centered c (nat i + 1) (s[nat i := CHR ''L'', nat i + 1 := c])"
    and "centered c (nat i) (s[nat i := c, nat i + 1 := CHR ''R''])"
proof -
  have L: "s ! j = CHR ''L''" if "j < nat i" for j
  proof -
    from that assms(3) have "take (nat i) s ! j \<in> set (take (nat i) s)"
      by (intro nth_mem) simp
    with that assms(1) show ?thesis by (simp add: window_def)
  qed
  have R: "s ! j = CHR ''R''" if "nat i + 1 < j" and "j < length s" for j
  proof -
    from that have "drop (nat i + 2) s ! (j - (nat i + 2)) \<in> set (drop (nat i + 2) s)"
      by (intro nth_mem) simp
    moreover have "drop (nat i + 2) s ! (j - (nat i + 2)) = s ! j"
    proof -
      from that have e: "nat i + 2 + (j - (nat i + 2)) = j" by arith
      from that have "drop (nat i + 2) s ! (j - (nat i + 2)) = s ! (nat i + 2 + (j - (nat i + 2)))"
        by (intro nth_drop) simp
      then show ?thesis by (simp only: e)
    qed
    ultimately show ?thesis using assms(1) by (simp add: window_def)
  qed
  show "centered c (nat i + 1) (s[nat i := CHR ''L'', nat i + 1 := c])"
  proof (rule centeredI)
    show "nat i + 1 < length (s[nat i := CHR ''L'', nat i + 1 := c])"
      using assms(3) by simp
  next
    fix j assume "j < nat i + 1"
    then show "s[nat i := CHR ''L'', nat i + 1 := c] ! j = CHR ''L''"
      using assms(3) L by (cases "j = nat i") simp_all
  next
    show "s[nat i := CHR ''L'', nat i + 1 := c] ! (nat i + 1) = c"
      using assms(3) by simp
  next
    fix j assume "nat i + 1 < j" and "j < length (s[nat i := CHR ''L'', nat i + 1 := c])"
    then show "s[nat i := CHR ''L'', nat i + 1 := c] ! j = CHR ''R''"
      using R by simp
  qed
  show "centered c (nat i) (s[nat i := c, nat i + 1 := CHR ''R''])"
  proof (rule centeredI)
    show "nat i < length (s[nat i := c, nat i + 1 := CHR ''R''])"
      using assms(3) by simp
  next
    fix j assume "j < nat i"
    then show "s[nat i := c, nat i + 1 := CHR ''R''] ! j = CHR ''L''"
      using L by simp
  next
    show "s[nat i := c, nat i + 1 := CHR ''R''] ! nat i = c"
      using assms(3) by simp
  next
    fix j assume "nat i < j" and "j < length (s[nat i := c, nat i + 1 := CHR ''R''])"
    then show "s[nat i := c, nat i + 1 := CHR ''R''] ! j = CHR ''R''"
      using R by (cases "j = nat i + 1") simp_all
  qed
qed

subsection \<open>DMRG: the tags after a two-site update\<close>

lemma dmrg_update_two_dot_form:
  assumes "dmrg_update_two_dot ob d i fwd bd noise thr w = (Inr it, w')"
  shows "0 \<le> i \<and> nat i + 1 < length (form w (ket (me d)))
    \<and> form w' (ket (me d)) =
        (form w (ket (me d)))[nat i := (if fwd then CHR ''L'' else CHR ''C''),
                              nat i + 1 := (if fwd then CHR ''C'' else CHR ''R'')]
    \<and> (\<forall>m. m \<noteq> ket (me d) \<longrightarrow> form w' m = form w m)"
proof -
  obtain r evs where dec:
    "dmrg_two_dot_decompose ob d i fwd bd noise thr (trace w) = (r, evs)"
    by (cases "dmrg_two_dot_decompose ob d i fwd bd noise thr (trace w)")
  from assms dec obtain w1 post where
    mc: "move_center (ket (me d)) i fwd (CHR ''C'')
           (emit (evs @ info_events (ket (me d)) i fwd) w) = Inr w1"
    and w': "w' = emit post w1"
    by (auto simp: dmrg_update_two_dot_def Let_def split: sum.splits prod.splits)
  from move_center_Inr[OF mc] w' show ?thesis
    by (simp add: emit_simps)
qed


lemma dmrg_update_multi_two_dot_form:
  assumes "dmrg_update_multi_two_dot ob d i fwd bd noise thr w = (Inr it, w')"
  shows "0 \<le> i \<and> nat i + 1 < length (form w (ket (me d)))
    \<and> form w' (ket (me d)) =
        (form w (ket (me d)))[nat i := (if fwd then CHR ''L'' else CHR ''M''),
                              nat i + 1 := (if fwd then CHR ''M'' else CHR ''R'')]
    \<and> (\<forall>m. m \<noteq> ket (me d) \<longrightarrow> form w' m = form w m)"
proof -
  obtain r evs where dec:
    "dmrg_multi_two_dot_decompose ob d i fwd bd noise thr (store w (ket (me d))) (trace w)
       = (r, evs)"
    by (cases "dmrg_multi_two_dot_decompose ob d i fwd bd noise thr (store w (ket (me d)))
                 (trace w)")
  from assms dec obtain w1 post where
    mc: "move_center (ket (me d)) i fwd (CHR ''M'')
           (emit (evs @ info_events (ket (me d)) i fwd) w) = Inr w1"
    and w': "w' = emit post w1"
    by (auto simp: dmrg_update_multi_two_dot_def Let_def split: sum.splits prod.splits if_splits)
  from move_center_Inr[OF mc] w' show ?thesis
    by (simp add: emit_simps)
qed

lemma move_center_completes:
  "(\<exists>w'. move_center m i fwd c w = Inr w') \<longleftrightarrow> 0 \<le> i \<and> nat i + 1 < length (form w m)"
  by (auto simp: move_center_def set_tags_def)

lemma dmrg_two_dot_decompose_completes:
  "(\<exists>r. fst (dmrg_two_dot_decompose ob d i fwd bd noise thr h) = Inr r) \<longleftrightarrow>
   (decomp_type d = SVD \<longrightarrow> noise_type d = NoiseNone \<or> noise_type d = Wavefunction)"
  by (cases "decomp_type d")
     (simp_all del: split_paired_Ex add: dmrg_two_dot_decompose_def Let_def)

lemma dmrg_update_two_dot_completes:
  "(\<exists>it. fst (dmrg_update_two_dot ob d i fwd bd noise thr w) = Inr it) \<longleftrightarrow>
   0 \<le> i \<and> nat i + 1 < length (form w (ket (me d)))
   \<and> (decomp_type d = SVD \<longrightarrow> noise_type d = NoiseNone \<or> noise_type d = Wavefunction)"
proof -
  obtain r evs where dec:
    "dmrg_two_dot_decompose ob d i fwd bd noise thr (trace w) = (r, evs)"
    by (cases "dmrg_two_dot_decompose ob d i fwd bd noise thr (trace w)")
  show ?thesis
  proof (cases r)
    case (Inl e)
    with dec dmrg_two_dot_decompose_completes[of ob d i fwd bd noise thr "trace w"]
    show ?thesis by (simp del: split_paired_Ex add: dmrg_update_two_dot_def Let_def)
  next
    case (Inr x)
    obtain pdi err has_dm where x: "x = (pdi, err, has_dm)" by (cases x)
    from Inr dec dmrg_two_dot_decompose_completes[of ob d i fwd bd noise thr "trace w"]
    have cfg: "decomp_type d = SVD \<longrightarrow> noise_type d = NoiseNone \<or> noise_type d = Wavefunction"
      by (simp del: split_paired_Ex)
    show ?thesis
    proof (cases "move_center (ket (me d)) i fwd (CHR ''C'')
                    (emit (evs @ info_events (ket (me d)) i fwd) w)")
      case mi: (Inl e)
      with move_center_completes[of "ket (me d)" i fwd "CHR ''C''"
             "emit (evs @ info_events (ket (me d)) i fwd) w"]
      have "\<not> (0 \<le> i \<and> nat i + 1 < length (form w (ket (me d))))"
        by (simp add: emit_simps)
      with mi dec Inr x show ?thesis
        by (auto simp del: split_paired_Ex simp: dmrg_update_two_dot_def Let_def)
    next
      case mr: (Inr w1)
      with move_center_completes[of "ket (me d)" i fwd "CHR ''C''"
             "emit (evs @ info_events (ket (me d)) i fwd) w"]
      have "0 \<le> i \<and> nat i + 1 < length (form w (ket (me d)))"
        by (simp add: emit_simps)
      with mr dec Inr x cfg show ?thesis
        by (auto simp del: split_paired_Ex simp: dmrg_update_two_dot_def Let_def)
    qed
  qed
qed

lemma dmrg_multi_two_dot_decompose_completes:
  "(\<exists>r. fst (dmrg_multi_two_dot_decompose ob d i fwd bd noise thr mket h) = Inr r) \<longleftrightarrow>
   noise_type d \<noteq> Perturbative \<and> decomp_type d = DecompDensityMatrix"
  by (simp del: split_paired_Ex add: dmrg_multi_two_dot_decompose_def Let_def)

lemma dmrg_update_multi_two_dot_completes:
  "(\<exists>it. fst (dmrg_update_multi_two_dot ob d i fwd bd noise thr w) = Inr it) \<longleftrightarrow>
   0 \<le> i \<and> nat i + 1 < length (form w (ket (me d)))
   \<and> multi (store w (ket (me d)))
   \<and> noise_type d \<noteq> Perturbative \<and> decomp_type d = DecompDensityMatrix"
proof (cases "multi (store w (ket (me d)))")
  case False
  then show ?thesis by (simp add: dmrg_update_multi_two_dot_def Let_def)
next
  case True
  obtain r evs where dec:
    "dmrg_multi_two_dot_decompose ob d i fwd bd noise thr (store w (ket (me d))) (trace w)
       = (r, evs)"
    by (cases "dmrg_multi_two_dot_decompose ob d i fwd bd noise thr (store w (ket (me d)))
                 (trace w)")
  show ?thesis
  proof (cases r)
    case (Inl e)
    with dec True
      dmrg_multi_two_dot_decompose_completes
        [of ob d i fwd bd noise thr "store w (ket (me d))" "trace w"]
    show ?thesis by (simp del: split_paired_Ex add: dmrg_update_multi_two_dot_def Let_def)
  next
    case (Inr x)
    obtain pdi quanta err where x: "x = (pdi, quanta, err)" by (cases x)
    from Inr dec dmrg_multi_two_dot_decompose_completes
        [of ob d i fwd bd noise thr "store w (ket (me d))" "trace w"]
    have cfg: "noise_type d \<noteq> Perturbative \<and> decomp_type d = DecompDensityMatrix"
      by (simp del: split_paired_Ex)
    show ?thesis
    proof (cases "move_center (ket (me d)) i fwd (CHR ''M'')
                    (emit (evs @ info_events (ket (me d)) i fwd) w)")
      case mi: (Inl e)
      with move_center_completes[of "ket (me d)" i fwd "CHR ''M''"
             "emit (evs @ info_events (ket (me d)) i fwd) w"]
      have "\<not> (0 \<le> i \<and> nat i + 1 < length (form w (ket (me d))))"
        by (simp add: emit_simps)
      with mi dec Inr x True show ?thesis
        by (auto simp del: split_paired_Ex simp: dmrg_update_multi_two_dot_def Let_def)
    next
      case mr: (Inr w1)
      with move_center_completes[of "ket (me d)" i fwd "CHR ''M''"
             "emit (evs @ info_events (ket (me d)) i fwd) w"]
      have "0 \<le> i \<and> nat i + 1 < length (form w (ket (me d)))"
        by (simp add: emit_simps)
      with mr dec Inr x cfg True show ?thesis
        by (auto simp del: split_paired_Ex simp: dmrg_update_multi_two_dot_def Let_def)
    qed
  qed
qed

lemma tag_at_cases:
  "tag_at s i = None \<longleftrightarrow> \<not> (0 \<le> i \<and> nat i \<le> length s)"
  by (auto simp: tag_at_def)

text \<open>
  C1, as stated, fails when the tags outside the two touched sites are not already
  \<open>L\<close> to the left and \<open>R\<close> to the right: the step writes two tags only.  A forward
  single-target step at site 1 on the tags \<open>RCCL\<close> completes and leaves \<open>RLCL\<close>, which
  is neither \<open>L*CR*\<close> nor \<open>L*MR*\<close>.
\<close>

theorem dmrg_blocking_tags_counterexample:
  "fst (dmrg_blocking sample_obs (sample_dmrg (sample_me 0 1 2 4)) 1 True 100 0 (1 / 10)
          (sample_world (sample_mps ''RCCL'') (sample_mps ''RCCL''))) =
     Inr \<lparr>it_energies = [- 7 / 6], it_quanta = [], it_error = 0, ndav = 3, tdav = 1,
          nflop = 100\<rparr>
   \<and> form (snd (dmrg_blocking sample_obs (sample_dmrg (sample_me 0 1 2 4)) 1 True 100 0 (1 / 10)
                  (sample_world (sample_mps ''RCCL'') (sample_mps ''RCCL'')))) 1 = ''RLCL''
   \<and> \<not> lcr_pattern (CHR ''C'') ''RLCL''
   \<and> \<not> lcr_pattern (CHR ''M'') ''RLCL''"
  by (simp add: dmrg_blocking_def dmrg_update_two_dot_def dmrg_two_dot_decompose_def
        move_center_def set_tags_def tag_at_def form_def emit_def info_events_def
        lcr_pattern_def
        sample_obs_def sample_dmrg_def sample_me_def sample_world_def sample_mps_def Let_def)

text \<open>
  C1, amended.  A two-site blocking step of DMRG at site \<open>i\<close> completes exactly when the
  environment is a two-site one, both sites lie inside the tag string of the ket, and the
  update it dispatches to accepts the configuration: the multi-target update (taken when
  one of the two old tags is \<open>M\<close>) needs a multi-target ket, a noise type other than
  Perturbative and the density-matrix decomposition; the single-target update with the
  SVD decomposition needs the noise type None or Wavefunction.  After a step that
  completes, the tags of the ket are the old ones with positions \<open>i\<close> and \<open>i + 1\<close>
  overwritten: \<open>L\<close> and the centre character in a forward step, the centre character and
  \<open>R\<close> in a backward step, the centre character being \<open>M\<close> in the multi-target update
  and \<open>C\<close> otherwise; no other tag of the ket and no tag of another MPS object changes.
  When the tags before site \<open>i\<close> are \<open>L\<close> and those after site \<open>i + 1\<close> are \<open>R\<close>,
  the new string is \<open>L*CR*\<close> or \<open>L*MR*\<close>, exactly the one of the update, with the
  centre at \<open>i + 1\<close> after a forward and at \<open>i\<close> after a backward step.
\<close>

theorem dmrg_blocking_canonical_form:
  "let k = ket (me d);
       s = form w k;
       c = (if tag_at s i = Some (CHR ''M'') \<or> tag_at s (i + 1) = Some (CHR ''M'')
            then CHR ''M'' else CHR ''C'');
       r = dmrg_blocking ob d i fwd bd noise thr w;
       s' = form (snd r) k
   in ((\<exists>it. fst r = Inr it) \<longleftrightarrow>
         dot (me d) = 2 \<and> 0 \<le> i \<and> nat i + 1 < length s
         \<and> (if c = CHR ''M''
            then multi (store w k) \<and> noise_type d \<noteq> Perturbative
                 \<and> decomp_type d = DecompDensityMatrix
            else decomp_type d = SVD \<longrightarrow>
                   noise_type d = NoiseNone \<or> noise_type d = Wavefunction))
      \<and> ((\<exists>it. fst r = Inr it) \<longrightarrow>
            s' = s[nat i := (if fwd then CHR ''L'' else c),
                   nat i + 1 := (if fwd then c else CHR ''R'')]
            \<and> (\<forall>m. m \<noteq> k \<longrightarrow> form (snd r) m = form w m)
            \<and> (window i s \<longrightarrow>
                  centered c (if fwd then nat i + 1 else nat i) s'
                  \<and> (lcr_pattern (CHR ''C'') s' \<longleftrightarrow> c = CHR ''C'')
                  \<and> (lcr_pattern (CHR ''M'') s' \<longleftrightarrow> c = CHR ''M'')))"
proof -
  define k where "k = ket (me d)"
  define s where "s = form w k"
  define c where "c = (if tag_at s i = Some (CHR ''M'') \<or> tag_at s (i + 1) = Some (CHR ''M'')
            then CHR ''M'' else CHR ''C'')"
  define r where "r = dmrg_blocking ob d i fwd bd noise thr w"
  define w0 where "w0 = emit [Call ''me->move_to'' [I i]] w"
  have f0: "form w0 m = form w m" "store w0 = store w" for m
    by (simp_all add: w0_def emit_simps)
  have cM: "c = CHR ''M'' \<longleftrightarrow>
            tag_at s i = Some (CHR ''M'') \<or> tag_at s (i + 1) = Some (CHR ''M'')"
    by (simp add: c_def)
  have multi_run: "r = dmrg_update_multi_two_dot ob d i fwd bd noise thr w0"
    if "dot (me d) = 2" "tag_at s i = Some (CHR ''M'')
        \<or> (\<exists>c1. tag_at s i = Some c1) \<and> tag_at s (i + 1) = Some (CHR ''M'')"
    using that unfolding r_def dmrg_blocking_def Let_def w0_def[symmetric]
    by (auto simp: f0 s_def k_def)
  have single_run: "r = dmrg_update_two_dot ob d i fwd bd noise thr w0"
    if "dot (me d) = 2" "tag_at s i = Some c1" "c1 \<noteq> CHR ''M''" "tag_at s (i + 1) = Some c2" "c2 \<noteq> CHR ''M''"
    for c1 c2
    using that unfolding r_def dmrg_blocking_def Let_def w0_def[symmetric]
    by (simp add: f0 s_def k_def)
  have none_run: "r = (Inl OutOfRange, w0)"
    if "dot (me d) = 2" "tag_at s i = None
        \<or> tag_at s i \<noteq> Some (CHR ''M'') \<and> tag_at s (i + 1) = None"
    using that unfolding r_def dmrg_blocking_def Let_def w0_def[symmetric]
    by (auto simp: f0 s_def k_def split: option.splits)
  have compl: "(\<exists>it. fst r = Inr it) \<longleftrightarrow>
         dot (me d) = 2 \<and> 0 \<le> i \<and> nat i + 1 < length s
         \<and> (if c = CHR ''M''
            then multi (store w k) \<and> noise_type d \<noteq> Perturbative
                 \<and> decomp_type d = DecompDensityMatrix
            else decomp_type d = SVD \<longrightarrow>
                   noise_type d = NoiseNone \<or> noise_type d = Wavefunction)"
  proof (cases "dot (me d) = 2")
    case False
    then show ?thesis by (simp add: r_def dmrg_blocking_def Let_def)
  next
    case dot2: True
    show ?thesis
    proof (cases "0 \<le> i \<and> nat i + 1 < length s")
      case inr: True
      then have tg: "tag_at s i = Some (s ! nat i)" "tag_at s (i + 1) = Some (s ! (nat i + 1))"
        using tag_at_window[of i s] by simp_all
      show ?thesis
      proof (cases "c = CHR ''M''")
        case True
        with tg have "r = dmrg_update_multi_two_dot ob d i fwd bd noise thr w0"
          by (intro multi_run[OF dot2]) (auto simp: cM)
        with True dot2 dmrg_update_multi_two_dot_completes[of ob d i fwd bd noise thr w0]
        show ?thesis by (simp add: f0 s_def k_def)
      next
        case False
        with tg have "r = dmrg_update_two_dot ob d i fwd bd noise thr w0"
          by (intro single_run[OF dot2, of "s ! nat i" "s ! (nat i + 1)"]) (auto simp: cM)
        with False dot2 dmrg_update_two_dot_completes[of ob d i fwd bd noise thr w0]
        show ?thesis by (simp add: f0 s_def k_def)
      qed
    next
      case out: False
      have "\<not> (\<exists>it. fst r = Inr it)"
      proof (cases "tag_at s i = None
          \<or> tag_at s i \<noteq> Some (CHR ''M'') \<and> tag_at s (i + 1) = None")
        case True
        from none_run[OF dot2 True] show ?thesis by simp
      next
        case False
        then obtain c1 where c1: "tag_at s i = Some c1" by auto
        show ?thesis
        proof (cases "c1 = CHR ''M''")
          case True
          with c1 have "r = dmrg_update_multi_two_dot ob d i fwd bd noise thr w0"
            by (intro multi_run[OF dot2]) simp
          with out dmrg_update_multi_two_dot_completes[of ob d i fwd bd noise thr w0]
          show ?thesis by (auto simp: f0 s_def k_def)
        next
          case nM: False
          with False c1 obtain c2 where c2: "tag_at s (i + 1) = Some c2" by auto
          show ?thesis
          proof (cases "c2 = CHR ''M''")
            case True
            with c1 c2 have "r = dmrg_update_multi_two_dot ob d i fwd bd noise thr w0"
              by (intro multi_run[OF dot2]) simp
            with out dmrg_update_multi_two_dot_completes[of ob d i fwd bd noise thr w0]
            show ?thesis by (auto simp: f0 s_def k_def)
          next
            case False
            from single_run[OF dot2 c1 nM c2 False] out
              dmrg_update_two_dot_completes[of ob d i fwd bd noise thr w0]
            show ?thesis by (auto simp: f0 s_def k_def)
          qed
        qed
      qed
      with out show ?thesis by auto
    qed
  qed
  have upd: "form (snd r) k = s[nat i := (if fwd then CHR ''L'' else c),
                   nat i + 1 := (if fwd then c else CHR ''R'')]
            \<and> (\<forall>m. m \<noteq> k \<longrightarrow> form (snd r) m = form w m)"
    and rng: "0 \<le> i" "nat i + 1 < length s"
    if ret: "\<exists>it. fst r = Inr it"
  proof -
    from ret compl show rng: "0 \<le> i" "nat i + 1 < length s" by simp_all
    from ret compl have dot2: "dot (me d) = 2" by simp
    from ret obtain it where run: "r = (Inr it, snd r)" by (metis prod.collapse)
    from tag_at_window[OF rng] have tg: "tag_at s i = Some (s ! nat i)"
      "tag_at s (i + 1) = Some (s ! (nat i + 1))" by simp_all
    show "form (snd r) k = s[nat i := (if fwd then CHR ''L'' else c),
                   nat i + 1 := (if fwd then c else CHR ''R'')]
            \<and> (\<forall>m. m \<noteq> k \<longrightarrow> form (snd r) m = form w m)"
    proof (cases "c = CHR ''M''")
      case True
      with tg have "r = dmrg_update_multi_two_dot ob d i fwd bd noise thr w0"
        by (intro multi_run[OF dot2]) (auto simp: cM)
      with run have "dmrg_update_multi_two_dot ob d i fwd bd noise thr w0 = (Inr it, snd r)"
        by simp
      from dmrg_update_multi_two_dot_form[OF this] True show ?thesis
        by (simp add: f0 s_def k_def)
    next
      case False
      then have cC: "c = CHR ''C''" by (auto simp: c_def split: if_splits)
      from False tg have "r = dmrg_update_two_dot ob d i fwd bd noise thr w0"
        by (intro single_run[OF dot2, of "s ! nat i" "s ! (nat i + 1)"]) (auto simp: cM)
      with run have "dmrg_update_two_dot ob d i fwd bd noise thr w0 = (Inr it, snd r)"
        by simp
      from dmrg_update_two_dot_form[OF this] cC show ?thesis
        by (simp add: f0 s_def k_def)
    qed
  qed
  have cL: "c \<noteq> CHR ''L''" by (simp add: c_def)
  have pat: "centered c (if fwd then nat i + 1 else nat i) (form (snd r) k)
       \<and> (lcr_pattern (CHR ''C'') (form (snd r) k) \<longleftrightarrow> c = CHR ''C'')
       \<and> (lcr_pattern (CHR ''M'') (form (snd r) k) \<longleftrightarrow> c = CHR ''M'')"
    if ret: "\<exists>it. fst r = Inr it" and win: "window i s"
  proof -
    from upd[OF ret] window_update[OF win rng[OF ret], of c]
    have ce: "centered c (if fwd then nat i + 1 else nat i) (form (snd r) k)"
      by simp
    from centered_lcr[OF ce cL, of "CHR ''C''"] centered_lcr[OF ce cL, of "CHR ''M''"] ce
    show ?thesis by auto
  qed
  from compl upd pat show ?thesis
    unfolding Let_def k_def[symmetric] s_def[symmetric] c_def[symmetric] r_def[symmetric]
    by blast
qed

theorem dmrg_blocking_canonical_form_witness:
  "(\<exists>it. fst (dmrg_blocking sample_obs (sample_dmrg (sample_me 0 1 2 5)) 1 True 100 0 (1 / 10)
                (sample_world (sample_mps ''LCCRR'') (sample_mps ''LCCRR''))) = Inr it)
   \<and> form (snd (dmrg_blocking sample_obs (sample_dmrg (sample_me 0 1 2 5)) 1 True 100 0 (1 / 10)
                  (sample_world (sample_mps ''LCCRR'') (sample_mps ''LCCRR'')))) 1 = ''LLCRR''
   \<and> lcr_pattern (CHR ''C'') ''LLCRR''
   \<and> (\<exists>it. fst (dmrg_blocking sample_obs (sample_dmrg (sample_me 0 1 2 5)) 1 False 100 0 (1 / 10)
                (sample_world (sample_mps ''LCCRR'') (sample_mps ''LCCRR''))) = Inr it)
   \<and> form (snd (dmrg_blocking sample_obs (sample_dmrg (sample_me 0 1 2 5)) 1 False 100 0 (1 / 10)
                  (sample_world (sample_mps ''LCCRR'') (sample_mps ''LCCRR'')))) 1 = ''LCRRR''
   \<and> lcr_pattern (CHR ''C'') ''LCRRR''
   \<and> (\<exists>it. fst (dmrg_blocking sample_obs (sample_dmrg (sample_me 0 1 2 5)) 1 True 100 0 (1 / 10)
                (sample_world (sample_mps ''LMRRR'') (sample_multi_mps ''LMRRR''))) = Inr it)
   \<and> form (snd (dmrg_blocking sample_obs (sample_dmrg (sample_me 0 1 2 5)) 1 True 100 0 (1 / 10)
                  (sample_world (sample_mps ''LMRRR'') (sample_multi_mps ''LMRRR'')))) 1 = ''LLMRR''
   \<and> lcr_pattern (CHR ''M'') ''LLMRR''
   \<and> (\<exists>it. fst (dmrg_blocking sample_obs (sample_dmrg (sample_me 0 1 2 5)) 1 False 100 0 (1 / 10)
                (sample_world (sample_mps ''LMRRR'') (sample_multi_mps ''LMRRR''))) = Inr it)
   \<and> form (snd (dmrg_blocking sample_obs (sample_dmrg (sample_me 0 1 2 5)) 1 False 100 0 (1 / 10)
                  (sample_world (sample_mps ''LMRRR'') (sample_multi_mps ''LMRRR'')))) 1 = ''LMRRR''
   \<and> lcr_pattern (CHR ''M'') ''LMRRR''
   \<and> \<not> (\<exists>it. fst (dmrg_blocking sample_obs (sample_dmrg (sample_me 0 1 2 5)) 1 True 100 0 (1 / 10)
                (sample_world (sample_mps ''LMRRR'') (sample_mps ''LMRRR''))) = Inr it)"
proof -
  let ?D = "sample_dmrg (sample_me 0 1 2 5)"
  let ?W = "sample_world (sample_mps ''LCCRR'') (sample_mps ''LCCRR'')"
  let ?V = "sample_world (sample_mps ''LMRRR'') (sample_multi_mps ''LMRRR'')"
  let ?U = "sample_world (sample_mps ''LMRRR'') (sample_mps ''LMRRR'')"
  have k: "ket (me ?D) = Suc 0" "dot (me ?D) = 2" "noise_type ?D = DensityMatrix"
    "decomp_type ?D = DecompDensityMatrix"
    by (simp_all add: sample_dmrg_def sample_me_def)
  have s: "form ?W (Suc 0) = ''LCCRR''" "form ?V (Suc 0) = ''LMRRR''"
    "form ?U (Suc 0) = ''LMRRR''"
    by (simp_all add: form_def sample_world_def sample_mps_def sample_multi_mps_def)
  have mu: "multi (store ?V (Suc 0))" "\<not> multi (store ?U (Suc 0))"
    by (simp_all add: sample_world_def sample_mps_def sample_multi_mps_def)
  have win: "window 1 ''LCCRR''" "window 1 ''LMRRR''"
    by (simp_all add: window_def)
  have tg: "tag_at ''LCCRR'' 1 = Some (CHR ''C'')" "tag_at ''LCCRR'' (1 + 1) = Some (CHR ''C'')"
    "tag_at ''LMRRR'' 1 = Some (CHR ''M'')"
    by (simp_all add: tag_at_def)
  from dmrg_blocking_canonical_form
         [where ob = sample_obs and d = ?D and i = 1 and fwd = True and bd = 100 and noise = 0
            and thr = "1 / 10" and w = ?W]
  have 1: "(\<exists>it. fst (dmrg_blocking sample_obs ?D 1 True 100 0 (1 / 10) ?W) = Inr it)
     \<and> form (snd (dmrg_blocking sample_obs ?D 1 True 100 0 (1 / 10) ?W)) 1 = ''LLCRR''
     \<and> lcr_pattern (CHR ''C'') ''LLCRR''"
    unfolding Let_def k s tg by (auto simp: win mu)
  from dmrg_blocking_canonical_form
         [where ob = sample_obs and d = ?D and i = 1 and fwd = False and bd = 100 and noise = 0
            and thr = "1 / 10" and w = ?W]
  have 2: "(\<exists>it. fst (dmrg_blocking sample_obs ?D 1 False 100 0 (1 / 10) ?W) = Inr it)
     \<and> form (snd (dmrg_blocking sample_obs ?D 1 False 100 0 (1 / 10) ?W)) 1 = ''LCRRR''
     \<and> lcr_pattern (CHR ''C'') ''LCRRR''"
    unfolding Let_def k s tg by (auto simp: win mu)
  from dmrg_blocking_canonical_form
         [where ob = sample_obs and d = ?D and i = 1 and fwd = True and bd = 100 and noise = 0
            and thr = "1 / 10" and w = ?V]
  have 3: "(\<exists>it. fst (dmrg_blocking sample_obs ?D 1 True 100 0 (1 / 10) ?V) = Inr it)
     \<and> form (snd (dmrg_blocking sample_obs ?D 1 True 100 0 (1 / 10) ?V)) 1 = ''LLMRR''
     \<and> lcr_pattern (CHR ''M'') ''LLMRR''"
    unfolding Let_def k s tg by (auto simp: win mu)
  from dmrg_blocking_canonical_form
         [where ob = sample_obs and d = ?D and i = 1 and fwd = False and bd = 100 and noise = 0
            and thr = "1 / 10" and w = ?V]
  have 4: "(\<exists>it. fst (dmrg_blocking sample_obs ?D 1 False 100 0 (1 / 10) ?V) = Inr it)
     \<and> form (snd (dmrg_blocking sample_obs ?D 1 False 100 0 (1 / 10) ?V)) 1 = ''LMRRR''
     \<and> lcr_pattern (CHR ''M'') ''LMRRR''"
    unfolding Let_def k s tg by (auto simp: win mu)
  from dmrg_blocking_canonical_form
         [where ob = sample_obs and d = ?D and i = 1 and fwd = True and bd = 100 and noise = 0
            and thr = "1 / 10" and w = ?U]
  have 5: "\<not> (\<exists>it. fst (dmrg_blocking sample_obs ?D 1 True 100 0 (1 / 10) ?U) = Inr it)"
    unfolding Let_def k s tg by (simp add: mu)
  from 1 2 3 4 5 show ?thesis by (intro conjI) simp_all
qed
subsection \<open>Which errors a blocking step can end with\<close>

lemma move_center_Inl: "move_center m i fwd c w = Inl e \<Longrightarrow> e = OutOfRange"
  by (auto simp: move_center_def set_tags_def split: if_splits)

lemma dmrg_two_dot_decompose_Inl:
  "dmrg_two_dot_decompose ob d i fwd bd noise thr h = (Inl e, evs) \<Longrightarrow> e = AssertionFailed"
  by (auto simp: dmrg_two_dot_decompose_def Let_def split: DecompositionTypes.splits if_splits)

lemma dmrg_multi_two_dot_decompose_Inl:
  "dmrg_multi_two_dot_decompose ob d i fwd bd noise thr mk h = (Inl e, evs) \<Longrightarrow>
   e = AssertionFailed"
  by (auto simp: dmrg_multi_two_dot_decompose_def Let_def split: if_splits)

lemma dmrg_update_two_dot_Inl:
  assumes "dmrg_update_two_dot ob d i fwd bd noise thr w = (Inl e, w')"
  shows "e = AssertionFailed \<or> e = OutOfRange"
proof -
  obtain r evs where dec:
    "dmrg_two_dot_decompose ob d i fwd bd noise thr (trace w) = (r, evs)"
    by (cases "dmrg_two_dot_decompose ob d i fwd bd noise thr (trace w)")
  show ?thesis
  proof (cases r)
    case (Inl x)
    with assms dec dmrg_two_dot_decompose_Inl[of ob d i fwd bd noise thr "trace w" x evs]
    show ?thesis by (simp add: dmrg_update_two_dot_def Let_def)
  next
    case (Inr y)
    obtain pdi err has_dm where y: "y = (pdi, err, has_dm)" by (cases y) auto
    from assms dec Inr y
    have "move_center (ket (me d)) i fwd (CHR ''C'')
            (emit (evs @ info_events (ket (me d)) i fwd) w) = Inl e"
      by (simp add: dmrg_update_two_dot_def Let_def split: sum.splits)
    then show ?thesis using move_center_Inl by blast
  qed
qed

lemma dmrg_update_multi_two_dot_Inl:
  assumes "dmrg_update_multi_two_dot ob d i fwd bd noise thr w = (Inl e, w')"
  shows "e = AssertionFailed \<or> e = OutOfRange \<or> e = NullPointer"
proof (cases "multi (store w (ket (me d)))")
  case False
  with assms show ?thesis by (simp add: dmrg_update_multi_two_dot_def Let_def)
next
  case True
  obtain r evs where dec:
    "dmrg_multi_two_dot_decompose ob d i fwd bd noise thr (store w (ket (me d))) (trace w)
       = (r, evs)"
    by (cases "dmrg_multi_two_dot_decompose ob d i fwd bd noise thr (store w (ket (me d)))
                 (trace w)")
  show ?thesis
  proof (cases r)
    case (Inl x)
    with assms dec True
      dmrg_multi_two_dot_decompose_Inl[of ob d i fwd bd noise thr "store w (ket (me d))"
        "trace w" x evs]
    show ?thesis by (simp add: dmrg_update_multi_two_dot_def Let_def)
  next
    case (Inr y)
    obtain pdi qs err where y: "y = (pdi, qs, err)" by (cases y) auto
    from assms dec Inr y True
    have "move_center (ket (me d)) i fwd (CHR ''M'')
            (emit (evs @ info_events (ket (me d)) i fwd) w) = Inl e"
      by (simp add: dmrg_update_multi_two_dot_def Let_def split: sum.splits)
    then show ?thesis using move_center_Inl by blast
  qed
qed

lemma dmrg_blocking_two_site:
  assumes "dot (me d) = 2"
  shows "fst (dmrg_blocking ob d i fwd bd noise thr w) \<noteq> Inl (RuntimeError s)"
proof
  assume a: "fst (dmrg_blocking ob d i fwd bd noise thr w) = Inl (RuntimeError s)"
  define w0 where "w0 = emit [Call ''me->move_to'' [I i]] w"
  have r: "dmrg_blocking ob d i fwd bd noise thr w
             = (Inl (RuntimeError s), snd (dmrg_blocking ob d i fwd bd noise thr w))"
    using a by (metis prod.collapse)
  from r assms
  consider "dmrg_update_two_dot ob d i fwd bd noise thr w0
             = (Inl (RuntimeError s), snd (dmrg_blocking ob d i fwd bd noise thr w))"
    | "dmrg_update_multi_two_dot ob d i fwd bd noise thr w0
             = (Inl (RuntimeError s), snd (dmrg_blocking ob d i fwd bd noise thr w))"
    unfolding dmrg_blocking_def Let_def w0_def[symmetric]
    by (simp split: option.splits if_splits)
  then show False
  proof cases
    case 1
    from dmrg_update_two_dot_Inl[OF 1] show False by simp
  next
    case 2
    from dmrg_update_multi_two_dot_Inl[OF 2] show False by simp
  qed
qed

lemma te_two_dot_evolve_Inl:
  "te_two_dot_evolve ob te i fwd adv bt noise h = (Inl e, evs) \<Longrightarrow> e = AssertionFailed"
  by (auto simp: te_two_dot_evolve_def Let_def split: if_splits)

lemma te_update_two_dot_Inl:
  assumes "te_update_two_dot ob te i fwd adv bt bd noise w = (Inl e, w')"
  shows "e = AssertionFailed \<or> e = OutOfRange"
proof -
  obtain r evs where dec: "te_two_dot_evolve ob te i fwd adv bt noise (trace w) = (r, evs)"
    by (cases "te_two_dot_evolve ob te i fwd adv bt noise (trace w)")
  show ?thesis
  proof (cases r)
    case (Inl x)
    with assms dec te_two_dot_evolve_Inl[of ob te i fwd adv bt noise "trace w" x evs]
    show ?thesis by (simp add: te_update_two_dot_def Let_def)
  next
    case (Inr y)
    obtain e0 nrm nex nfl tex where y: "y = (e0, nrm, nex, nfl, tex)" by (cases y) auto
    obtain e3 e4 where sp: "te_split_events te i fwd adv bd = (e3, e4)"
      by (cases "te_split_events te i fwd adv bd")
    obtain e6 e7 where co: "te_corrective_events te i fwd bt = (e6, e7)"
      by (cases "te_corrective_events te i fwd bt")
    from assms dec Inr y sp co
    have "move_center (ket (me te)) i fwd (CHR ''C'') (emit (evs @ e3 @ e4) w) = Inl e"
      by (simp add: te_update_two_dot_def Let_def split: sum.splits)
    then show ?thesis using move_center_Inl by blast
  qed
qed

lemma compress_split_loop_Inl:
  "compress_split_loop ob c i fwd bbd kbd noise xs be w = (Inl e, w') \<Longrightarrow> e = OutOfRange"
proof (induction xs arbitrary: be w)
  case Nil
  then show ?case by simp
next
  case (Cons x xs)
  show ?case
  proof (cases "move_center x i fwd (CHR ''C'')
                  (emit ([Call ''density_matrix''
                           [B fwd, R (if x = bra (me c) then noise else 0),
                            N (if x = bra (me c) then noise_type c else NoiseNone)],
                          Call ''split_density_matrix''
                           [I (if x = bra (me c) then uint bbd else uint kbd), B fwd, B False,
                            I (int x), I i, R (cutoff c), T (trunc_type c)]]
                         @ info_events x i fwd) w)")
    case (Inl x1)
    with Cons.prems have "e = x1" by (simp add: Let_def)
    with Inl move_center_Inl show ?thesis by blast
  next
    case (Inr w1)
    with Cons.prems Cons.IH show ?thesis by (simp add: Let_def)
  qed
qed

lemma compress_update_two_dot_Inl:
  assumes "compress_update_two_dot ob c i fwd bbd kbd noise w = (Inl e, w')"
  shows "e = AssertionFailed \<or> e = OutOfRange"
proof (cases "bra (me c) = ket (me c)")
  case True
  with assms show ?thesis by (simp add: compress_update_two_dot_def)
next
  case False
  with assms obtain w0 where
    "compress_split_loop ob c i fwd bbd kbd noise [bra (me c), ket (me c)] 0 w0 = (Inl e, w')"
    unfolding compress_update_two_dot_def Let_def
    by (simp split: prod.splits sum.splits)
  with compress_split_loop_Inl show ?thesis by blast
qed

lemma expect_split_loop_Inl:
  "expect_split_loop ob ex i fwd bbd kbd xs errs w = (Inl e, w') \<Longrightarrow> e = OutOfRange"
proof (induction xs arbitrary: errs w)
  case Nil
  then show ?case by simp
next
  case (Cons x xs)
  show ?case
  proof (cases "move_center x i fwd (CHR ''C'')
                  (emit ([Call ''density_matrix'' [B fwd, R 0, N NoiseNone],
                          Call ''split_density_matrix''
                           [I (if x = bra (me ex) then uint bbd else uint kbd), B fwd, B False,
                            I (int x), I i, R (cutoff ex), T (trunc_type ex)]]
                         @ info_events x i fwd) w)")
    case (Inl x1)
    with Cons.prems have "e = x1" by (simp add: Let_def)
    with Inl move_center_Inl show ?thesis by blast
  next
    case (Inr w1)
    with Cons.prems Cons.IH show ?thesis by (simp add: Let_def)
  qed
qed

lemma expect_update_two_dot_Inl:
  assumes "expect_update_two_dot ob ex i fwd pr bbd kbd w = (Inl e, w')"
  shows "e = OutOfRange"
proof -
  from assms obtain xs w0 where
    "expect_split_loop ob ex i fwd bbd kbd xs (0, 0) w0 = (Inl e, w')"
    unfolding expect_update_two_dot_def Let_def
    by (simp split: prod.splits sum.splits if_splits)
  with expect_split_loop_Inl show ?thesis by blast
qed

lemma multi_contract_all_Some:
  "multi_contract_all ob m i xs w = (Some e, w') \<Longrightarrow> e = NullPointer"
  by (induction xs arbitrary: w) (auto split: if_splits)

lemma expect_multi_split_loop_Inl:
  "expect_multi_split_loop ob ex i fwd bbd kbd xs errs w = (Inl e, w') \<Longrightarrow> e = OutOfRange"
proof (induction xs arbitrary: errs w)
  case Nil
  then show ?case by simp
next
  case (Cons x xs)
  show ?case
  proof (cases "move_center x i fwd (CHR ''M'')
                  (emit ([Call ''density_matrix_with_multi_target''
                           [Rs (mps_weights (store w x)), B fwd, R 0, N NoiseNone],
                          Call ''multi_split_density_matrix''
                           [I (if x = bra (me ex) then uint bbd else uint kbd), B fwd, B False,
                            I (int x), I i, R (cutoff ex), T (trunc_type ex)]]
                         @ info_events x i fwd) w)")
    case (Inl x1)
    with Cons.prems have "e = x1" by (simp add: Let_def)
    with Inl move_center_Inl show ?thesis by blast
  next
    case (Inr w1)
    with Cons.prems Cons.IH show ?thesis by (simp add: Let_def)
  qed
qed

lemma weighted_sum_Inl: "weighted_sum pw vals l x = Inl e \<Longrightarrow> e = OutOfRange"
proof (induction pw vals l x rule: weighted_sum.induct)
  case (1 pw vals l x)
  then show ?case
    by (simp add: weighted_sum.simps[of pw vals l x] split: if_splits)
qed

lemma average_all_Inl: "average_all pw xs = Inl e \<Longrightarrow> e = OutOfRange"
proof (induction pw xs arbitrary: e rule: average_all.induct)
  case (1 pw)
  then show ?case by simp
next
  case (2 pw op vals rest)
  then show ?case
    using weighted_sum_Inl[of pw vals 0 0] by (auto split: sum.splits)
qed



lemma expect_update_multi_two_dot_Inl:
  assumes "expect_update_multi_two_dot ob ex i fwd pr bbd kbd w = (Inl e, w')"
  shows "e = OutOfRange \<or> e = NullPointer"
proof -
  define mpss where "mpss = (if bra (me ex) = ket (me ex) then [bra (me ex)]
                  else [bra (me ex), ket (me ex)])"
  obtain r0 w0 where mc:
    "multi_contract_all ob (me ex) i mpss (emit [Call ''frame->activate'' [I 0]] w) = (r0, w0)"
    by (cases "multi_contract_all ob (me ex) i mpss (emit [Call ''frame->activate'' [I 0]] w)")
  show ?thesis
  proof (cases r0)
    case (Some x)
    with assms mc have "e = x"
      unfolding expect_update_multi_two_dot_def Let_def mpss_def[symmetric] by simp
    with mc Some multi_contract_all_Some show ?thesis by blast
  next
    case None
    let ?w1 = "emit ([Call ''me->multi_eff_ham'' [F FuseLR, B False],
                        Call ''h_eff->expect'' []] @ [Call ''h_eff->deallocate'' []]) w0"
    obtain r1 w2 where sl:
      "(if pr then expect_multi_split_loop ob ex i fwd bbd kbd mpss (0, 0) ?w1
        else (Inr (0, 0), ?w1)) = (r1, w2)"
      by (cases "if pr then expect_multi_split_loop ob ex i fwd bbd kbd mpss (0, 0) ?w1
        else (Inr (0, 0), ?w1)")
    show ?thesis
    proof (cases r1)
      case (Inl x)
      with assms mc None sl have "e = x"
        unfolding expect_update_multi_two_dot_def Let_def mpss_def[symmetric]
        by simp
      moreover from sl Inl have "x = OutOfRange"
        using expect_multi_split_loop_Inl by (cases pr) auto
      ultimately show ?thesis by simp
    next
      case (Inr y)
      obtain be ke where y: "y = (be, ke)" by (cases y)
      from assms mc None sl Inr y
      have "\<exists>pdi0. average_all (partition_weights ex) pdi0 = Inl e"
        unfolding expect_update_multi_two_dot_def Let_def mpss_def[symmetric]
        by (auto split: sum.splits)
      with average_all_Inl show ?thesis by blast
    qed
  qed
qed

lemma te_blocking_two_site:
  assumes "dot (me te) = 2"
  shows "fst (te_blocking ob te i fwd adv bt bd noise w) \<noteq> Inl (RuntimeError s)"
proof
  assume "fst (te_blocking ob te i fwd adv bt bd noise w) = Inl (RuntimeError s)"
  with assms have "te_update_two_dot ob te i fwd adv bt bd noise
                     (emit [Call ''me->move_to'' [I i]] w)
       = (Inl (RuntimeError s),
          snd (te_update_two_dot ob te i fwd adv bt bd noise
                 (emit [Call ''me->move_to'' [I i]] w)))"
    by (simp add: te_blocking_def Let_def prod_eq_iff)
  from te_update_two_dot_Inl[OF this] show False by simp
qed

lemma compress_blocking_two_site:
  assumes "dot (me c) = 2"
  shows "fst (compress_blocking ob c i fwd bbd kbd noise w) \<noteq> Inl (RuntimeError s)"
proof
  assume "fst (compress_blocking ob c i fwd bbd kbd noise w) = Inl (RuntimeError s)"
  with assms have "compress_update_two_dot ob c i fwd bbd kbd noise
                     (emit [Call ''me->move_to'' [I i]] w)
       = (Inl (RuntimeError s),
          snd (compress_update_two_dot ob c i fwd bbd kbd noise
                 (emit [Call ''me->move_to'' [I i]] w)))"
    by (simp add: compress_blocking_def Let_def prod_eq_iff)
  from compress_update_two_dot_Inl[OF this] show False by simp
qed

lemma expect_blocking_two_site:
  assumes "dot (me ex) = 2"
  shows "fst (expect_blocking ob ex i fwd pr bbd kbd w) \<noteq> Inl (RuntimeError s)"
proof
  assume a: "fst (expect_blocking ob ex i fwd pr bbd kbd w) = Inl (RuntimeError s)"
  define w0 where "w0 = emit [Call ''me->move_to'' [I i]] w"
  have r: "expect_blocking ob ex i fwd pr bbd kbd w
             = (Inl (RuntimeError s), snd (expect_blocking ob ex i fwd pr bbd kbd w))"
    using a by (metis prod.collapse)
  from r assms
  consider "expect_update_two_dot ob ex i fwd pr bbd kbd w0
             = (Inl (RuntimeError s), snd (expect_blocking ob ex i fwd pr bbd kbd w))"
    | "expect_update_multi_two_dot ob ex i fwd pr bbd kbd w0
             = (Inl (RuntimeError s), snd (expect_blocking ob ex i fwd pr bbd kbd w))"
    unfolding expect_blocking_def Let_def w0_def[symmetric]
    by (simp split: option.splits if_splits)
  then show False
  proof cases
    case 1
    from expect_update_two_dot_Inl[OF 1] show False by simp
  next
    case 2
    from expect_update_multi_two_dot_Inl[OF 2] show False by simp
  qed
qed

text \<open>
  C6.  In each of the four drivers, a blocking step requested while \<open>me->dot\<close> is not 2
  ends with the exception \<open>runtime_error("1 site not yet implemented")\<close>, which is not a
  failed assertion, after nothing but the call \<open>me->move_to(i)\<close>: no tag of any MPS object
  has changed.  With \<open>me->dot\<close> equal to 2 a blocking step never ends with a runtime error,
  so the exception tells the unsupported configuration apart from every other failure.
\<close>

theorem blocking_single_site:
  "(dot (me d) \<noteq> 2 \<longrightarrow>
      dmrg_blocking ob d i fwd bd noise thr w =
        (Inl (RuntimeError ''1 site not yet implemented''), emit [Call ''me->move_to'' [I i]] w))
   \<and> (dot (me te) \<noteq> 2 \<longrightarrow>
      te_blocking ob te i fwd adv bt bd noise w =
        (Inl (RuntimeError ''1 site not yet implemented''), emit [Call ''me->move_to'' [I i]] w))
   \<and> (dot (me c) \<noteq> 2 \<longrightarrow>
      compress_blocking ob c i fwd bbd kbd noise w =
        (Inl (RuntimeError ''1 site not yet implemented''), emit [Call ''me->move_to'' [I i]] w))
   \<and> (dot (me ex) \<noteq> 2 \<longrightarrow>
      expect_blocking ob ex i fwd pr bbd kbd w =
        (Inl (RuntimeError ''1 site not yet implemented''), emit [Call ''me->move_to'' [I i]] w))
   \<and> (dot (me d) = 2 \<longrightarrow>
        (\<forall>s. fst (dmrg_blocking ob d i fwd bd noise thr w) \<noteq> Inl (RuntimeError s)))
   \<and> (dot (me te) = 2 \<longrightarrow>
        (\<forall>s. fst (te_blocking ob te i fwd adv bt bd noise w) \<noteq> Inl (RuntimeError s)))
   \<and> (dot (me c) = 2 \<longrightarrow>
        (\<forall>s. fst (compress_blocking ob c i fwd bbd kbd noise w) \<noteq> Inl (RuntimeError s)))
   \<and> (dot (me ex) = 2 \<longrightarrow>
        (\<forall>s. fst (expect_blocking ob ex i fwd pr bbd kbd w) \<noteq> Inl (RuntimeError s)))
   \<and> (\<forall>m. form (emit [Call ''me->move_to'' [I i]] w) m = form w m)
   \<and> RuntimeError ''1 site not yet implemented'' \<noteq> AssertionFailed"
proof -
  have "dot (me d) \<noteq> 2 \<longrightarrow>
      dmrg_blocking ob d i fwd bd noise thr w =
        (Inl (RuntimeError ''1 site not yet implemented''), emit [Call ''me->move_to'' [I i]] w)"
    by (simp add: dmrg_blocking_def Let_def)
  moreover have "dot (me te) \<noteq> 2 \<longrightarrow>
      te_blocking ob te i fwd adv bt bd noise w =
        (Inl (RuntimeError ''1 site not yet implemented''), emit [Call ''me->move_to'' [I i]] w)"
    by (simp add: te_blocking_def Let_def)
  moreover have "dot (me c) \<noteq> 2 \<longrightarrow>
      compress_blocking ob c i fwd bbd kbd noise w =
        (Inl (RuntimeError ''1 site not yet implemented''), emit [Call ''me->move_to'' [I i]] w)"
    by (simp add: compress_blocking_def Let_def)
  moreover have "dot (me ex) \<noteq> 2 \<longrightarrow>
      expect_blocking ob ex i fwd pr bbd kbd w =
        (Inl (RuntimeError ''1 site not yet implemented''), emit [Call ''me->move_to'' [I i]] w)"
    by (simp add: expect_blocking_def Let_def)
  moreover have "dot (me d) = 2 \<longrightarrow>
        (\<forall>s. fst (dmrg_blocking ob d i fwd bd noise thr w) \<noteq> Inl (RuntimeError s))"
    using dmrg_blocking_two_site by blast
  moreover have "dot (me te) = 2 \<longrightarrow>
        (\<forall>s. fst (te_blocking ob te i fwd adv bt bd noise w) \<noteq> Inl (RuntimeError s))"
    using te_blocking_two_site by blast
  moreover have "dot (me c) = 2 \<longrightarrow>
        (\<forall>s. fst (compress_blocking ob c i fwd bbd kbd noise w) \<noteq> Inl (RuntimeError s))"
    using compress_blocking_two_site by blast
  moreover have "dot (me ex) = 2 \<longrightarrow>
        (\<forall>s. fst (expect_blocking ob ex i fwd pr bbd kbd w) \<noteq> Inl (RuntimeError s))"
    using expect_blocking_two_site by blast
  moreover have "\<forall>m. form (emit [Call ''me->move_to'' [I i]] w) m = form w m"
    by (simp add: emit_simps)
  moreover have "RuntimeError ''1 site not yet implemented'' \<noteq> AssertionFailed"
    by simp
  ultimately show ?thesis
    by (intro conjI)
qed

theorem blocking_single_site_witness:
  "dmrg_blocking sample_obs (sample_dmrg (sample_me 0 1 1 5)) 1 True 100 0 (1 / 10)
     (sample_world (sample_mps ''LCCRR'') (sample_mps ''LCCRR'')) =
     (Inl (RuntimeError ''1 site not yet implemented''),
      emit [Call ''me->move_to'' [I 1]] (sample_world (sample_mps ''LCCRR'') (sample_mps ''LCCRR'')))
   \<and> fst (te_blocking sample_obs (ImaginaryTE (sample_me 1 1 2 5) [100] RK4 1) 1 True True
             (1 / 40) 100 0 (sample_world (sample_mps ''LCCRR'') (sample_mps ''LCCRR'')))
       \<noteq> Inl (RuntimeError ''1 site not yet implemented'')"
  using blocking_single_site
          [of "sample_dmrg (sample_me 0 1 1 5)" sample_obs 1 True 100 0 "1 / 10"
              "sample_world (sample_mps ''LCCRR'') (sample_mps ''LCCRR'')"
              "ImaginaryTE (sample_me 1 1 2 5) [100] RK4 1" True "1 / 40"]
  by (simp add: sample_dmrg_def sample_me_def ImaginaryTE_def)

subsection \<open>ImaginaryTE: the calls of a two-site update\<close>

lemmas calls_of_list = calls_of_Nil calls_of_Cons calls_of_append

lemma calls_of_map_other:
  "g \<noteq> f \<Longrightarrow> calls_of f (map (\<lambda>j. Call g (as j)) xs) = []"
  by (induction xs) (simp_all add: calls_of_list)

lemma contract_or_load2_calls:
  "calls_of ''split_density_matrix'' (contract_or_load2 ob h k i) = []"
  "calls_of ''h_eff->expo_apply'' (contract_or_load2 ob h k i) = []"
  "calls_of ''h_eff->rk4_apply'' (contract_or_load2 ob h k i) = []"
  "calls_of ''density_matrix'' (contract_or_load2 ob h k i) = []"
  "calls_of ''density_matrix_with_weights'' (contract_or_load2 ob h k i) = []"
  by (simp_all add: contract_or_load2_def calls_of_list)

lemma info_events_calls:
  "calls_of ''split_density_matrix'' (info_events k i fwd) = []"
  "calls_of ''h_eff->expo_apply'' (info_events k i fwd) = []"
  "calls_of ''h_eff->rk4_apply'' (info_events k i fwd) = []"
  "calls_of ''density_matrix'' (info_events k i fwd) = []"
  "calls_of ''density_matrix_with_weights'' (info_events k i fwd) = []"
  by (simp_all add: info_events_def calls_of_list)

lemma rk4_density_events_calls:
  "calls_of ''split_density_matrix'' (rk4_density_events te fwd noise n) = []"
  "calls_of ''h_eff->expo_apply'' (rk4_density_events te fwd noise n) = []"
  "calls_of ''h_eff->rk4_apply'' (rk4_density_events te fwd noise n) = []"
  "calls_of ''density_matrix'' (rk4_density_events te fwd noise n) = []"
  "calls_of ''density_matrix_with_weights'' (rk4_density_events te fwd noise n) =
     [Call ''density_matrix_with_weights''
        [B fwd, R noise, Rs (weights te), N (noise_type te)]]"
  by (simp_all add: rk4_density_events_def calls_of_list calls_of_map_other)

text \<open>
  When the evolution step returns: it does so unless the update is asked not to advance
  at a boundary in the tangent-space mode.
\<close>

lemma te_two_dot_evolve_completes:
  "(\<exists>pdi. fst (te_two_dot_evolve ob te i fwd advance bt noise h) = Inr pdi) \<longleftrightarrow>
   \<not> (\<not> advance \<and> at_boundary te i fwd \<and> mode te = TangentSpace)"
  by (cases "mode te")
     (simp_all del: split_paired_Ex add: te_two_dot_evolve_def effective_mode_def Let_def)

lemma te_two_dot_evolve_calls:
  assumes "te_two_dot_evolve ob te i fwd advance bt noise h = (Inr pdi, evs)"
  shows "calls_of ''split_density_matrix'' evs = []"
    and "calls_of ''h_eff->expo_apply'' evs =
           (if effective_mode te i fwd = TangentSpace
            then [Call ''h_eff->expo_apply'' [R (- bt), R (const_e (me te)), B (iprint te \<ge> 3)]]
            else [])"
    and "calls_of ''h_eff->rk4_apply'' evs =
           (if effective_mode te i fwd = TangentSpace \<and> \<not> (\<not> advance \<and> at_boundary te i fwd)
            then []
            else [Call ''h_eff->rk4_apply'' [R (- bt), R (const_e (me te)), B False]])"
    and "calls_of ''density_matrix'' evs =
           (if effective_mode te i fwd = TangentSpace \<and> \<not> (\<not> advance \<and> at_boundary te i fwd)
            then [Call ''density_matrix'' [B fwd, R noise, N (noise_type te)]]
            else [])"
    and "calls_of ''density_matrix_with_weights'' evs =
           (if effective_mode te i fwd = TangentSpace \<and> \<not> (\<not> advance \<and> at_boundary te i fwd)
            then []
            else [Call ''density_matrix_with_weights''
                    [B fwd, R noise, Rs (weights te), N (noise_type te)]])"
proof -
  consider (hold) "\<not> advance \<and> at_boundary te i fwd"
    | (ts) "\<not> (\<not> advance \<and> at_boundary te i fwd)" "effective_mode te i fwd = TangentSpace"
    | (rk) "\<not> (\<not> advance \<and> at_boundary te i fwd)" "effective_mode te i fwd \<noteq> TangentSpace"
    by blast
  then have "calls_of ''split_density_matrix'' evs = []
    \<and> calls_of ''h_eff->expo_apply'' evs =
           (if effective_mode te i fwd = TangentSpace
            then [Call ''h_eff->expo_apply'' [R (- bt), R (const_e (me te)), B (iprint te \<ge> 3)]]
            else [])
    \<and> calls_of ''h_eff->rk4_apply'' evs =
           (if effective_mode te i fwd = TangentSpace \<and> \<not> (\<not> advance \<and> at_boundary te i fwd)
            then []
            else [Call ''h_eff->rk4_apply'' [R (- bt), R (const_e (me te)), B False]])
    \<and> calls_of ''density_matrix'' evs =
           (if effective_mode te i fwd = TangentSpace \<and> \<not> (\<not> advance \<and> at_boundary te i fwd)
            then [Call ''density_matrix'' [B fwd, R noise, N (noise_type te)]]
            else [])
    \<and> calls_of ''density_matrix_with_weights'' evs =
           (if effective_mode te i fwd = TangentSpace \<and> \<not> (\<not> advance \<and> at_boundary te i fwd)
            then []
            else [Call ''density_matrix_with_weights''
                    [B fwd, R noise, Rs (weights te), N (noise_type te)]])"
  proof cases
    case hold
    with assms have e: "effective_mode te i fwd = TangentSpace" and m: "mode te = RK4"
      by (auto simp: te_two_dot_evolve_def Let_def split: if_splits)
    from assms hold e m have
      "evs = [Call ''frame->activate'' [I 0]] @ contract_or_load2 ob h (ket (me te)) i
             @ [Call ''me->eff_ham'' [F FuseLR, B True],
                Call ''tmp.allocate'' [],
                Call ''memcpy(tmp.data, h_eff->ket->data)'' [],
                Call ''h_eff->expo_apply''
                  [R (- bt), R (const_e (me te)), B (iprint te \<ge> 3)],
                Call ''memcpy(h_eff->ket->data, tmp.data)'' [],
                Call ''tmp.deallocate'' [],
                Call ''h_eff->rk4_apply'' [R (- bt), R (const_e (me te)), B False]]
             @ rk4_density_events te fwd noise
                 (fst (rk4_apply ob
                    (h @ [Call ''frame->activate'' [I 0]] @ contract_or_load2 ob h (ket (me te)) i
                       @ [Call ''me->eff_ham'' [F FuseLR, B True],
                          Call ''tmp.allocate'' [],
                          Call ''memcpy(tmp.data, h_eff->ket->data)'' [],
                          Call ''h_eff->expo_apply''
                            [R (- bt), R (const_e (me te)), B (iprint te \<ge> 3)],
                          Call ''memcpy(h_eff->ket->data, tmp.data)'' [],
                          Call ''tmp.deallocate'' [],
                          Call ''h_eff->rk4_apply'' [R (- bt), R (const_e (me te)), B False]])))"
      by (simp add: te_two_dot_evolve_def Let_def)
    with hold e show ?thesis
      by (simp add: calls_of_list contract_or_load2_calls rk4_density_events_calls)
  next
    case ts
    with assms have
      "evs = [Call ''frame->activate'' [I 0]] @ contract_or_load2 ob h (ket (me te)) i
             @ [Call ''me->eff_ham'' [F FuseLR, B True],
                Call ''h_eff->expo_apply''
                  [R (- bt), R (const_e (me te)), B (iprint te \<ge> 3)],
                Call ''h_eff->deallocate'' [],
                Call ''density_matrix'' [B fwd, R noise, N (noise_type te)]]"
      by (auto simp: te_two_dot_evolve_def Let_def)
    with ts show ?thesis
      by (simp add: calls_of_list contract_or_load2_calls)
  next
    case rk
    with assms have
      "evs = [Call ''frame->activate'' [I 0]] @ contract_or_load2 ob h (ket (me te)) i
             @ [Call ''me->eff_ham'' [F FuseLR, B True],
                Call ''h_eff->rk4_apply'' [R (- bt), R (const_e (me te)), B False]]
             @ rk4_density_events te fwd noise
                 (fst (rk4_apply ob
                    (h @ [Call ''frame->activate'' [I 0]] @ contract_or_load2 ob h (ket (me te)) i
                       @ [Call ''me->eff_ham'' [F FuseLR, B True],
                          Call ''h_eff->rk4_apply'' [R (- bt), R (const_e (me te)), B False]])))"
      by (auto simp: te_two_dot_evolve_def Let_def)
    with rk show ?thesis
      by (simp add: calls_of_list contract_or_load2_calls rk4_density_events_calls)
  qed
  then show "calls_of ''split_density_matrix'' evs = []"
    and "calls_of ''h_eff->expo_apply'' evs =
           (if effective_mode te i fwd = TangentSpace
            then [Call ''h_eff->expo_apply'' [R (- bt), R (const_e (me te)), B (iprint te \<ge> 3)]]
            else [])"
    and "calls_of ''h_eff->rk4_apply'' evs =
           (if effective_mode te i fwd = TangentSpace \<and> \<not> (\<not> advance \<and> at_boundary te i fwd)
            then []
            else [Call ''h_eff->rk4_apply'' [R (- bt), R (const_e (me te)), B False]])"
    and "calls_of ''density_matrix'' evs =
           (if effective_mode te i fwd = TangentSpace \<and> \<not> (\<not> advance \<and> at_boundary te i fwd)
            then [Call ''density_matrix'' [B fwd, R noise, N (noise_type te)]]
            else [])"
    and "calls_of ''density_matrix_with_weights'' evs =
           (if effective_mode te i fwd = TangentSpace \<and> \<not> (\<not> advance \<and> at_boundary te i fwd)
            then []
            else [Call ''density_matrix_with_weights''
                    [B fwd, R noise, Rs (weights te), N (noise_type te)]])"
    by simp_all
qed

lemma te_split_events_calls:
  "calls_of ''split_density_matrix'' (fst (te_split_events te i fwd advance bd)) =
     [Call ''split_density_matrix''
        [I (te_bdim te i bd), B fwd, B False, I (int (ket (me te))), I i, R (cutoff te),
         T (trunc_type te)]]"
  "calls_of ''split_density_matrix'' (snd (te_split_events te i fwd advance bd)) = []"
  "calls_of ''h_eff->expo_apply'' (fst (te_split_events te i fwd advance bd)) = []"
  "calls_of ''h_eff->expo_apply'' (snd (te_split_events te i fwd advance bd)) = []"
  "calls_of ''h_eff->rk4_apply'' (fst (te_split_events te i fwd advance bd)) = []"
  "calls_of ''h_eff->rk4_apply'' (snd (te_split_events te i fwd advance bd)) = []"
  "calls_of ''density_matrix'' (fst (te_split_events te i fwd advance bd)) = []"
  "calls_of ''density_matrix'' (snd (te_split_events te i fwd advance bd)) = []"
  "calls_of ''density_matrix_with_weights'' (fst (te_split_events te i fwd advance bd)) = []"
  "calls_of ''density_matrix_with_weights'' (snd (te_split_events te i fwd advance bd)) = []"
  by (simp_all add: te_split_events_def Let_def calls_of_list info_events_calls)

lemma te_corrective_events_calls:
  "calls_of ''split_density_matrix'' (fst (te_corrective_events te i fwd bt)) = []"
  "calls_of ''split_density_matrix'' (snd (te_corrective_events te i fwd bt)) = []"
  "calls_of ''h_eff->expo_apply'' (fst (te_corrective_events te i fwd bt)) = []"
  "calls_of ''h_eff->expo_apply'' (snd (te_corrective_events te i fwd bt)) = []"
  "calls_of ''h_eff->rk4_apply'' (fst (te_corrective_events te i fwd bt)) = []"
  "calls_of ''h_eff->rk4_apply'' (snd (te_corrective_events te i fwd bt)) = []"
  "calls_of ''density_matrix'' (fst (te_corrective_events te i fwd bt)) = []"
  "calls_of ''density_matrix'' (snd (te_corrective_events te i fwd bt)) = []"
  "calls_of ''density_matrix_with_weights'' (fst (te_corrective_events te i fwd bt)) = []"
  "calls_of ''density_matrix_with_weights'' (snd (te_corrective_events te i fwd bt)) = []"
  by (simp_all add: te_corrective_events_def Let_def calls_of_list)

lemma te_update_two_dot_completes:
  "(\<exists>it. fst (te_update_two_dot ob te i fwd advance bt bd noise w) = Inr it) \<longleftrightarrow>
   0 \<le> i \<and> nat i + 1 < length (form w (ket (me te)))
   \<and> \<not> (\<not> advance \<and> at_boundary te i fwd \<and> mode te = TangentSpace)"
proof -
  obtain r evs where ev: "te_two_dot_evolve ob te i fwd advance bt noise (trace w) = (r, evs)"
    by (cases "te_two_dot_evolve ob te i fwd advance bt noise (trace w)")
  note c = te_two_dot_evolve_completes[of ob te i fwd advance bt noise "trace w"]
  show ?thesis
  proof (cases r)
    case (Inl e)
    with ev c show ?thesis
      by (auto simp del: split_paired_Ex simp: te_update_two_dot_def Let_def)
  next
    case (Inr pdi)
    with ev c have cfg: "\<not> (\<not> advance \<and> at_boundary te i fwd \<and> mode te = TangentSpace)"
      by (simp del: split_paired_Ex)
    let ?w = "emit (evs @ fst (te_split_events te i fwd advance bd)
                        @ snd (te_split_events te i fwd advance bd)) w"
    note m = move_center_completes[of "ket (me te)" i fwd "CHR ''C''" ?w]
    show ?thesis
    proof (cases "move_center (ket (me te)) i fwd (CHR ''C'') ?w")
      case mi: (Inl e)
      with m have "\<not> (0 \<le> i \<and> nat i + 1 < length (form w (ket (me te))))"
        by (simp add: emit_simps)
      with mi ev Inr show ?thesis
        by (auto simp del: split_paired_Ex
                 simp: te_update_two_dot_def Let_def split_def)
    next
      case mr: (Inr w1)
      with m have "0 \<le> i \<and> nat i + 1 < length (form w (ket (me te)))"
        by (simp add: emit_simps)
      with mr ev Inr cfg show ?thesis
        by (auto simp del: split_paired_Ex
                 simp: te_update_two_dot_def Let_def split_def)
    qed
  qed
qed

lemma te_update_two_dot_trace:
  assumes "fst (te_update_two_dot ob te i fwd advance bt bd noise w) = Inr it"
  shows "\<exists>pdi evs.
           te_two_dot_evolve ob te i fwd advance bt noise (trace w) = (Inr pdi, evs)
           \<and> trace (snd (te_update_two_dot ob te i fwd advance bt bd noise w)) =
               trace w @ evs
               @ fst (te_split_events te i fwd advance bd)
               @ snd (te_split_events te i fwd advance bd)
               @ [Call ''info->deallocate'' [],
                  Call ''save_tensor'' [I (int (ket (me te))), I (i + 1)],
                  Call ''save_tensor'' [I (int (ket (me te))), I i],
                  Call ''unload_tensor'' [I (int (ket (me te))), I (i + 1)],
                  Call ''unload_tensor'' [I (int (ket (me te))), I i],
                  Call ''dm->info->deallocate'' [],
                  Call ''dm->deallocate'' [],
                  Call ''old_wfn->info->deallocate'' [],
                  Call ''old_wfn->deallocate'' []]
               @ fst (te_corrective_events te i fwd bt)
               @ snd (te_corrective_events te i fwd bt)
               @ [Call ''propagate_wfn''
                    [I i, I (n_sites (me te)), I (int (ket (me te))), B fwd]]"
proof -
  obtain r evs where ev: "te_two_dot_evolve ob te i fwd advance bt noise (trace w) = (r, evs)"
    by (cases "te_two_dot_evolve ob te i fwd advance bt noise (trace w)")
  show ?thesis
  proof (cases r)
    case (Inl e)
    with ev assms show ?thesis
      by (simp add: te_update_two_dot_def Let_def)
  next
    case (Inr pdi)
    let ?w = "emit (evs @ fst (te_split_events te i fwd advance bd)
                        @ snd (te_split_events te i fwd advance bd)) w"
    show ?thesis
    proof (cases "move_center (ket (me te)) i fwd (CHR ''C'') ?w")
      case mi: (Inl e)
      with ev Inr assms show ?thesis
        by (simp add: te_update_two_dot_def Let_def split_def)
    next
      case mr: (Inr w1)
      from move_center_Inr(5)[OF mr] have t: "trace w1 = trace w @ evs
               @ fst (te_split_events te i fwd advance bd)
               @ snd (te_split_events te i fwd advance bd)"
        by (simp add: emit_simps)
      from mr ev Inr t show ?thesis
        by (simp del: split_paired_Ex add: te_update_two_dot_def Let_def split_def emit_simps)
    qed
  qed
qed

lemma te_update_two_dot_calls:
  assumes "fst (te_update_two_dot ob te i fwd advance bt bd noise w) = Inr it"
  shows "let evs = drop (length (trace w))
                     (trace (snd (te_update_two_dot ob te i fwd advance bt bd noise w)))
         in calls_of ''split_density_matrix'' evs =
              [Call ''split_density_matrix''
                 [I (te_bdim te i bd), B fwd, B False, I (int (ket (me te))), I i, R (cutoff te),
                  T (trunc_type te)]]
          \<and> calls_of ''h_eff->expo_apply'' evs =
              (if effective_mode te i fwd = TangentSpace
               then [Call ''h_eff->expo_apply''
                       [R (- bt), R (const_e (me te)), B (iprint te \<ge> 3)]]
               else [])
          \<and> calls_of ''h_eff->rk4_apply'' evs =
              (if effective_mode te i fwd = TangentSpace
                  \<and> \<not> (\<not> advance \<and> at_boundary te i fwd)
               then []
               else [Call ''h_eff->rk4_apply'' [R (- bt), R (const_e (me te)), B False]])
          \<and> calls_of ''density_matrix'' evs =
              (if effective_mode te i fwd = TangentSpace
                  \<and> \<not> (\<not> advance \<and> at_boundary te i fwd)
               then [Call ''density_matrix'' [B fwd, R noise, N (noise_type te)]]
               else [])
          \<and> calls_of ''density_matrix_with_weights'' evs =
              (if effective_mode te i fwd = TangentSpace
                  \<and> \<not> (\<not> advance \<and> at_boundary te i fwd)
               then []
               else [Call ''density_matrix_with_weights''
                       [B fwd, R noise, Rs (weights te), N (noise_type te)]])"
proof -
  from te_update_two_dot_trace[OF assms] obtain pdi evs where
    ev: "te_two_dot_evolve ob te i fwd advance bt noise (trace w) = (Inr pdi, evs)" and
    tr: "trace (snd (te_update_two_dot ob te i fwd advance bt bd noise w)) =
               trace w @ evs
               @ fst (te_split_events te i fwd advance bd)
               @ snd (te_split_events te i fwd advance bd)
               @ [Call ''info->deallocate'' [],
                  Call ''save_tensor'' [I (int (ket (me te))), I (i + 1)],
                  Call ''save_tensor'' [I (int (ket (me te))), I i],
                  Call ''unload_tensor'' [I (int (ket (me te))), I (i + 1)],
                  Call ''unload_tensor'' [I (int (ket (me te))), I i],
                  Call ''dm->info->deallocate'' [],
                  Call ''dm->deallocate'' [],
                  Call ''old_wfn->info->deallocate'' [],
                  Call ''old_wfn->deallocate'' []]
               @ fst (te_corrective_events te i fwd bt)
               @ snd (te_corrective_events te i fwd bt)
               @ [Call ''propagate_wfn''
                    [I i, I (n_sites (me te)), I (int (ket (me te))), B fwd]]"
    by blast
  note c = te_two_dot_evolve_calls[OF ev]
  show ?thesis
    unfolding Let_def tr
    by (simp add: calls_of_list c te_split_events_calls te_corrective_events_calls)
qed

lemma smod_2_parity:
  "(i::int) smod 2 = 0 \<longleftrightarrow> even i" "0 \<le> i \<Longrightarrow> i smod 2 = 1 \<longleftrightarrow> odd i"
proof -
  show "i smod 2 = 0 \<longleftrightarrow> even i"
    by (auto simp: smod_int_alt_def sgn_if)
  show "0 \<le> i \<Longrightarrow> i smod 2 = 1 \<longleftrightarrow> odd i"
    by (auto simp: smod_int_alt_def sgn_if odd_iff_mod_2_eq_one)
qed

text \<open>
  C8.  A two-site update of ImaginaryTE at site \<open>i\<close> returns exactly when both sites lie
  inside the tag string of the ket and it is not asked to hold the time (\<open>advance\<close>
  false) at a chain boundary in the tangent-space mode.  When it returns it has split the
  density matrix exactly once, and the bond dimension handed to
  \<open>split_density_matrix\<close> is \<open>-1\<close> when the pattern is TruncAfterOdd and \<open>i\<close> is even,
  or the pattern is TruncAfterEven and \<open>i\<close> is odd, and the requested bond dimension
  (the 16-bit value, unchanged) at every other position and with the pattern None.  That
  \<open>-1\<close> makes the split keep every state is the convention of the splitting function,
  which is a collaborator here.
\<close>

theorem te_update_two_dot_truncation:
  "let r = te_update_two_dot ob te i fwd advance bt bd noise w;
       evs = drop (length (trace w)) (trace (snd r))
   in ((\<exists>it. fst r = Inr it) \<longleftrightarrow>
         0 \<le> i \<and> nat i + 1 < length (form w (ket (me te)))
         \<and> \<not> (\<not> advance
               \<and> ((fwd \<and> i + 1 = n_sites (me te) - 1) \<or> (\<not> fwd \<and> i = 0))
               \<and> mode te = TangentSpace))
      \<and> ((\<exists>it. fst r = Inr it) \<longrightarrow>
            calls_of ''split_density_matrix'' evs =
              [Call ''split_density_matrix''
                 [I (if (trunc_pattern te = TruncAfterOdd \<and> even i)
                        \<or> (trunc_pattern te = TruncAfterEven \<and> odd i)
                     then - 1 else uint bd),
                  B fwd, B False, I (int (ket (me te))), I i, R (cutoff te),
                  T (trunc_type te)]])"
proof -
  let ?r = "te_update_two_dot ob te i fwd advance bt bd noise w"
  have c: "(\<exists>it. fst ?r = Inr it) \<longleftrightarrow>
         0 \<le> i \<and> nat i + 1 < length (form w (ket (me te)))
         \<and> \<not> (\<not> advance
               \<and> ((fwd \<and> i + 1 = n_sites (me te) - 1) \<or> (\<not> fwd \<and> i = 0))
               \<and> mode te = TangentSpace)"
    using te_update_two_dot_completes[of ob te i fwd advance bt bd noise w]
    by (simp add: at_boundary_def)
  have s: "calls_of ''split_density_matrix'' (drop (length (trace w)) (trace (snd ?r))) =
              [Call ''split_density_matrix''
                 [I (if (trunc_pattern te = TruncAfterOdd \<and> even i)
                        \<or> (trunc_pattern te = TruncAfterEven \<and> odd i)
                     then - 1 else uint bd),
                  B fwd, B False, I (int (ket (me te))), I i, R (cutoff te),
                  T (trunc_type te)]]"
    if ret: "\<exists>it. fst ?r = Inr it"
  proof -
    from ret c have i: "0 \<le> i" by simp
    from ret obtain it where "fst ?r = Inr it" by blast
    from te_update_two_dot_calls[OF this]
    have "calls_of ''split_density_matrix'' (drop (length (trace w)) (trace (snd ?r))) =
              [Call ''split_density_matrix''
                 [I (te_bdim te i bd), B fwd, B False, I (int (ket (me te))), I i, R (cutoff te),
                  T (trunc_type te)]]"
      by (simp add: Let_def)
    then show ?thesis
      by (simp add: te_bdim_def smod_2_parity(1) smod_2_parity(2)[OF i])
  qed
  from c s show ?thesis unfolding Let_def by blast
qed

theorem te_update_two_dot_truncation_witness:
  "calls_of ''split_density_matrix''
     (trace (snd (te_update_two_dot sample_obs
        ((ImaginaryTE (sample_me 0 1 2 5) [100] TangentSpace 1)\<lparr>trunc_pattern := TruncAfterOdd\<rparr>)
        2 True True (1 / 20) 100 0
        (sample_world (sample_mps ''LLCCR'') (sample_mps ''LLCCR''))))) =
     [Call ''split_density_matrix''
        [I (- 1), B True, B False, I 1, I 2, R (1 / 10 ^ 14), T Physical]]
   \<and> calls_of ''split_density_matrix''
     (trace (snd (te_update_two_dot sample_obs
        ((ImaginaryTE (sample_me 0 1 2 5) [100] TangentSpace 1)\<lparr>trunc_pattern := TruncAfterOdd\<rparr>)
        1 True True (1 / 20) 100 0
        (sample_world (sample_mps ''LCCRR'') (sample_mps ''LCCRR''))))) =
     [Call ''split_density_matrix''
        [I 100, B True, B False, I 1, I 1, R (1 / 10 ^ 14), T Physical]]
   \<and> calls_of ''split_density_matrix''
     (trace (snd (te_update_two_dot sample_obs
        ((ImaginaryTE (sample_me 0 1 2 5) [100] TangentSpace 1)\<lparr>trunc_pattern := TruncAfterEven\<rparr>)
        1 False True (1 / 20) 100 0
        (sample_world (sample_mps ''LCCRR'') (sample_mps ''LCCRR''))))) =
     [Call ''split_density_matrix''
        [I (- 1), B False, B False, I 1, I 1, R (1 / 10 ^ 14), T Physical]]
   \<and> calls_of ''split_density_matrix''
     (trace (snd (te_update_two_dot sample_obs
        ((ImaginaryTE (sample_me 0 1 2 5) [100] TangentSpace 1)\<lparr>trunc_pattern := TruncAfterEven\<rparr>)
        2 False True (1 / 20) 100 0
        (sample_world (sample_mps ''LLCCR'') (sample_mps ''LLCCR''))))) =
     [Call ''split_density_matrix''
        [I 100, B False, B False, I 1, I 2, R (1 / 10 ^ 14), T Physical]]
   \<and> calls_of ''split_density_matrix''
     (trace (snd (te_update_two_dot sample_obs
        (ImaginaryTE (sample_me 0 1 2 5) [100] TangentSpace 1)
        2 True True (1 / 20) 100 0
        (sample_world (sample_mps ''LLCCR'') (sample_mps ''LLCCR''))))) =
     [Call ''split_density_matrix''
        [I 100, B True, B False, I 1, I 2, R (1 / 10 ^ 14), T Physical]]"
proof -
  let ?T = "ImaginaryTE (sample_me 0 1 2 5) [100] TangentSpace 1"
  let ?W1 = "sample_world (sample_mps ''LCCRR'') (sample_mps ''LCCRR'')"
  let ?W2 = "sample_world (sample_mps ''LLCCR'') (sample_mps ''LLCCR'')"
  have k: "ket (me (?T\<lparr>trunc_pattern := p\<rparr>)) = Suc 0" "ket (me ?T) = Suc 0"
    "n_sites (me (?T\<lparr>trunc_pattern := p\<rparr>)) = 5" "n_sites (me ?T) = 5"
    "mode (?T\<lparr>trunc_pattern := p\<rparr>) = TangentSpace" "mode ?T = TangentSpace"
    "cutoff (?T\<lparr>trunc_pattern := p\<rparr>) = 1 / 10 ^ 14" "cutoff ?T = 1 / 10 ^ 14"
    "trunc_type (?T\<lparr>trunc_pattern := p\<rparr>) = Physical" "trunc_type ?T = Physical"
    "trunc_pattern ?T = TruncNone" for p
    by (simp_all add: ImaginaryTE_def sample_me_def)
  have s: "form ?W1 (Suc 0) = ''LCCRR''" "form ?W2 (Suc 0) = ''LLCCR''"
    "trace ?W1 = []" "trace ?W2 = []"
    by (simp_all add: form_def sample_world_def sample_mps_def)
  from te_update_two_dot_truncation
         [where ob = sample_obs and te = "?T\<lparr>trunc_pattern := TruncAfterOdd\<rparr>" and i = 2
            and fwd = True and advance = True and bt = "1 / 20" and bd = 100 and noise = 0
            and w = ?W2]
  have 1: "calls_of ''split_density_matrix''
     (trace (snd (te_update_two_dot sample_obs (?T\<lparr>trunc_pattern := TruncAfterOdd\<rparr>)
        2 True True (1 / 20) 100 0 ?W2))) =
     [Call ''split_density_matrix''
        [I (- 1), B True, B False, I 1, I 2, R (1 / 10 ^ 14), T Physical]]"
    unfolding Let_def k s by simp
  from te_update_two_dot_truncation
         [where ob = sample_obs and te = "?T\<lparr>trunc_pattern := TruncAfterOdd\<rparr>" and i = 1
            and fwd = True and advance = True and bt = "1 / 20" and bd = 100 and noise = 0
            and w = ?W1]
  have 2: "calls_of ''split_density_matrix''
     (trace (snd (te_update_two_dot sample_obs (?T\<lparr>trunc_pattern := TruncAfterOdd\<rparr>)
        1 True True (1 / 20) 100 0 ?W1))) =
     [Call ''split_density_matrix''
        [I 100, B True, B False, I 1, I 1, R (1 / 10 ^ 14), T Physical]]"
    unfolding Let_def k s by simp
  from te_update_two_dot_truncation
         [where ob = sample_obs and te = "?T\<lparr>trunc_pattern := TruncAfterEven\<rparr>" and i = 1
            and fwd = False and advance = True and bt = "1 / 20" and bd = 100 and noise = 0
            and w = ?W1]
  have 3: "calls_of ''split_density_matrix''
     (trace (snd (te_update_two_dot sample_obs (?T\<lparr>trunc_pattern := TruncAfterEven\<rparr>)
        1 False True (1 / 20) 100 0 ?W1))) =
     [Call ''split_density_matrix''
        [I (- 1), B False, B False, I 1, I 1, R (1 / 10 ^ 14), T Physical]]"
    unfolding Let_def k s by simp
  from te_update_two_dot_truncation
         [where ob = sample_obs and te = "?T\<lparr>trunc_pattern := TruncAfterEven\<rparr>" and i = 2
            and fwd = False and advance = True and bt = "1 / 20" and bd = 100 and noise = 0
            and w = ?W2]
  have 4: "calls_of ''split_density_matrix''
     (trace (snd (te_update_two_dot sample_obs (?T\<lparr>trunc_pattern := TruncAfterEven\<rparr>)
        2 False True (1 / 20) 100 0 ?W2))) =
     [Call ''split_density_matrix''
        [I 100, B False, B False, I 1, I 2, R (1 / 10 ^ 14), T Physical]]"
    unfolding Let_def k s by simp
  from te_update_two_dot_truncation
         [where ob = sample_obs and te = ?T and i = 2
            and fwd = True and advance = True and bt = "1 / 20" and bd = 100 and noise = 0
            and w = ?W2]
  have 5: "calls_of ''split_density_matrix''
     (trace (snd (te_update_two_dot sample_obs ?T 2 True True (1 / 20) 100 0 ?W2))) =
     [Call ''split_density_matrix''
        [I 100, B True, B False, I 1, I 2, R (1 / 10 ^ 14), T Physical]]"
    unfolding Let_def k s by simp
  from 1 2 3 4 5 show ?thesis by (intro conjI)
qed




subsection \<open>Compress and Expect: one object as bra and ket\<close>

lemma contract_all_calls:
  "calls_of ''split_density_matrix'' (contract_all ob m i xs h) = []"
  "calls_of ''propagate_wfn'' (contract_all ob m i xs h) = []"
  by (induction xs arbitrary: h) (simp_all add: Let_def calls_of_list)

lemma single_save_events_calls:
  "calls_of ''split_density_matrix'' (single_save_events m x i fwd) = []"
  "calls_of ''propagate_wfn'' (single_save_events m x i fwd) =
     [Call ''propagate_wfn'' [I i, I (n_sites m), I (int x), B fwd]]"
  by (simp_all add: single_save_events_def calls_of_list)

lemma info_events_calls2:
  "calls_of ''propagate_wfn'' (info_events k i fwd) = []"
  by (simp add: info_events_def calls_of_list)

lemma expect_split_loop_closed:
  "distinct xs \<Longrightarrow>
   (let r = expect_split_loop ob ex i fwd bbd kbd xs errs w
    in ((\<exists>e. fst r = Inr e) \<longleftrightarrow>
          (\<forall>x\<in>set xs. 0 \<le> i \<and> nat i + 1 < length (form w x)))
       \<and> ((\<exists>e. fst r = Inr e) \<longrightarrow>
            (\<forall>m. form (snd r) m =
                   (if m \<in> set xs
                    then (form w m)[nat i := (if fwd then CHR ''L'' else CHR ''C''),
                                    nat i + 1 := (if fwd then CHR ''C'' else CHR ''R'')]
                    else form w m))
            \<and> (\<exists>evs. trace (snd r) = trace w @ evs
                  \<and> calls_of ''split_density_matrix'' evs =
                      map (\<lambda>x. Call ''split_density_matrix''
                             [I (if x = bra (me ex) then uint bbd else uint kbd), B fwd, B False,
                              I (int x), I i, R (cutoff ex), T (trunc_type ex)]) xs
                  \<and> calls_of ''propagate_wfn'' evs =
                      map (\<lambda>x. Call ''propagate_wfn'' [I i, I (n_sites (me ex)), I (int x), B fwd])
                        xs)))"
proof (induction xs arbitrary: errs w)
  case Nil
  then show ?case by (simp add: calls_of_list)
next
  case (Cons x xs)
  let ?e1 = "[Call ''density_matrix'' [B fwd, R 0, N NoiseNone],
                Call ''split_density_matrix''
                  [I (if x = bra (me ex) then uint bbd else uint kbd), B fwd, B False,
                   I (int x), I i, R (cutoff ex), T (trunc_type ex)]]"
  let ?w = "emit (?e1 @ info_events x i fwd) w"
  note m = move_center_completes[of x i fwd "CHR ''C''" ?w]
  show ?case
  proof (cases "move_center x i fwd (CHR ''C'') ?w")
    case (Inl e)
    with m have "\<not> (0 \<le> i \<and> nat i + 1 < length (form w x))"
      by (simp add: emit_simps)
    with Inl show ?thesis
      by (auto simp del: split_paired_Ex simp: Let_def)
  next
    case (Inr w1)
    with m have rng: "0 \<le> i" "nat i + 1 < length (form w x)"
      by (simp_all add: emit_simps)
    let ?errs = "if x = bra (me ex) then (split_error ob (trace w @ ?e1), snd errs)
                 else (fst errs, split_error ob (trace w @ ?e1))"
    let ?w2 = "emit (single_save_events (me ex) x i fwd) w1"
    let ?r = "expect_split_loop ob ex i fwd bbd kbd xs ?errs ?w2"
    from Inr have r: "expect_split_loop ob ex i fwd bbd kbd (x # xs) errs w = ?r"
      by (simp add: Let_def)
    from Cons.prems have d: "distinct xs" and nx: "x \<notin> set xs" by simp_all
    note f1 = move_center_Inr[OF Inr]
    have fx: "form ?w2 x = (form w x)[nat i := (if fwd then CHR ''L'' else CHR ''C''),
                                    nat i + 1 := (if fwd then CHR ''C'' else CHR ''R'')]"
      using f1(3) by (simp add: emit_simps)
    have fo: "form ?w2 m = form w m" if "m \<noteq> x" for m
      using f1(4)[OF that] by (simp add: emit_simps)
    have tr: "trace ?w2 = trace w @ ?e1 @ info_events x i fwd @ single_save_events (me ex) x i fwd"
      using f1(5) by (simp add: emit_simps)
    note ih = Cons.IH[OF d, of ?errs ?w2, unfolded Let_def]
    have c: "(\<exists>e. fst ?r = Inr e) \<longleftrightarrow>
             (\<forall>y\<in>set (x # xs). 0 \<le> i \<and> nat i + 1 < length (form w y))"
    proof -
      have "(\<forall>y\<in>set xs. 0 \<le> i \<and> nat i + 1 < length (form ?w2 y)) \<longleftrightarrow>
            (\<forall>y\<in>set xs. 0 \<le> i \<and> nat i + 1 < length (form w y))"
        using nx fo by (metis (no_types, lifting))
      with ih rng show ?thesis by simp
    qed
    have p: "(\<forall>m. form (snd ?r) m =
                   (if m \<in> set (x # xs)
                    then (form w m)[nat i := (if fwd then CHR ''L'' else CHR ''C''),
                                    nat i + 1 := (if fwd then CHR ''C'' else CHR ''R'')]
                    else form w m))
            \<and> (\<exists>evs. trace (snd ?r) = trace w @ evs
                  \<and> calls_of ''split_density_matrix'' evs =
                      map (\<lambda>x. Call ''split_density_matrix''
                             [I (if x = bra (me ex) then uint bbd else uint kbd), B fwd, B False,
                              I (int x), I i, R (cutoff ex), T (trunc_type ex)]) (x # xs)
                  \<and> calls_of ''propagate_wfn'' evs =
                      map (\<lambda>x. Call ''propagate_wfn'' [I i, I (n_sites (me ex)), I (int x), B fwd])
                        (x # xs))"
      if ret: "\<exists>e. fst ?r = Inr e"
    proof -
      from ih ret have
        f: "\<forall>m. form (snd ?r) m =
                   (if m \<in> set xs
                    then (form ?w2 m)[nat i := (if fwd then CHR ''L'' else CHR ''C''),
                                    nat i + 1 := (if fwd then CHR ''C'' else CHR ''R'')]
                    else form ?w2 m)" and
        t: "\<exists>evs. trace (snd ?r) = trace ?w2 @ evs
                  \<and> calls_of ''split_density_matrix'' evs =
                      map (\<lambda>x. Call ''split_density_matrix''
                             [I (if x = bra (me ex) then uint bbd else uint kbd), B fwd, B False,
                              I (int x), I i, R (cutoff ex), T (trunc_type ex)]) xs
                  \<and> calls_of ''propagate_wfn'' evs =
                      map (\<lambda>x. Call ''propagate_wfn'' [I i, I (n_sites (me ex)), I (int x), B fwd])
                        xs"
        by blast+
      have 1: "\<forall>m. form (snd ?r) m =
                   (if m \<in> set (x # xs)
                    then (form w m)[nat i := (if fwd then CHR ''L'' else CHR ''C''),
                                    nat i + 1 := (if fwd then CHR ''C'' else CHR ''R'')]
                    else form w m)"
      proof
        fix m
        show "form (snd ?r) m =
                   (if m \<in> set (x # xs)
                    then (form w m)[nat i := (if fwd then CHR ''L'' else CHR ''C''),
                                    nat i + 1 := (if fwd then CHR ''C'' else CHR ''R'')]
                    else form w m)"
        proof (cases "m = x")
          case True
          with f nx fx show ?thesis by simp
        next
          case False
          with f fo[OF False] show ?thesis by simp
        qed
      qed
      from t obtain evs where
        e1: "trace (snd ?r) = trace ?w2 @ evs" and
        e2: "calls_of ''split_density_matrix'' evs =
                      map (\<lambda>x. Call ''split_density_matrix''
                             [I (if x = bra (me ex) then uint bbd else uint kbd), B fwd, B False,
                              I (int x), I i, R (cutoff ex), T (trunc_type ex)]) xs" and
        e3: "calls_of ''propagate_wfn'' evs =
                      map (\<lambda>x. Call ''propagate_wfn'' [I i, I (n_sites (me ex)), I (int x), B fwd])
                        xs"
        by blast
      let ?evs = "?e1 @ info_events x i fwd @ single_save_events (me ex) x i fwd @ evs"
      have "trace (snd ?r) = trace w @ ?evs"
        using e1 tr by simp
      moreover have "calls_of ''split_density_matrix'' ?evs =
                      map (\<lambda>x. Call ''split_density_matrix''
                             [I (if x = bra (me ex) then uint bbd else uint kbd), B fwd, B False,
                              I (int x), I i, R (cutoff ex), T (trunc_type ex)]) (x # xs)"
        using e2
        by (simp add: calls_of_list info_events_calls single_save_events_calls)
      moreover have "calls_of ''propagate_wfn'' ?evs =
                      map (\<lambda>x. Call ''propagate_wfn'' [I i, I (n_sites (me ex)), I (int x), B fwd])
                        (x # xs)"
        using e3
        by (simp add: calls_of_list info_events_calls2 single_save_events_calls)
      ultimately show ?thesis using 1 by blast
    qed
    from c p show ?thesis unfolding Let_def r by blast
  qed
qed


lemma compress_split_loop_completes:
  "distinct xs \<Longrightarrow>
   (\<exists>e. fst (compress_split_loop ob c i fwd bbd kbd noise xs err w) = Inr e) \<longleftrightarrow>
   (\<forall>x\<in>set xs. 0 \<le> i \<and> nat i + 1 < length (form w x))"
proof (induction xs arbitrary: err w)
  case Nil
  then show ?case by simp
next
  case (Cons x xs)
  let ?e1 = "[Call ''density_matrix''
                  [B fwd, R (if x = bra (me c) then noise else 0),
                   N (if x = bra (me c) then noise_type c else NoiseNone)],
                Call ''split_density_matrix''
                  [I (if x = bra (me c) then uint bbd else uint kbd), B fwd, B False,
                   I (int x), I i, R (cutoff c), T (trunc_type c)]]"
  let ?w = "emit (?e1 @ info_events x i fwd) w"
  note m = move_center_completes[of x i fwd "CHR ''C''" ?w]
  show ?case
  proof (cases "move_center x i fwd (CHR ''C'') ?w")
    case (Inl e)
    with m have "\<not> (0 \<le> i \<and> nat i + 1 < length (form w x))"
      by (simp add: emit_simps)
    with Inl show ?thesis
      by (auto simp: Let_def)
  next
    case (Inr w1)
    with m have rng: "0 \<le> i" "nat i + 1 < length (form w x)"
      by (simp_all add: emit_simps)
    let ?err = "if x = bra (me c) then split_error ob (trace w @ ?e1) else err"
    let ?w2 = "emit (single_save_events (me c) x i fwd) w1"
    from Inr have r: "compress_split_loop ob c i fwd bbd kbd noise (x # xs) err w =
                      compress_split_loop ob c i fwd bbd kbd noise xs ?err ?w2"
      by (simp add: Let_def)
    from Cons.prems have d: "distinct xs" and nx: "x \<notin> set xs" by simp_all
    have fo: "form ?w2 m = form w m" if "m \<noteq> x" for m
      using move_center_Inr(4)[OF Inr that] by (simp add: emit_simps)
    have "(\<forall>y\<in>set xs. 0 \<le> i \<and> nat i + 1 < length (form ?w2 y)) \<longleftrightarrow>
          (\<forall>y\<in>set xs. 0 \<le> i \<and> nat i + 1 < length (form w y))"
      using nx fo by (metis (no_types, lifting))
    with Cons.IH[OF d, of ?err ?w2] rng show ?thesis
      unfolding r by simp
  qed
qed

lemma compress_update_two_dot_completes:
  "(\<exists>it. fst (compress_update_two_dot ob c i fwd bbd kbd noise w) = Inr it) \<longleftrightarrow>
   bra (me c) \<noteq> ket (me c) \<and> 0 \<le> i
   \<and> nat i + 1 < length (form w (bra (me c))) \<and> nat i + 1 < length (form w (ket (me c)))"
proof (cases "bra (me c) = ket (me c)")
  case True
  then show ?thesis by (simp add: compress_update_two_dot_def)
next
  case False
  let ?e0 = "[Call ''frame->activate'' [I 0]]"
  let ?e1 = "contract_all ob (me c) i [bra (me c), ket (me c)] (trace w @ ?e0)"
  let ?e2 = "[Call ''me->eff_ham'' [F FuseLR, B False], Call ''h_eff->multiply'' []]"
  let ?w0 = "emit (?e0 @ ?e1 @ ?e2 @ [Call ''h_eff->deallocate'' []]) w"
  let ?l = "compress_split_loop ob c i fwd bbd kbd noise [bra (me c), ket (me c)] 0 ?w0"
  from False have d: "distinct [bra (me c), ket (me c)]" by simp
  note l = compress_split_loop_completes[OF d, of ob c i fwd bbd kbd noise 0 ?w0]
  have "(\<exists>it. fst (compress_update_two_dot ob c i fwd bbd kbd noise w) = Inr it) \<longleftrightarrow>
        (\<exists>e. fst ?l = Inr e)"
    using False
    by (cases ?l; cases "fst ?l")
       (simp_all del: split_paired_Ex compress_split_loop.simps contract_all.simps
          add: compress_update_two_dot_def Let_def)
  with l False show ?thesis
    by (auto simp: emit_simps)
qed

lemma expect_update_two_dot_closed:
  "let mpss = (if bra (me ex) = ket (me ex) then [bra (me ex)]
               else [bra (me ex), ket (me ex)]);
       r = expect_update_two_dot ob ex i fwd propagate bbd kbd w;
       evs = drop (length (trace w)) (trace (snd r))
   in ((\<exists>it. fst r = Inr it) \<longleftrightarrow>
         (propagate \<longrightarrow> (\<forall>x\<in>set mpss. 0 \<le> i \<and> nat i + 1 < length (form w x))))
      \<and> ((\<exists>it. fst r = Inr it) \<longrightarrow>
            (\<forall>m. form (snd r) m =
                   (if propagate \<and> m \<in> set mpss
                    then (form w m)[nat i := (if fwd then CHR ''L'' else CHR ''C''),
                                    nat i + 1 := (if fwd then CHR ''C'' else CHR ''R'')]
                    else form w m))
            \<and> calls_of ''split_density_matrix'' evs =
                (if propagate
                 then map (\<lambda>x. Call ''split_density_matrix''
                             [I (if x = bra (me ex) then uint bbd else uint kbd), B fwd, B False,
                              I (int x), I i, R (cutoff ex), T (trunc_type ex)]) mpss
                 else [])
            \<and> calls_of ''propagate_wfn'' evs =
                (if propagate
                 then map (\<lambda>x. Call ''propagate_wfn''
                             [I i, I (n_sites (me ex)), I (int x), B fwd]) mpss
                 else []))"
proof -
  define mpss where "mpss = (if bra (me ex) = ket (me ex) then [bra (me ex)]
               else [bra (me ex), ket (me ex)])"
  define old where "old = (if bra (me ex) = ket (me ex) then [bra (me ex)]
                      else [ket (me ex), bra (me ex)])"
  define e0 where "e0 = [Call ''frame->activate'' [I 0]]
      @ contract_all ob (me ex) i mpss (trace w @ [Call ''frame->activate'' [I 0]])
      @ [Call ''me->eff_ham'' [F FuseLR, B False], Call ''h_eff->expect'' []]
      @ [Call ''h_eff->deallocate'' []]"
  define w0 where "w0 = emit e0 w"
  define l where "l = (if propagate then expect_split_loop ob ex i fwd bbd kbd mpss (0, 0) w0
               else (Inr (0, 0), w0))"
  define post where "post = concat (map (\<lambda>x. [Call ''old_wfn->info->deallocate'' [I (int x)],
                                        Call ''old_wfn->deallocate'' [I (int x)]]) old)"
  let ?r = "expect_update_two_dot ob ex i fwd propagate bbd kbd w"
  have d: "distinct mpss" by (simp add: mpss_def)
  have r: "?r = (case l of
                   (Inl e, w1) \<Rightarrow> (Inl e, w1)
                 | (Inr (be, ke), w1) \<Rightarrow>
                     (Inr \<lparr>ex_expectations =
                             fst (expect ob (trace w @ [Call ''frame->activate'' [I 0]]
                               @ contract_all ob (me ex) i mpss
                                   (trace w @ [Call ''frame->activate'' [I 0]])
                               @ [Call ''me->eff_ham'' [F FuseLR, B False],
                                  Call ''h_eff->expect'' []])),
                           bra_error = be, ket_error = ke,
                           ex_tmult =
                             snd (snd (expect ob (trace w @ [Call ''frame->activate'' [I 0]]
                               @ contract_all ob (me ex) i mpss
                                   (trace w @ [Call ''frame->activate'' [I 0]])
                               @ [Call ''me->eff_ham'' [F FuseLR, B False],
                                  Call ''h_eff->expect'' []]))),
                           ex_nflop =
                             fst (snd (expect ob (trace w @ [Call ''frame->activate'' [I 0]]
                               @ contract_all ob (me ex) i mpss
                                   (trace w @ [Call ''frame->activate'' [I 0]])
                               @ [Call ''me->eff_ham'' [F FuseLR, B False],
                                  Call ''h_eff->expect'' []])))\<rparr>,
                      emit post w1))"
    unfolding expect_update_two_dot_def Let_def l_def w0_def e0_def post_def old_def mpss_def
    by simp
  have ret: "(\<exists>it. fst ?r = Inr it) \<longleftrightarrow> (\<exists>e. fst l = Inr e)"
    unfolding r by (cases l; cases "fst l") (simp_all del: split_paired_Ex add: split_def)
  have sn: "snd ?r = emit post (snd l)" if "fst l = Inr e" for e
    unfolding r using that by (cases l) (simp add: split_def)
  have pc: "calls_of ''split_density_matrix'' post = []" "calls_of ''propagate_wfn'' post = []"
    by (simp_all add: post_def old_def calls_of_list)
  have ec: "calls_of ''split_density_matrix'' e0 = []" "calls_of ''propagate_wfn'' e0 = []"
    by (simp_all add: e0_def calls_of_list contract_all_calls)
  show ?thesis
  proof (cases propagate)
    case False
    then have l: "l = (Inr (0, 0), w0)" by (simp add: l_def)
    from sn[of "(0, 0)"] l have s: "snd ?r = emit post w0" by simp
    have "\<exists>it. fst ?r = Inr it" unfolding ret l by simp
    moreover have "trace (snd ?r) = trace w @ e0 @ post"
      by (simp add: s w0_def emit_simps)
    moreover have "form (snd ?r) m = form w m" for m
      by (simp add: s w0_def emit_simps)
    ultimately show ?thesis
      using False unfolding Let_def mpss_def[symmetric]
      by (simp add: calls_of_list pc ec)
  next
    case True
    then have l: "l = expect_split_loop ob ex i fwd bbd kbd mpss (0, 0) w0"
      by (simp add: l_def)
    note cl = expect_split_loop_closed[OF d, of ob ex i fwd bbd kbd "(0, 0)" w0,
                unfolded Let_def l[symmetric]]
    have f0: "form w0 m = form w m" "trace w0 = trace w @ e0" for m
      by (simp_all add: w0_def emit_simps)
    from cl have c: "(\<exists>it. fst ?r = Inr it) \<longleftrightarrow>
                     (\<forall>x\<in>set mpss. 0 \<le> i \<and> nat i + 1 < length (form w x))"
      unfolding ret by (simp add: f0)
    have p: "(\<forall>m. form (snd ?r) m =
                   (if m \<in> set mpss
                    then (form w m)[nat i := (if fwd then CHR ''L'' else CHR ''C''),
                                    nat i + 1 := (if fwd then CHR ''C'' else CHR ''R'')]
                    else form w m))
            \<and> calls_of ''split_density_matrix'' (drop (length (trace w)) (trace (snd ?r))) =
                map (\<lambda>x. Call ''split_density_matrix''
                             [I (if x = bra (me ex) then uint bbd else uint kbd), B fwd, B False,
                              I (int x), I i, R (cutoff ex), T (trunc_type ex)]) mpss
            \<and> calls_of ''propagate_wfn'' (drop (length (trace w)) (trace (snd ?r))) =
                map (\<lambda>x. Call ''propagate_wfn''
                             [I i, I (n_sites (me ex)), I (int x), B fwd]) mpss"
      if rt: "\<exists>it. fst ?r = Inr it"
    proof -
      from rt ret obtain e where e: "fst l = Inr e" by blast
      from cl e obtain evs where
        f: "\<forall>m. form (snd l) m =
                   (if m \<in> set mpss
                    then (form w0 m)[nat i := (if fwd then CHR ''L'' else CHR ''C''),
                                    nat i + 1 := (if fwd then CHR ''C'' else CHR ''R'')]
                    else form w0 m)" and
        t: "trace (snd l) = trace w0 @ evs" and
        s: "calls_of ''split_density_matrix'' evs =
                map (\<lambda>x. Call ''split_density_matrix''
                             [I (if x = bra (me ex) then uint bbd else uint kbd), B fwd, B False,
                              I (int x), I i, R (cutoff ex), T (trunc_type ex)]) mpss" and
        q: "calls_of ''propagate_wfn'' evs =
                map (\<lambda>x. Call ''propagate_wfn''
                             [I i, I (n_sites (me ex)), I (int x), B fwd]) mpss"
        by blast
      have tr: "trace (snd ?r) = trace w @ e0 @ evs @ post"
        by (simp add: sn[OF e] emit_simps t f0)
      have fm: "form (snd ?r) m = form (snd l) m" for m
        by (simp add: sn[OF e] emit_simps)
      show ?thesis
        unfolding tr fm using f s q
        by (simp add: f0 calls_of_list pc ec)
    qed
    from c p True show ?thesis
      unfolding Let_def mpss_def[symmetric] by simp
  qed
qed

text \<open>
  C10.  A two-site update of Compress whose bra and ket are one object fails its first
  assertion: nothing is called and nothing is changed; the update returns only for
  distinct objects (with both sites inside both tag strings).  A two-site update of Expect
  whose bra and ket are one object is supported: it returns whenever it is not asked
  to propagate, or both sites lie inside the tag string, and when it propagates it treats
  the shared object once: one split of the density matrix, with the bond dimension of the
  bra, one propagation of the wavefunction, and one update of the two tags, the tags of
  every other object being left alone.
\<close>

theorem update_two_dot_aliasing:
  "(bra (me c) = ket (me c) \<longrightarrow>
      compress_update_two_dot ob c i fwd bbd kbd noise w = (Inl AssertionFailed, w))
   \<and> ((\<exists>it. fst (compress_update_two_dot ob c i fwd bbd kbd noise w) = Inr it) \<longleftrightarrow>
         bra (me c) \<noteq> ket (me c) \<and> 0 \<le> i
         \<and> nat i + 1 < length (form w (bra (me c)))
         \<and> nat i + 1 < length (form w (ket (me c))))
   \<and> (bra (me ex) = ket (me ex) \<longrightarrow>
        (let k = ket (me ex);
             r = expect_update_two_dot ob ex i fwd propagate bbd kbd w;
             evs = drop (length (trace w)) (trace (snd r))
         in ((\<exists>it. fst r = Inr it) \<longleftrightarrow>
               (propagate \<longrightarrow> 0 \<le> i \<and> nat i + 1 < length (form w k)))
            \<and> ((\<exists>it. fst r = Inr it) \<and> propagate \<longrightarrow>
                  form (snd r) k =
                    (form w k)[nat i := (if fwd then CHR ''L'' else CHR ''C''),
                               nat i + 1 := (if fwd then CHR ''C'' else CHR ''R'')]
                  \<and> (\<forall>m. m \<noteq> k \<longrightarrow> form (snd r) m = form w m)
                  \<and> calls_of ''split_density_matrix'' evs =
                      [Call ''split_density_matrix''
                         [I (uint bbd), B fwd, B False, I (int k), I i, R (cutoff ex),
                          T (trunc_type ex)]]
                  \<and> calls_of ''propagate_wfn'' evs =
                      [Call ''propagate_wfn'' [I i, I (n_sites (me ex)), I (int k), B fwd]])))"
proof (intro conjI impI)
  assume "bra (me c) = ket (me c)"
  then show "compress_update_two_dot ob c i fwd bbd kbd noise w = (Inl AssertionFailed, w)"
    by (simp add: compress_update_two_dot_def)
next
  show "(\<exists>it. fst (compress_update_two_dot ob c i fwd bbd kbd noise w) = Inr it) \<longleftrightarrow>
         bra (me c) \<noteq> ket (me c) \<and> 0 \<le> i
         \<and> nat i + 1 < length (form w (bra (me c)))
         \<and> nat i + 1 < length (form w (ket (me c)))"
    by (rule compress_update_two_dot_completes)
next
  assume eq: "bra (me ex) = ket (me ex)"
  let ?r = "expect_update_two_dot ob ex i fwd propagate bbd kbd w"
  let ?k = "ket (me ex)"
  note cl = expect_update_two_dot_closed[of ex ob i fwd propagate bbd kbd w, unfolded Let_def]
  from cl eq have c: "(\<exists>it. fst ?r = Inr it) \<longleftrightarrow>
               (propagate \<longrightarrow> 0 \<le> i \<and> nat i + 1 < length (form w ?k))"
    by simp
  have p: "form (snd ?r) ?k =
                    (form w ?k)[nat i := (if fwd then CHR ''L'' else CHR ''C''),
                               nat i + 1 := (if fwd then CHR ''C'' else CHR ''R'')]
                  \<and> (\<forall>m. m \<noteq> ?k \<longrightarrow> form (snd ?r) m = form w m)
                  \<and> calls_of ''split_density_matrix'' (drop (length (trace w)) (trace (snd ?r))) =
                      [Call ''split_density_matrix''
                         [I (uint bbd), B fwd, B False, I (int ?k), I i, R (cutoff ex),
                          T (trunc_type ex)]]
                  \<and> calls_of ''propagate_wfn'' (drop (length (trace w)) (trace (snd ?r))) =
                      [Call ''propagate_wfn'' [I i, I (n_sites (me ex)), I (int ?k), B fwd]]"
    if ret: "\<exists>it. fst ?r = Inr it" and pr: propagate
  proof -
    from cl ret have
      f: "\<forall>m. form (snd ?r) m =
                   (if propagate \<and> m \<in> set (if bra (me ex) = ket (me ex) then [bra (me ex)]
                                               else [bra (me ex), ket (me ex)])
                    then (form w m)[nat i := (if fwd then CHR ''L'' else CHR ''C''),
                                    nat i + 1 := (if fwd then CHR ''C'' else CHR ''R'')]
                    else form w m)" and
      s: "calls_of ''split_density_matrix'' (drop (length (trace w)) (trace (snd ?r))) =
                (if propagate
                 then map (\<lambda>x. Call ''split_density_matrix''
                             [I (if x = bra (me ex) then uint bbd else uint kbd), B fwd, B False,
                              I (int x), I i, R (cutoff ex), T (trunc_type ex)])
                        (if bra (me ex) = ket (me ex) then [bra (me ex)]
                         else [bra (me ex), ket (me ex)])
                 else [])" and
      q: "calls_of ''propagate_wfn'' (drop (length (trace w)) (trace (snd ?r))) =
                (if propagate
                 then map (\<lambda>x. Call ''propagate_wfn''
                             [I i, I (n_sites (me ex)), I (int x), B fwd])
                        (if bra (me ex) = ket (me ex) then [bra (me ex)]
                         else [bra (me ex), ket (me ex)])
                 else [])"
      by blast+
    from f pr eq have "form (snd ?r) ?k =
                    (form w ?k)[nat i := (if fwd then CHR ''L'' else CHR ''C''),
                               nat i + 1 := (if fwd then CHR ''C'' else CHR ''R'')]"
      and "\<forall>m. m \<noteq> ?k \<longrightarrow> form (snd ?r) m = form w m"
      by simp_all
    moreover from s q pr eq have
      "calls_of ''split_density_matrix'' (drop (length (trace w)) (trace (snd ?r))) =
                      [Call ''split_density_matrix''
                         [I (uint bbd), B fwd, B False, I (int ?k), I i, R (cutoff ex),
                          T (trunc_type ex)]]"
      "calls_of ''propagate_wfn'' (drop (length (trace w)) (trace (snd ?r))) =
                      [Call ''propagate_wfn'' [I i, I (n_sites (me ex)), I (int ?k), B fwd]]"
      by simp_all
    ultimately show ?thesis by blast
  qed
  from c p
  show "let k = ket (me ex);
             r = expect_update_two_dot ob ex i fwd propagate bbd kbd w;
             evs = drop (length (trace w)) (trace (snd r))
         in ((\<exists>it. fst r = Inr it) \<longleftrightarrow>
               (propagate \<longrightarrow> 0 \<le> i \<and> nat i + 1 < length (form w k)))
            \<and> ((\<exists>it. fst r = Inr it) \<and> propagate \<longrightarrow>
                  form (snd r) k =
                    (form w k)[nat i := (if fwd then CHR ''L'' else CHR ''C''),
                               nat i + 1 := (if fwd then CHR ''C'' else CHR ''R'')]
                  \<and> (\<forall>m. m \<noteq> k \<longrightarrow> form (snd r) m = form w m)
                  \<and> calls_of ''split_density_matrix'' evs =
                      [Call ''split_density_matrix''
                         [I (uint bbd), B fwd, B False, I (int k), I i, R (cutoff ex),
                          T (trunc_type ex)]]
                  \<and> calls_of ''propagate_wfn'' evs =
                      [Call ''propagate_wfn'' [I i, I (n_sites (me ex)), I (int k), B fwd]])"
    unfolding Let_def by blast
qed

theorem update_two_dot_aliasing_witness:
  "compress_update_two_dot sample_obs (Compress (sample_me 1 1 2 5) [100] [100] [0])
     1 True 100 100 0 (sample_world (sample_mps ''LCCRR'') (sample_mps ''LCCRR'')) =
     (Inl AssertionFailed, sample_world (sample_mps ''LCCRR'') (sample_mps ''LCCRR''))
   \<and> (\<exists>it. fst (compress_update_two_dot sample_obs
                   (Compress (sample_me 0 1 2 5) [100] [100] [0])
                   1 True 100 100 0
                   (sample_world (sample_mps ''LCCRR'') (sample_mps ''LCCRR''))) = Inr it)
   \<and> (\<exists>it. fst (expect_update_two_dot sample_obs (Expect (sample_me 1 1 2 5) 100 200)
                   1 True True 100 200
                   (sample_world (sample_mps ''LCCRR'') (sample_mps ''LCCRR''))) = Inr it)
   \<and> form (snd (expect_update_two_dot sample_obs (Expect (sample_me 1 1 2 5) 100 200)
                   1 True True 100 200
                   (sample_world (sample_mps ''LCCRR'') (sample_mps ''LCCRR'')))) 1 = ''LLCRR''
   \<and> form (snd (expect_update_two_dot sample_obs (Expect (sample_me 1 1 2 5) 100 200)
                   1 True True 100 200
                   (sample_world (sample_mps ''LCCRR'') (sample_mps ''LCCRR'')))) 0 = ''LCCRR''
   \<and> calls_of ''split_density_matrix''
        (trace (snd (expect_update_two_dot sample_obs (Expect (sample_me 1 1 2 5) 100 200)
                   1 True True 100 200
                   (sample_world (sample_mps ''LCCRR'') (sample_mps ''LCCRR''))))) =
       [Call ''split_density_matrix'' [I 100, B True, B False, I 1, I 1, R 0, T Physical]]"
proof -
  let ?W = "sample_world (sample_mps ''LCCRR'') (sample_mps ''LCCRR'')"
  let ?C1 = "Compress (sample_me 1 1 2 5) [100] [100] [0]"
  let ?C2 = "Compress (sample_me 0 1 2 5) [100] [100] [0]"
  let ?E = "Expect (sample_me 1 1 2 5) 100 200"
  have k: "bra (me ?C1) = Suc 0" "ket (me ?C1) = Suc 0" "bra (me ?C2) = 0" "ket (me ?C2) = Suc 0"
    "bra (me ?E) = Suc 0" "ket (me ?E) = Suc 0" "cutoff ?E = 0" "trunc_type ?E = Physical"
    "n_sites (me ?E) = 5"
    by (simp_all add: Compress_def Expect_def sample_me_def)
  have s: "form ?W (Suc 0) = ''LCCRR''" "form ?W 0 = ''LCCRR''" "trace ?W = []"
    by (simp_all add: form_def sample_world_def sample_mps_def)
  note a = update_two_dot_aliasing
     [where c = ?C1 and ob = sample_obs and i = 1 and fwd = True and bbd = 100 and kbd = 100
        and noise = 0 and w = ?W and ex = ?E and propagate = True, unfolded Let_def k s]
  note b = update_two_dot_aliasing
     [where c = ?C2 and ob = sample_obs and i = 1 and fwd = True and bbd = 100 and kbd = 100
        and noise = 0 and w = ?W and ex = ?E and propagate = True, unfolded Let_def k s]
  note c = update_two_dot_aliasing
     [where c = ?C2 and ob = sample_obs and i = 1 and fwd = True and bbd = 100 and kbd = 200
        and noise = 0 and w = ?W and ex = ?E and propagate = True, unfolded Let_def k s]
  from a have 1: "compress_update_two_dot sample_obs ?C1 1 True 100 100 0 ?W =
                  (Inl AssertionFailed, ?W)"
    by simp
  from b have 2: "\<exists>it. fst (compress_update_two_dot sample_obs ?C2 1 True 100 100 0 ?W) = Inr it"
    by simp
  from c have 3: "(\<exists>it. fst (expect_update_two_dot sample_obs ?E 1 True True 100 200 ?W) = Inr it)
     \<and> form (snd (expect_update_two_dot sample_obs ?E 1 True True 100 200 ?W)) 1 = ''LLCRR''
     \<and> form (snd (expect_update_two_dot sample_obs ?E 1 True True 100 200 ?W)) 0 = ''LCCRR''
     \<and> calls_of ''split_density_matrix''
        (trace (snd (expect_update_two_dot sample_obs ?E 1 True True 100 200 ?W))) =
       [Call ''split_density_matrix'' [I 100, B True, B False, I 1, I 1, R 0, T Physical]]"
    by (simp add: s)
  from 1 2 3 show ?thesis by (intro conjI) simp_all
qed

subsection \<open>Partition weights and thermal averages\<close>
















end
